theory Spec2Isabelle
  imports Complex_Main "HOL-Library.AList"
begin

text \<open>
  A model of the ledger transaction and reversal engine of a jewellery-trading back end
  (an Express application over MongoDB): the stock route, the karigar route, the ledger
  route, the settlement route and the voucher route, with the schema checks of the
  documents they save. Each route handler is a function from the tenant's documents and
  a request to a response and the documents left behind; an exception thrown in a handler
  is the \<open>Inl\<close> branch of its result. Requests are served one at a time: the
  interleaving of concurrent requests is outside the model. Authentication, licensing and
  the listing and reporting routes change neither a ledger balance nor a stock counter
  and are left out.
\<close>

section \<open>Values, errors and the environment\<close>

subsection \<open>JavaScript numbers\<close>

text \<open>
  A JavaScript number is a finite double, one of the two infinities, or \<open>NaN\<close>. A finite
  double is modelled as a rational, and a finite result of an operation is kept exact:
  rounding is outside the model. Overflow is inside it: a result whose magnitude reaches
  \<open>2^1024 - 2^970\<close>, the point from which IEEE 754 rounds to an infinity, is that
  infinity. The two zeros are not distinguished.
\<close>

datatype num = Fin rat | PInf | NInf | NaN

definition OVERFLOW_THRESHOLD :: rat where
  "OVERFLOW_THRESHOLD = 2 ^ 1024 - 2 ^ 970"

text \<open>The number an exact finite result is delivered as.\<close>

definition num_of :: "rat \<Rightarrow> num" where
  "num_of r = (if OVERFLOW_THRESHOLD \<le> r then PInf
               else if r \<le> - OVERFLOW_THRESHOLD then NInf
               else Fin r)"

text \<open>
  The operators \<open>+\<close>, unary and binary \<open>-\<close>, \<open>*\<close>, \<open>/\<close>, \<open><\<close> and \<open><=\<close> of JavaScript.
  A comparison with \<open>NaN\<close> is false. The handlers never divide by zero (a rate of zero is
  replaced by 1, the other divisors are constants); for that case the zero is taken to
  be positive.
\<close>

instantiation num :: "{zero, plus, uminus, minus, times, inverse, ord}"
begin

definition zero_num :: num where
  "0 = Fin 0"

fun plus_num :: "num \<Rightarrow> num \<Rightarrow> num" where
  "Fin a + Fin b = num_of (a + b)"
| "NaN + y = NaN"
| "x + NaN = NaN"
| "PInf + NInf = NaN"
| "NInf + PInf = NaN"
| "PInf + y = PInf"
| "x + PInf = PInf"
| "NInf + y = NInf"
| "x + NInf = NInf"

fun uminus_num :: "num \<Rightarrow> num" where
  "- Fin a = Fin (- a)"
| "- PInf = NInf"
| "- NInf = PInf"
| "- NaN = NaN"

definition minus_num :: "num \<Rightarrow> num \<Rightarrow> num" where
  "x - y = x + (- y :: num)"

fun times_num :: "num \<Rightarrow> num \<Rightarrow> num" where
  "Fin a * Fin b = num_of (a * b)"
| "NaN * y = NaN"
| "x * NaN = NaN"
| "Fin a * PInf = (if a = 0 then NaN else if 0 < a then PInf else NInf)"
| "Fin a * NInf = (if a = 0 then NaN else if 0 < a then NInf else PInf)"
| "PInf * Fin b = (if b = 0 then NaN else if 0 < b then PInf else NInf)"
| "NInf * Fin b = (if b = 0 then NaN else if 0 < b then NInf else PInf)"
| "PInf * PInf = PInf"
| "PInf * NInf = NInf"
| "NInf * PInf = NInf"
| "NInf * NInf = PInf"

fun divide_num :: "num \<Rightarrow> num \<Rightarrow> num" where
  "Fin a div Fin b =
     (if b = 0 then (if a = 0 then NaN else if 0 < a then PInf else NInf)
      else num_of (a / b))"
| "NaN div y = NaN"
| "x div NaN = NaN"
| "Fin a div PInf = Fin 0"
| "Fin a div NInf = Fin 0"
| "PInf div Fin b = (if 0 \<le> b then PInf else NInf)"
| "NInf div Fin b = (if 0 \<le> b then NInf else PInf)"
| "PInf div y = NaN"
| "NInf div y = NaN"

definition inverse_num :: "num \<Rightarrow> num" where
  "inverse_num x = Fin 1 div x"

fun less_num :: "num \<Rightarrow> num \<Rightarrow> bool" where
  "Fin a < Fin b = (a < b)"
| "NaN < y = False"
| "x < NaN = False"
| "x < NInf = False"
| "PInf < y = False"
| "NInf < y = True"
| "x < PInf = True"

fun less_eq_num :: "num \<Rightarrow> num \<Rightarrow> bool" where
  "Fin a \<le> Fin b = (a \<le> b)"
| "NaN \<le> y = False"
| "x \<le> NaN = False"
| "NInf \<le> y = True"
| "x \<le> PInf = True"
| "x \<le> NInf = False"
| "PInf \<le> y = False"

instance ..

end

text \<open>\<open>Number.isFinite\<close>.\<close>

definition isFinite :: "num \<Rightarrow> bool" where
  "isFinite x = (case x of Fin r \<Rightarrow> True | _ \<Rightarrow> False)"

text \<open>
  Mongoose casts a value when it is assigned to a path of type \<open>Number\<close>. \<open>NaN\<close> fails the
  cast, and the document is then refused when it is saved; the infinities are stored.
  Stored documents therefore hold no \<open>NaN\<close>.
\<close>

definition castsToNumber :: "num \<Rightarrow> bool" where
  "castsToNumber x = (x \<noteq> NaN)"

subsection \<open>Request values\<close>

text \<open>
  A value taken from a request body or from the configuration: absent (\<open>undefined\<close>),
  a number, or a value that is not a number and that \<open>Number(...)\<close> turns into \<open>NaN\<close>
  (a non-numeric string, an object; such a value is truthy). A numeric string is
  identified with the number it denotes, and \<open>null\<close> with 0. \<open>Num x\<close> is the finite
  number \<open>x\<close>. A number stored in a document is read as the value \<open>Val x\<close>.
\<close>

datatype jsval = Undefined | Val num | NotANumber

abbreviation Num :: "rat \<Rightarrow> jsval" where
  "Num x \<equiv> Val (Fin x)"

text \<open>A string-valued request field restricted to an enumeration.\<close>

datatype 'a field = Absent | Valid 'a | Invalid

text \<open>A date in a request body: missing, a date, or something that does not cast to one.\<close>

datatype jsdate = DateAbsent | DateOk int | DateBad

text \<open>
  The failures a handler answers with: the error codes of the stock route, a status 400
  or 404 with its message, the status 400 of an expired reversal window (with the
  configured number of hours, which the message quotes), and the status 500 of a document
  that the schema refuses.
\<close>

datatype error =
    InvalidNumber
  | InvalidStock
  | InsufficientStock
  | NoStockInput
  | InvalidDate
  | BadRequest string
  | NotFound string
  | WindowExpired rat
  | ServerError

text \<open>
  \<open>toNumber\<close> of the voucher, settlement and karigar routes:
  \<^verbatim>\<open>const n = Number(value); return Number.isFinite(n) ? n : fallback\<close>.
  Its result is a finite number.
\<close>

fun toNumber :: "jsval \<Rightarrow> rat \<Rightarrow> rat" where
  "toNumber (Val (Fin x)) fallback = x"
| "toNumber (Val PInf) fallback = fallback"
| "toNumber (Val NInf) fallback = fallback"
| "toNumber (Val NaN) fallback = fallback"
| "toNumber Undefined fallback = fallback"
| "toNumber NotANumber fallback = fallback"

text \<open>
  \<open>toNumber\<close> of the stock route: \<^verbatim>\<open>Number(value ?? 0)\<close>, throwing
  \<open>INVALID_NUMBER\<close> when the result is not finite.
\<close>

fun stock_toNumber :: "jsval \<Rightarrow> error + rat" where
  "stock_toNumber (Val (Fin x)) = Inr x"
| "stock_toNumber Undefined = Inr 0"
| "stock_toNumber (Val PInf) = Inl InvalidNumber"
| "stock_toNumber (Val NInf) = Inl InvalidNumber"
| "stock_toNumber (Val NaN) = Inl InvalidNumber"
| "stock_toNumber NotANumber = Inl InvalidNumber"

text \<open>
  \<open>toNumber\<close> of the ledger route: \<^verbatim>\<open>Number(value || 0)\<close>, with no finiteness
  check: an infinity passes, the falsy number \<open>NaN\<close> becomes 0, and a value that is not
  a number becomes \<open>NaN\<close>.
\<close>

fun ledger_toNumber :: "jsval \<Rightarrow> num" where
  "ledger_toNumber Undefined = 0"
| "ledger_toNumber (Val NaN) = 0"
| "ledger_toNumber (Val (Fin x)) = Fin x"
| "ledger_toNumber (Val PInf) = PInf"
| "ledger_toNumber (Val NInf) = NInf"
| "ledger_toNumber NotANumber = NaN"

text \<open>
  The environment of a request: the clock, the configured reversal window
  (\<open>CONSTANTS.REVERSAL_POLICY.WINDOW_HOURS\<close>) and whether the storage topology
  supports multi-document transactions (\<open>supportsTransactions\<close>).
\<close>

record env =
  now :: int
  windowHoursCfg :: jsval
  txn :: bool

definition getReversalWindowHours :: "env \<Rightarrow> rat" where
  "getReversalWindowHours e =
     (let configured = toNumber (windowHoursCfg e) 48
      in if configured > 0 then configured else 48)"

text \<open>
  The three routes carry the same window check under three names; \<open>createdAt\<close> is
  \<open>None\<close> when the record has no usable creation time.
\<close>

definition canReverseAt :: "env \<Rightarrow> int option \<Rightarrow> bool" where
  "canReverseAt e createdAt =
     (case createdAt of
        None \<Rightarrow> False
      | Some referenceTime \<Rightarrow>
          (let elapsedMs = now e - referenceTime;
               allowedMs = getReversalWindowHours e * 60 * 60 * 1000
           in of_int elapsedMs \<le> allowedMs))"

section \<open>Data model\<close>

text \<open>
  Numeric fields of stored documents. A field that the handlers only ever write from
  the result of a finiteness-checking \<open>toNumber\<close> is a rational; a field that receives
  the result of an arithmetic operation, or of the ledger route's \<open>toNumber\<close>, is a
  \<open>num\<close> and can hold an infinity.
\<close>

datatype metal = Gold | Silver

record balances =
  goldFineWeight :: num
  silverFineWeight :: num
  amount :: num
  cashBalance :: num
  creditBalance :: num

record opening_balance =
  ob_amount :: num
  ob_goldFineWeight :: num
  ob_silverFineWeight :: num

datatype ledger_type = Regular | Gst

record ledger =
  ledgerType :: ledger_type
  openingBalance :: opening_balance
  ledger_balances :: balances
  hasVouchers :: bool

text \<open>
  The stock counters are rationals: every quantity that reaches the stock ledger has
  passed a finiteness check, and the overflow of a counter is outside the model.
\<close>

record stock =
  gold :: rat
  silver :: rat
  cashInHand :: rat

record stock_input =
  si_gold :: rat
  si_silver :: rat
  si_cashAmount :: rat
  si_date :: int

datatype karigar_type = Given | Received

record karigar =
  k_type :: karigar_type
  k_metalType :: metal
  k_fineWeight :: rat
  k_chargeAmount :: rat
  k_isDeleted :: bool
  k_createdAt :: "int option"

datatype direction = Payment | Receipt

record settlement =
  s_ledgerId :: nat
  s_metalType :: metal
  s_balanceBefore :: rat
  s_metalRate :: rat
  s_fineGiven :: rat
  s_amount :: num
  s_direction :: direction
  s_balanceAfter_amount :: num
  s_balanceAfter_fineWeight :: num
  s_createdAt :: "int option"

datatype payment_type =
  Cash | Credit | AddCash | AddGold | AddSilver | MoneyToGold | MoneyToSilver

datatype voucher_type = Sale | Purchase

datatype invoice_type = Normal | GstInvoice

datatype gst_type = IGST | CGST_SGST

datatype voucher_status = Active | Cancelled

record item =
  i_metalType :: metal
  i_fineWeight :: rat
  i_amount :: rat

text \<open>A pair of fine weights by metal, as \<open>getFineByMetal\<close> sums them up.\<close>

record adjustment =
  adj_gold :: num
  adj_silver :: num

text \<open>
  A voucher document. \<open>v_previousLedgerState\<close> is \<open>None\<close> for a legacy voucher
  without a snapshot; the two components of \<open>stockAdjustment\<close> are \<open>jsval\<close>s because
  \<open>getVoucherStockAdjustment\<close> treats a missing component specially. The display-only
  fields (\<open>totals\<close> other than the amount, \<open>oldBalance\<close>, \<open>balanceSnapshot\<close>, bank and
  transport details) take no part in any balance or stock computation and are left out.
\<close>

record voucher =
  v_voucherNumber :: string
  v_invoiceNumber :: string
  v_ledgerId :: nat
  v_invoiceType :: invoice_type
  v_paymentType :: payment_type
  v_voucherType :: voucher_type
  v_goldRate :: rat
  v_silverRate :: rat
  v_items :: "item list"
  v_stoneAmount :: rat
  v_fineAmount :: rat
  v_totalGST :: num
  v_currentBalance_amount :: num
  v_total :: num
  v_cashReceived :: rat
  v_previousLedgerState :: "balances option"
  v_stockAdjusted :: bool
  v_stockAdjustment_gold :: jsval
  v_stockAdjustment_silver :: jsval
  v_stockRestored :: bool
  v_status :: voucher_status
  v_createdAt :: "int option"

datatype stock_mode = Bulk | ItemMode

record user =
  autoIncrement :: bool
  currentVoucherNumber :: nat
  stockMode :: stock_mode

text \<open>
  The documents of one tenant (every query of the handlers is filtered by the tenant).
  Collections are association lists from document identifiers to documents.
\<close>

record db =
  ledgers :: "(nat \<times> ledger) list"
  vouchers :: "(nat \<times> voucher) list"
  settlements :: "(nat \<times> settlement) list"
  karigars :: "(nat \<times> karigar) list"
  stockDoc :: "stock option"
  stockInputs :: "stock_input list"
  userDoc :: "user option"

section \<open>Stock ledger\<close>

definition ensureUserStock :: "stock option \<Rightarrow> stock" where
  "ensureUserStock s =
     (case s of
        None \<Rightarrow> \<lparr>gold = 0, silver = 0, cashInHand = 0\<rparr>
      | Some st \<Rightarrow> st)"

text \<open>
  \<open>deductFromStock\<close>: the conditional update
  \<^verbatim>\<open>findOneAndUpdate({gold: {$gte: gold}, silver: {$gte: silver}}, {$inc: ...})\<close>.
  The result pairs the outcome with the stock document left behind.
\<close>

definition deductFromStock ::
  "stock option \<Rightarrow> jsval \<Rightarrow> jsval \<Rightarrow> (error + stock) \<times> stock option" where
  "deductFromStock s goldFine silverFine =
     (case stock_toNumber goldFine of
        Inl e \<Rightarrow> (Inl e, s)
      | Inr g \<Rightarrow>
        (case stock_toNumber silverFine of
           Inl e \<Rightarrow> (Inl e, s)
         | Inr sv \<Rightarrow>
           if g < 0 \<or> sv < 0 then (Inl InvalidStock, s)
           else
             (let st = ensureUserStock s
              in if gold st \<ge> g \<and> silver st \<ge> sv
                 then (let st' = st\<lparr>gold := gold st - g, silver := silver st - sv\<rparr>
                       in (Inr st', Some st'))
                 else (Inl InsufficientStock, Some st))))"

definition addBackToStock ::
  "stock option \<Rightarrow> jsval \<Rightarrow> jsval \<Rightarrow> (error + stock) \<times> stock option" where
  "addBackToStock s goldFine silverFine =
     (case stock_toNumber goldFine of
        Inl e \<Rightarrow> (Inl e, s)
      | Inr g \<Rightarrow>
        (case stock_toNumber silverFine of
           Inl e \<Rightarrow> (Inl e, s)
         | Inr sv \<Rightarrow>
           if g < 0 \<or> sv < 0 then (Inl InvalidStock, s)
           else
             (let st = ensureUserStock s;
                  st' = st\<lparr>gold := gold st + g, silver := silver st + sv\<rparr>
              in (Inr st', Some st'))))"

text \<open>
  A handler that opened a session aborts it on an error, which discards its writes;
  without transaction support the writes made before the error stay.
\<close>

definition finishSession :: "env \<Rightarrow> db \<Rightarrow> (error + 'a) \<times> db \<Rightarrow> (error + 'a) \<times> db" where
  "finishSession e d0 r =
     (case fst r of
        Inl err \<Rightarrow> (Inl err, if txn e then d0 else snd r)
      | Inr v \<Rightarrow> r)"

subsection \<open>Route \<open>POST /stock/add\<close>\<close>

record stock_add_req =
  sa_gold :: jsval
  sa_silver :: jsval
  sa_cashAmount :: jsval
  sa_dateTime :: jsdate

definition stock_add_body :: "env \<Rightarrow> db \<Rightarrow> stock_add_req \<Rightarrow> (error + stock option) \<times> db" where
  "stock_add_body e d r =
     (case stock_toNumber (sa_gold r) of
        Inl err \<Rightarrow> (Inl err, d)
      | Inr g \<Rightarrow>
     (case stock_toNumber (sa_silver r) of
        Inl err \<Rightarrow> (Inl err, d)
      | Inr sv \<Rightarrow>
     (case stock_toNumber (sa_cashAmount r) of
        Inl err \<Rightarrow> (Inl err, d)
      | Inr cashAmount \<Rightarrow>
        if g < 0 \<or> sv < 0 \<or> cashAmount < 0 then (Inl InvalidStock, d)
        else if sa_dateTime r = DateBad then (Inl InvalidDate, d)
        else
          (let inputDate = (case sa_dateTime r of DateOk t \<Rightarrow> t | _ \<Rightarrow> now e);
               st' = map_option
                       (\<lambda>st. st\<lparr>gold := gold st + g, silver := silver st + sv,
                                cashInHand := cashInHand st - cashAmount\<rparr>)
                       (stockDoc d);
               inp = \<lparr>si_gold = g, si_silver = sv, si_cashAmount = cashAmount,
                      si_date = inputDate\<rparr>
           in (Inr st', d\<lparr>stockDoc := st', stockInputs := stockInputs d @ [inp]\<rparr>)))))"

definition stock_add :: "env \<Rightarrow> db \<Rightarrow> stock_add_req \<Rightarrow> (error + stock option) \<times> db" where
  "stock_add e d r = finishSession e d (stock_add_body e d r)"

subsection \<open>Route \<open>POST /stock/undo\<close>\<close>

text \<open>
  \<^verbatim>\<open>StockInput.findOne(...).sort({date: -1})\<close>: the input with the latest date
  (the earliest stored one among equals), with its position in the collection.
\<close>

fun findLastInput :: "stock_input list \<Rightarrow> (nat \<times> stock_input) option" where
  "findLastInput [] = None"
| "findLastInput (x # xs) =
     (case findLastInput xs of
        None \<Rightarrow> Some (0, x)
      | Some (j, y) \<Rightarrow> if si_date y > si_date x then Some (Suc j, y) else Some (0, x))"

definition removeAt :: "nat \<Rightarrow> 'a list \<Rightarrow> 'a list" where
  "removeAt i xs = take i xs @ drop (Suc i) xs"

definition STOCK_MIN_ALLOWED :: rat where
  "STOCK_MIN_ALLOWED = 0"

definition stock_undo_body :: "env \<Rightarrow> db \<Rightarrow> (error + stock) \<times> db" where
  "stock_undo_body e d =
     (case findLastInput (stockInputs d) of
        None \<Rightarrow> (Inl NoStockInput, d)
      | Some (i, lastInput) \<Rightarrow>
          (let st = ensureUserStock (stockDoc d);
               d1 = d\<lparr>stockDoc := Some st\<rparr>;
               updatedGold = gold st - si_gold lastInput;
               updatedSilver = silver st - si_silver lastInput;
               cashAmount = si_cashAmount lastInput
           in if updatedGold < STOCK_MIN_ALLOWED \<or> updatedSilver < STOCK_MIN_ALLOWED
              then (Inl InsufficientStock, d1)
              else
                (let st' = st\<lparr>gold := updatedGold, silver := updatedSilver,
                               cashInHand := cashInHand st + cashAmount\<rparr>
                 in (Inr st',
                     d1\<lparr>stockDoc := Some st',
                        stockInputs := removeAt i (stockInputs d)\<rparr>))))"

definition stock_undo :: "env \<Rightarrow> db \<Rightarrow> (error + stock) \<times> db" where
  "stock_undo e d = finishSession e d (stock_undo_body e d)"

section \<open>Karigar transactions\<close>

definition canReverseForKarigar :: "env \<Rightarrow> karigar \<Rightarrow> bool" where
  "canReverseForKarigar e t = canReverseAt e (k_createdAt t)"

record karigar_req =
  kr_type :: "karigar_type field"
  kr_karigarName :: string
  kr_itemName :: string
  kr_metalType :: "metal field"
  kr_fineWeight :: jsval
  kr_chargeAmount :: jsval
  kr_date :: jsdate

text \<open>The pair of magnitudes \<open>(metalType === 'gold' ? w : 0, metalType === 'silver' ? w : 0)\<close>.\<close>

definition goldPart :: "metal \<Rightarrow> rat \<Rightarrow> jsval" where
  "goldPart m w = Num (if m = Gold then w else 0)"

definition silverPart :: "metal \<Rightarrow> rat \<Rightarrow> jsval" where
  "silverPart m w = Num (if m = Silver then w else 0)"

text \<open>
  Route \<open>POST /karigar\<close>. The route opens no session: a stock change made before the
  document fails to save stays.
\<close>

definition karigar_create :: "env \<Rightarrow> db \<Rightarrow> nat \<Rightarrow> karigar_req \<Rightarrow> (error + karigar) \<times> db" where
  "karigar_create e d newId r =
     (let fineWeight = toNumber (kr_fineWeight r) 0;
          chargeAmount = max 0 (toNumber (kr_chargeAmount r) 0)
      in if kr_type r = Absent \<or> kr_karigarName r = [] \<or> kr_itemName r = []
            \<or> kr_metalType r = Absent
         then (Inl (BadRequest ''type, karigarName, itemName and metalType are required''), d)
         else
           (case kr_type r of
              Valid ty \<Rightarrow>
                (case kr_metalType r of
                   Valid m \<Rightarrow>
                     if fineWeight \<le> 0
                     then (Inl (BadRequest ''fineWeight must be greater than 0''), d)
                     else
                       (let sr = (if ty = Given
                                  then deductFromStock (stockDoc d)
                                         (goldPart m fineWeight) (silverPart m fineWeight)
                                  else addBackToStock (stockDoc d)
                                         (goldPart m fineWeight) (silverPart m fineWeight));
                            d1 = d\<lparr>stockDoc := snd sr\<rparr>
                        in case fst sr of
                             Inl err \<Rightarrow> (Inl err, d1)
                           | Inr _ \<Rightarrow>
                               if kr_date r = DateBad then (Inl ServerError, d1)
                               else
                                 (let t = \<lparr>k_type = ty, k_metalType = m,
                                           k_fineWeight = fineWeight,
                                           k_chargeAmount = chargeAmount,
                                           k_isDeleted = False,
                                           k_createdAt = Some (now e)\<rparr>
                                  in (Inr t,
                                      d1\<lparr>karigars := AList.update newId t (karigars d1)\<rparr>)))
                 | _ \<Rightarrow> (Inl (BadRequest ''metalType must be either gold or silver''), d))
            | _ \<Rightarrow> (Inl (BadRequest ''Type must be either given or received''), d)))"

text \<open>Route \<open>DELETE /karigar/:id\<close> (a soft delete).\<close>

definition karigar_delete :: "env \<Rightarrow> db \<Rightarrow> nat \<Rightarrow> (error + unit) \<times> db" where
  "karigar_delete e d kid =
     (case map_of (karigars d) kid of
        None \<Rightarrow> (Inl (NotFound ''Transaction not found''), d)
      | Some t \<Rightarrow>
          if k_isDeleted t then (Inl (BadRequest ''Transaction already deleted''), d)
          else if \<not> canReverseForKarigar e t
          then (Inl (WindowExpired (getReversalWindowHours e)), d)
          else
            (let sr = (if k_type t = Given
                       then addBackToStock (stockDoc d)
                              (goldPart (k_metalType t) (k_fineWeight t))
                              (silverPart (k_metalType t) (k_fineWeight t))
                       else deductFromStock (stockDoc d)
                              (goldPart (k_metalType t) (k_fineWeight t))
                              (silverPart (k_metalType t) (k_fineWeight t)));
                 d1 = d\<lparr>stockDoc := snd sr\<rparr>
             in case fst sr of
                  Inl err \<Rightarrow> (Inl err, d1)
                | Inr _ \<Rightarrow>
                    (Inr (),
                     d1\<lparr>karigars := AList.update kid (t\<lparr>k_isDeleted := True\<rparr>) (karigars d1)\<rparr>)))"

section \<open>Ledgers\<close>

text \<open>
  \<open>calculateUnifiedAmount\<close> of the ledger route, over the ledger route's \<open>toNumber\<close>:
  an infinite balance makes the sum infinite.
\<close>

definition ledger_calculateUnifiedAmount :: "balances \<Rightarrow> num" where
  "ledger_calculateUnifiedAmount b =
     ledger_toNumber (Val (creditBalance b)) + ledger_toNumber (Val (cashBalance b))"

text \<open>
  \<open>calculateUnifiedAmount\<close> of the settlement route and of the voucher route, over
  their finiteness-checking \<open>toNumber\<close>: a balance that is not finite counts as 0.
\<close>

definition calculateUnifiedAmount :: "balances \<Rightarrow> num" where
  "calculateUnifiedAmount b =
     Fin (toNumber (Val (creditBalance b)) 0) + Fin (toNumber (Val (cashBalance b)) 0)"

definition resetBalances :: balances where
  "resetBalances = \<lparr>goldFineWeight = 0, silverFineWeight = 0, amount = 0,
                     cashBalance = 0, creditBalance = 0\<rparr>"

text \<open>The five balances of a ledger document pass the cast of the schema.\<close>

definition balancesStorable :: "balances \<Rightarrow> bool" where
  "balancesStorable b =
     (castsToNumber (goldFineWeight b) \<and> castsToNumber (silverFineWeight b)
      \<and> castsToNumber (amount b) \<and> castsToNumber (cashBalance b)
      \<and> castsToNumber (creditBalance b))"

definition openingStorable :: "opening_balance \<Rightarrow> bool" where
  "openingStorable ob =
     (castsToNumber (ob_amount ob) \<and> castsToNumber (ob_goldFineWeight ob)
      \<and> castsToNumber (ob_silverFineWeight ob))"

definition sanitizePhone :: "string \<Rightarrow> string" where
  "sanitizePhone phone = filter (\<lambda>c. c \<in> set ''0123456789'') phone"

record ob_req =
  obr_amount :: jsval
  obr_goldFineWeight :: jsval
  obr_silverFineWeight :: jsval

text \<open>
  A ledger request. \<open>lr_gstDetailsOk\<close> says whether the GST details of the request pass
  the schema's validators (GST number format, state code); the ledger's name, phone number
  and GST details themselves are not stored in the model.
\<close>

record ledger_req =
  lr_name :: string
  lr_phoneNumber :: string
  lr_ledgerType :: "ledger_type field"
  lr_gstDetailsOk :: bool
  lr_openingBalance :: "ob_req option"
  lr_oldBalAmount :: jsval
  lr_oldBalGold :: jsval
  lr_oldBalSilver :: jsval

text \<open>The nested \<open>openingBalance\<close> payload, or else the legacy \<open>oldBal*\<close> fields.\<close>

definition incomingOpeningBalance :: "ledger_req \<Rightarrow> ob_req option" where
  "incomingOpeningBalance r =
     (case lr_openingBalance r of
        Some ob \<Rightarrow> Some ob
      | None \<Rightarrow>
          if lr_oldBalAmount r \<noteq> Undefined \<or> lr_oldBalGold r \<noteq> Undefined
             \<or> lr_oldBalSilver r \<noteq> Undefined
          then Some \<lparr>obr_amount = lr_oldBalAmount r,
                     obr_goldFineWeight = lr_oldBalGold r,
                     obr_silverFineWeight = lr_oldBalSilver r\<rparr>
          else None)"

text \<open>The three parsed opening values.\<close>

definition parseOpening :: "ob_req option \<Rightarrow> opening_balance" where
  "parseOpening ob =
     \<lparr>ob_amount = ledger_toNumber (case ob of None \<Rightarrow> Undefined | Some x \<Rightarrow> obr_amount x),
      ob_goldFineWeight =
        ledger_toNumber (case ob of None \<Rightarrow> Undefined | Some x \<Rightarrow> obr_goldFineWeight x),
      ob_silverFineWeight =
        ledger_toNumber (case ob of None \<Rightarrow> Undefined | Some x \<Rightarrow> obr_silverFineWeight x)\<rparr>"

text \<open>
  Route \<open>POST /ledgers\<close>. Every exception is answered with status 500; the save fails
  when the ledger type is not one of the two known ones, when the GST details do not
  validate, or when an opening value is \<open>NaN\<close>.
\<close>

definition ledger_create :: "env \<Rightarrow> db \<Rightarrow> nat \<Rightarrow> ledger_req \<Rightarrow> (error + ledger) \<times> db" where
  "ledger_create e d newId r =
     (let phoneNumber = sanitizePhone (lr_phoneNumber r)
      in if lr_name r = [] then (Inl (BadRequest ''Name is required''), d)
         else if phoneNumber \<noteq> [] \<and> length phoneNumber \<noteq> 10
         then (Inl (BadRequest ''Phone number must be 10 digits''), d)
         else
           (let ob = parseOpening (incomingOpeningBalance r)
            in if lr_ledgerType r = Invalid \<or> \<not> lr_gstDetailsOk r \<or> \<not> openingStorable ob
               then (Inl ServerError, d)
               else
                 (let l = \<lparr>ledgerType = (case lr_ledgerType r of Valid t \<Rightarrow> t | _ \<Rightarrow> Regular),
                           openingBalance = ob,
                           ledger_balances =
                             \<lparr>goldFineWeight = ob_goldFineWeight ob,
                              silverFineWeight = ob_silverFineWeight ob,
                              amount = ob_amount ob,
                              cashBalance = ob_amount ob,
                              creditBalance = 0\<rparr>,
                           hasVouchers = False\<rparr>
                  in (Inr l, d\<lparr>ledgers := AList.update newId l (ledgers d)\<rparr>))))"

text \<open>The number of vouchers, and of settlements, that refer to a ledger.\<close>

definition voucherCount :: "db \<Rightarrow> nat \<Rightarrow> nat" where
  "voucherCount d lid = length (filter (\<lambda>(i, v). v_ledgerId v = lid) (vouchers d))"

definition settlementCount :: "db \<Rightarrow> nat \<Rightarrow> nat" where
  "settlementCount d lid = length (filter (\<lambda>(i, s). s_ledgerId s = lid) (settlements d))"

text \<open>
  Route \<open>PATCH /ledgers/:id\<close>. The request's name is optional here; the phone number is
  checked only when one is given.
\<close>

definition alignWithOpening :: "ledger \<Rightarrow> ledger" where
  "alignWithOpening l =
     (if ledgerType l = Gst
      then l\<lparr>ledger_balances := resetBalances\<rparr>
      else l\<lparr>ledger_balances :=
               (ledger_balances l)
                 \<lparr>goldFineWeight := ledger_toNumber (Val (ob_goldFineWeight (openingBalance l))),
                  silverFineWeight :=
                    ledger_toNumber (Val (ob_silverFineWeight (openingBalance l))),
                  cashBalance := ledger_toNumber (Val (ob_amount (openingBalance l))),
                  creditBalance := 0,
                  amount := ledger_toNumber (Val (ob_amount (openingBalance l)))\<rparr>\<rparr>)"

text \<open>
  \<open>findOneAndUpdate\<close> with the collected updates (\<open>newOpening\<close> is the parsed opening
  balance when the request carries one), followed by the re-alignment of the balances
  of a ledger that has no transactions yet.
\<close>

definition ledger_update_apply ::
  "db \<Rightarrow> nat \<Rightarrow> ledger_req \<Rightarrow> opening_balance option \<Rightarrow> (error + ledger) \<times> db" where
  "ledger_update_apply d lid r newOpening =
     (if \<not> lr_gstDetailsOk r then (Inl ServerError, d)
      else
        (case map_of (ledgers d) lid of
           None \<Rightarrow> (Inl (NotFound ''Ledger not found''), d)
         | Some l0 \<Rightarrow>
             (let l1 = (case lr_ledgerType r of
                          Valid t \<Rightarrow> l0\<lparr>ledgerType := t\<rparr>
                        | _ \<Rightarrow> l0);
                  l2 = (case newOpening of
                          None \<Rightarrow> l1
                        | Some ob \<Rightarrow> l1\<lparr>openingBalance := ob\<rparr>);
                  l3 = (if newOpening \<noteq> None
                           \<and> voucherCount d lid = 0 \<and> settlementCount d lid = 0
                        then alignWithOpening l2
                        else l2)
              in (Inr l3, d\<lparr>ledgers := AList.update lid l3 (ledgers d)\<rparr>))))"

text \<open>An opening value that is \<open>NaN\<close> fails the cast of the update.\<close>

definition ledger_update :: "env \<Rightarrow> db \<Rightarrow> nat \<Rightarrow> ledger_req \<Rightarrow> (error + ledger) \<times> db" where
  "ledger_update e d lid r =
     (let phoneNumber = sanitizePhone (lr_phoneNumber r)
      in if phoneNumber \<noteq> [] \<and> length phoneNumber \<noteq> 10
         then (Inl (BadRequest ''Phone number must be 10 digits''), d)
         else
           (case incomingOpeningBalance r of
              None \<Rightarrow> ledger_update_apply d lid r None
            | Some ob \<Rightarrow>
                if \<not> openingStorable (parseOpening (Some ob)) then (Inl ServerError, d)
                else ledger_update_apply d lid r (Some (parseOpening (Some ob)))))"

text \<open>Route \<open>DELETE /ledgers/:id/vouchers\<close>: purge every transaction of a ledger.\<close>

definition ledger_purge :: "env \<Rightarrow> db \<Rightarrow> nat \<Rightarrow> (error + unit) \<times> db" where
  "ledger_purge e d lid =
     (case map_of (ledgers d) lid of
        None \<Rightarrow> (Inl (NotFound ''Ledger not found''), d)
      | Some l \<Rightarrow>
          (let l' = l\<lparr>ledger_balances := resetBalances, hasVouchers := False\<rparr>
           in (Inr (),
               d\<lparr>vouchers := filter (\<lambda>(i, v). v_ledgerId v \<noteq> lid) (vouchers d),
                 settlements := filter (\<lambda>(i, s). s_ledgerId s \<noteq> lid) (settlements d),
                 ledgers := AList.update lid l' (ledgers d)\<rparr>)))"

subsection \<open>Route \<open>POST /ledgers/:id/recalculate-balance\<close>\<close>

text \<open>
  The self-heal of a voucher whose stored total is missing or zero: the new total, over
  the ledger route's \<open>toNumber\<close> (a stored finite number is read as it is).
\<close>

definition needsTotalFix :: "voucher \<Rightarrow> bool" where
  "needsTotalFix v = (v_total v = NaN \<or> v_total v = 0)"

definition fixVoucherTotal :: "voucher \<Rightarrow> voucher" where
  "fixVoucherTotal v =
     (let itemsTotal = foldl (\<lambda>sum it. sum + Fin (i_amount it)) 0 (v_items v);
          stoneAmount = Fin (v_stoneAmount v);
          fineAmount = Fin (v_fineAmount v);
          gstTotal = ledger_toNumber (Val (v_totalGST v))
      in v\<lparr>v_total := itemsTotal + stoneAmount + fineAmount + gstTotal\<rparr>)"

text \<open>
  The loop over the active vouchers of the ledger (\<open>mine\<close>), in the order of the
  collection: each voucher that needs it is fixed and saved. The result says whether
  every save went through; a save that is refused ends the loop, and the vouchers fixed
  before it stay fixed.
\<close>

fun fixVoucherTotals ::
  "(voucher \<Rightarrow> bool) \<Rightarrow> (nat \<times> voucher) list \<Rightarrow> bool \<times> (nat \<times> voucher) list" where
  "fixVoucherTotals mine [] = (True, [])"
| "fixVoucherTotals mine ((i, v) # vs) =
     (if mine v \<and> needsTotalFix v
      then (if \<not> castsToNumber (v_total (fixVoucherTotal v)) then (False, (i, v) # vs)
            else (case fixVoucherTotals mine vs of
                    (ok, vs') \<Rightarrow> (ok, (i, fixVoucherTotal v) # vs')))
      else (case fixVoucherTotals mine vs of (ok, vs') \<Rightarrow> (ok, (i, v) # vs')))"

text \<open>\<open>toNumber(rate) || 1\<close>: a zero rate counts as 1.\<close>

definition rateOrOne :: "rat \<Rightarrow> rat" where
  "rateOrOne r = (if r = 0 then 1 else r)"

definition addItemFine :: "balances \<Rightarrow> item \<Rightarrow> balances" where
  "addItemFine b it =
     (case i_metalType it of
        Gold \<Rightarrow> b\<lparr>goldFineWeight := goldFineWeight b + Fin (i_fineWeight it)\<rparr>
      | Silver \<Rightarrow> b\<lparr>silverFineWeight := silverFineWeight b + Fin (i_fineWeight it)\<rparr>)"

definition subItemFine :: "balances \<Rightarrow> item \<Rightarrow> balances" where
  "subItemFine b it =
     (case i_metalType it of
        Gold \<Rightarrow> b\<lparr>goldFineWeight := goldFineWeight b - Fin (i_fineWeight it)\<rparr>
      | Silver \<Rightarrow> b\<lparr>silverFineWeight := silverFineWeight b - Fin (i_fineWeight it)\<rparr>)"

definition replayVoucher :: "balances \<Rightarrow> voucher \<Rightarrow> balances" where
  "replayVoucher b v =
     (if v_invoiceType v = GstInvoice then b
      else
        (case v_paymentType v of
           Credit \<Rightarrow>
             (let b1 = foldl addItemFine b (v_items v)
              in b1\<lparr>cashBalance := cashBalance b1 + ledger_toNumber (Val (v_total v))\<rparr>)
         | Cash \<Rightarrow>
             (let balanceDelta = ledger_toNumber (Val (v_total v)) - Fin (v_cashReceived v)
              in b\<lparr>cashBalance := cashBalance b + balanceDelta\<rparr>)
         | AddCash \<Rightarrow> b\<lparr>cashBalance := cashBalance b - Fin (v_cashReceived v)\<rparr>
         | AddGold \<Rightarrow> b\<lparr>goldFineWeight := goldFineWeight b - Fin (v_cashReceived v)\<rparr>
         | AddSilver \<Rightarrow> b\<lparr>silverFineWeight := silverFineWeight b - Fin (v_cashReceived v)\<rparr>
         | MoneyToGold \<Rightarrow>
             b\<lparr>goldFineWeight :=
                 goldFineWeight b - Fin (v_cashReceived v) / Fin (rateOrOne (v_goldRate v))\<rparr>
         | MoneyToSilver \<Rightarrow>
             b\<lparr>silverFineWeight :=
                 silverFineWeight b
                   - Fin (v_cashReceived v) / Fin (rateOrOne (v_silverRate v))\<rparr>))"

definition replaySettlement :: "balances \<Rightarrow> settlement \<Rightarrow> balances" where
  "replaySettlement b s =
     (let fine = Fin (s_fineGiven s);
          amt = ledger_toNumber (Val (s_amount s));
          multiplier = Fin (if s_direction s = Receipt then 1 else - 1);
          b1 = (case s_metalType s of
                  Gold \<Rightarrow> b\<lparr>goldFineWeight := goldFineWeight b + multiplier * fine\<rparr>
                | Silver \<Rightarrow> b\<lparr>silverFineWeight := silverFineWeight b + multiplier * fine\<rparr>)
      in b1\<lparr>creditBalance := creditBalance b1 + multiplier * amt\<rparr>)"

definition ledger_recalculate :: "env \<Rightarrow> db \<Rightarrow> nat \<Rightarrow> (error + ledger) \<times> db" where
  "ledger_recalculate e d lid =
     (case map_of (ledgers d) lid of
        None \<Rightarrow> (Inl (NotFound ''Ledger not found''), d)
      | Some l \<Rightarrow>
          (let isMine = (\<lambda>v. v_ledgerId v = lid \<and> v_status v = Active);
               fixed = fixVoucherTotals isMine (vouchers d);
               vs = filter isMine (map snd (snd fixed));
               ss = filter (\<lambda>s. s_ledgerId s = lid) (map snd (settlements d));
               d1 = d\<lparr>vouchers := snd fixed\<rparr>
           in if \<not> fst fixed then (Inl ServerError, d1)
              else if ledgerType l = Gst
              then
                (let l' = l\<lparr>ledger_balances := resetBalances, hasVouchers := (vs \<noteq> [])\<rparr>
                 in (Inr l', d1\<lparr>ledgers := AList.update lid l' (ledgers d1)\<rparr>))
              else
                (let ob = openingBalance l;
                     b0 = resetBalances
                            \<lparr>goldFineWeight := ledger_toNumber (Val (ob_goldFineWeight ob)),
                             silverFineWeight := ledger_toNumber (Val (ob_silverFineWeight ob)),
                             cashBalance := ledger_toNumber (Val (ob_amount ob))\<rparr>;
                     b1 = foldl replayVoucher b0 vs;
                     b2 = foldl replaySettlement b1 ss;
                     b3 = b2\<lparr>amount := ledger_calculateUnifiedAmount b2\<rparr>;
                     l' = l\<lparr>ledger_balances := b3, hasVouchers := (vs \<noteq> [])\<rparr>
                 in if \<not> balancesStorable b3 then (Inl ServerError, d1)
                    else (Inr l', d1\<lparr>ledgers := AList.update lid l' (ledgers d1)\<rparr>))))"

section \<open>Settlements\<close>

definition canReverseForSettlement :: "env \<Rightarrow> settlement \<Rightarrow> bool" where
  "canReverseForSettlement e s = canReverseAt e (s_createdAt s)"

record settlement_req =
  sr_ledgerId :: "nat option"
  sr_metalType :: "metal field"
  sr_metalRate :: jsval
  sr_date :: jsdate
  sr_direction :: "direction field"
  sr_isMoneyConversion :: bool
  sr_fineGiven :: jsval
  sr_amount :: jsval

datatype stock_action = ActDeduct | ActAdd

text \<open>The inverse stock call of the handler's compensation paths.\<close>

definition inverseStockCall ::
  "stock option \<Rightarrow> stock_action \<Rightarrow> metal \<Rightarrow> rat \<Rightarrow> (error + stock) \<times> stock option" where
  "inverseStockCall s act m fineGiven =
     (case act of
        ActDeduct \<Rightarrow> addBackToStock s (goldPart m fineGiven) (silverPart m fineGiven)
      | ActAdd \<Rightarrow> deductFromStock s (goldPart m fineGiven) (silverPart m fineGiven))"

text \<open>
  The \<open>catch\<close> block of the create handler: when the stock was adjusted, the inverse
  call is attempted and its own failure is only logged.
\<close>

definition settlement_catch ::
  "db \<Rightarrow> stock_action option \<Rightarrow> metal \<Rightarrow> rat \<Rightarrow> error \<Rightarrow> (error + settlement) \<times> db" where
  "settlement_catch d act m fineGiven err =
     (case act of
        None \<Rightarrow> (Inl err, d)
      | Some a \<Rightarrow> (Inl err, d\<lparr>stockDoc := snd (inverseStockCall (stockDoc d) a m fineGiven)\<rparr>))"

text \<open>
  The amount of a settlement: the requested one for a money conversion, else the product
  \<open>fineGiven * rate\<close> of two finite numbers, which the handler does not check.
\<close>

definition settlementAmount :: "settlement_req \<Rightarrow> num" where
  "settlementAmount r =
     (if sr_isMoneyConversion r then Fin (toNumber (sr_amount r) 0)
      else Fin (toNumber (sr_fineGiven r) 0) * Fin (toNumber (sr_metalRate r) 0))"

text \<open>The fine-weight balance on a metal, and \<open>balanceBeforeFine\<close>, its \<open>toNumber\<close>.\<close>

definition fineOf :: "metal \<Rightarrow> balances \<Rightarrow> num" where
  "fineOf metalType b = (if metalType = Gold then goldFineWeight b else silverFineWeight b)"

definition balanceBeforeFine :: "metal \<Rightarrow> balances \<Rightarrow> rat" where
  "balanceBeforeFine metalType b = toNumber (Val (fineOf metalType b)) 0"

definition updatedFine :: "settlement_req \<Rightarrow> direction \<Rightarrow> rat \<Rightarrow> num" where
  "updatedFine r direction fineBefore =
     (let fineMultiplier = (if direction = Receipt then 1 else - 1);
          finalFineMultiplier = (if sr_isMoneyConversion r then 1 else fineMultiplier)
      in Fin fineBefore + Fin finalFineMultiplier * Fin (toNumber (sr_fineGiven r) 0))"

definition updatedCredit :: "settlement_req \<Rightarrow> direction \<Rightarrow> num \<Rightarrow> num" where
  "updatedCredit r direction credit =
     (let amountMultiplier = (if direction = Receipt then 1 else - 1);
          finalAmountMultiplier = (if sr_isMoneyConversion r then - 1 else amountMultiplier)
      in Fin (toNumber (Val credit) 0) + Fin finalAmountMultiplier * settlementAmount r)"

text \<open>The ledger write at the end of the create handler.\<close>

definition settlementBalances :: "metal \<Rightarrow> num \<Rightarrow> num \<Rightarrow> balances \<Rightarrow> balances" where
  "settlementBalances metalType newFine newCredit b =
     (let b1 = (if metalType = Gold then b\<lparr>goldFineWeight := newFine\<rparr>
                else b\<lparr>silverFineWeight := newFine\<rparr>);
          b2 = b1\<lparr>creditBalance := newCredit\<rparr>
      in b2\<lparr>amount := calculateUnifiedAmount b2\<rparr>)"

text \<open>
  The create handler after its stock call has succeeded (\<open>d1\<close> is the store with the
  adjusted stock): the negative-result check with its compensation, then the save of the
  settlement and the save of the ledger. The date must cast to a date, and the numbers
  the handler has computed must pass the cast of the schema.
\<close>

definition settlement_commit ::
  "env \<Rightarrow> db \<Rightarrow> nat \<Rightarrow> settlement_req \<Rightarrow> nat \<Rightarrow> metal \<Rightarrow> direction \<Rightarrow> ledger
     \<Rightarrow> stock_action \<Rightarrow> (error + settlement) \<times> db" where
  "settlement_commit e d1 newId r ledgerId metalType direction l act =
     (let fineGiven = toNumber (sr_fineGiven r) 0;
          b = ledger_balances l;
          fineBefore = balanceBeforeFine metalType b;
          newFine = updatedFine r direction fineBefore;
          newCredit = updatedCredit r direction (creditBalance b)
      in if newFine < 0 \<or> newCredit < 0
         then
           (let cr = inverseStockCall (stockDoc d1) act metalType fineGiven;
                d2 = d1\<lparr>stockDoc := snd cr\<rparr>
            in case fst cr of
                 Inl err \<Rightarrow> settlement_catch d2 (Some act) metalType fineGiven err
               | Inr _ \<Rightarrow>
                   (Inl (BadRequest ''Invalid settlement resulting in negative balance''), d2))
         else if sr_date r = DateBad \<or> \<not> castsToNumber (settlementAmount r)
                 \<or> \<not> castsToNumber newCredit \<or> \<not> castsToNumber newFine
         then settlement_catch d1 (Some act) metalType fineGiven ServerError
         else
           (let s = \<lparr>s_ledgerId = ledgerId,
                     s_metalType = metalType,
                     s_balanceBefore = fineBefore,
                     s_metalRate = toNumber (sr_metalRate r) 0,
                     s_fineGiven = fineGiven,
                     s_amount = settlementAmount r,
                     s_direction = direction,
                     s_balanceAfter_amount = newCredit,
                     s_balanceAfter_fineWeight = newFine,
                     s_createdAt = Some (now e)\<rparr>;
                l' = l\<lparr>ledger_balances := settlementBalances metalType newFine newCredit b\<rparr>
            in (Inr s,
                d1\<lparr>settlements := AList.update newId s (settlements d1),
                    ledgers := AList.update ledgerId l' (ledgers d1)\<rparr>)))"

text \<open>The balance pre-checks of the create handler; \<open>None\<close> when they pass.\<close>

definition settlementPrecheck ::
  "settlement_req \<Rightarrow> metal \<Rightarrow> direction \<Rightarrow> balances \<Rightarrow> error option" where
  "settlementPrecheck r metalType direction b =
     (let fineGiven = toNumber (sr_fineGiven r) 0;
          isMoneyConversion = sr_isMoneyConversion r;
          fineBefore = balanceBeforeFine metalType b;
          credit = Fin (toNumber (Val (creditBalance b)) 0);
          amt = settlementAmount r
      in if isMoneyConversion \<and> credit < amt
         then Some (BadRequest ''Insufficient cash balance for money conversion'')
         else if \<not> isMoneyConversion \<and> direction = Payment \<and> fineBefore < fineGiven
         then Some (BadRequest ''Insufficient balance for settlement'')
         else if \<not> isMoneyConversion \<and> direction = Payment \<and> credit < amt
         then Some (BadRequest ''Settlement amount exceeds pending credit balance'')
         else None)"

definition settlementStockAction :: "settlement_req \<Rightarrow> direction \<Rightarrow> stock_action" where
  "settlementStockAction r direction =
     (if direction = Payment \<and> \<not> sr_isMoneyConversion r then ActDeduct else ActAdd)"

text \<open>The first stock call of the create handler.\<close>

definition settlementStockCall ::
  "stock option \<Rightarrow> stock_action \<Rightarrow> metal \<Rightarrow> rat \<Rightarrow> (error + stock) \<times> stock option" where
  "settlementStockCall s act m fineGiven =
     (case act of
        ActDeduct \<Rightarrow> deductFromStock s (goldPart m fineGiven) (silverPart m fineGiven)
      | ActAdd \<Rightarrow> addBackToStock s (goldPart m fineGiven) (silverPart m fineGiven))"

text \<open>The create handler from the ledger lookup on.\<close>

definition settlement_process ::
  "env \<Rightarrow> db \<Rightarrow> nat \<Rightarrow> settlement_req \<Rightarrow> nat \<Rightarrow> metal \<Rightarrow> direction
     \<Rightarrow> (error + settlement) \<times> db" where
  "settlement_process e d newId r ledgerId metalType direction =
     (case map_of (ledgers d) ledgerId of
        None \<Rightarrow> (Inl (NotFound ''Ledger not found''), d)
      | Some l \<Rightarrow>
          (case settlementPrecheck r metalType direction (ledger_balances l) of
             Some err \<Rightarrow> (Inl err, d)
           | None \<Rightarrow>
               (let act = settlementStockAction r direction;
                    fineGiven = toNumber (sr_fineGiven r) 0;
                    sr = settlementStockCall (stockDoc d) act metalType fineGiven;
                    d1 = d\<lparr>stockDoc := snd sr\<rparr>
                in case fst sr of
                     Inl err \<Rightarrow> settlement_catch d1 None metalType fineGiven err
                   | Inr _ \<Rightarrow>
                       settlement_commit e d1 newId r ledgerId metalType direction l act)))"

text \<open>Route \<open>POST /settlements\<close>.\<close>

definition settlement_create ::
  "env \<Rightarrow> db \<Rightarrow> nat \<Rightarrow> settlement_req \<Rightarrow> (error + settlement) \<times> db" where
  "settlement_create e d newId r =
     (case (sr_ledgerId r, sr_metalType r) of
        (Some ledgerId, Valid metalType) \<Rightarrow>
          if sr_direction r = Invalid
          then (Inl (BadRequest ''ledgerId, metalType and direction are required''), d)
          else settlement_process e d newId r ledgerId metalType
                 (case sr_direction r of Valid x \<Rightarrow> x | _ \<Rightarrow> Payment)
      | _ \<Rightarrow> (Inl (BadRequest ''ledgerId, metalType and direction are required''), d))"

text \<open>The ledger write of the delete handler: the settlement's effect taken back.\<close>

definition unsettleBalances :: "settlement \<Rightarrow> balances \<Rightarrow> balances" where
  "unsettleBalances s b =
     (let mult = Fin (if s_direction s = Receipt then - 1 else 1);
          b1 = (if s_metalType s = Gold
                then b\<lparr>goldFineWeight := goldFineWeight b + mult * Fin (s_fineGiven s)\<rparr>
                else b\<lparr>silverFineWeight := silverFineWeight b + mult * Fin (s_fineGiven s)\<rparr>);
          b2 = b1\<lparr>creditBalance :=
                    creditBalance b1 + mult * Fin (toNumber (Val (s_amount s)) 0)\<rparr>
      in b2\<lparr>amount := calculateUnifiedAmount b2\<rparr>)"

text \<open>
  Route \<open>DELETE /settlements/:id\<close>. The ledger is saved before the stock call; a
  balance that has become \<open>NaN\<close> fails that save.
\<close>

definition settlement_delete :: "env \<Rightarrow> db \<Rightarrow> nat \<Rightarrow> (error + unit) \<times> db" where
  "settlement_delete e d sid =
     (case map_of (settlements d) sid of
        None \<Rightarrow> (Inl (NotFound ''Settlement not found''), d)
      | Some s \<Rightarrow>
          if \<not> canReverseForSettlement e s
          then (Inl (WindowExpired (getReversalWindowHours e)), d)
          else if (case map_of (ledgers d) (s_ledgerId s) of
                     None \<Rightarrow> False
                   | Some l \<Rightarrow> \<not> balancesStorable (unsettleBalances s (ledger_balances l)))
          then (Inl ServerError, d)
          else
            (let d1 = (case map_of (ledgers d) (s_ledgerId s) of
                         None \<Rightarrow> d
                       | Some l \<Rightarrow>
                           d\<lparr>ledgers :=
                               AList.update (s_ledgerId s)
                                 (l\<lparr>ledger_balances := unsettleBalances s (ledger_balances l)\<rparr>)
                                 (ledgers d)\<rparr>);
                 sr = (if s_direction s = Payment
                       then addBackToStock (stockDoc d1)
                              (goldPart (s_metalType s) (s_fineGiven s))
                              (silverPart (s_metalType s) (s_fineGiven s))
                       else deductFromStock (stockDoc d1)
                              (goldPart (s_metalType s) (s_fineGiven s))
                              (silverPart (s_metalType s) (s_fineGiven s)));
                 d2 = d1\<lparr>stockDoc := snd sr\<rparr>
             in case fst sr of
                  Inl err \<Rightarrow> (Inl err, d2)
                | Inr _ \<Rightarrow> (Inr (), d2\<lparr>settlements := AList.delete sid (settlements d2)\<rparr>)))"

section \<open>Vouchers\<close>

definition canReverseForVoucher :: "env \<Rightarrow> voucher \<Rightarrow> bool" where
  "canReverseForVoucher e v = canReverseAt e (v_createdAt v)"

text \<open>
  \<open>getCashBalanceDelta(total, cashReceived)\<close>; the second argument reaches it as a finite
  number or is made one by its \<open>toNumber\<close>.
\<close>

definition getCashBalanceDelta :: "num \<Rightarrow> rat \<Rightarrow> num" where
  "getCashBalanceDelta tot cashReceived = Fin (toNumber (Val tot) 0) - Fin cashReceived"

text \<open>The \<open>totalGST\<close> component of \<open>calculateGSTBreakdown\<close>.\<close>

definition calculateGSTBreakdown_totalGST :: "num \<Rightarrow> rat \<Rightarrow> gst_type field \<Rightarrow> num" where
  "calculateGSTBreakdown_totalGST taxableAmount rate gstType =
     (let taxable = toNumber (Val taxableAmount) 0
      in if rate = 0 \<or> taxable = 0 \<or> gstType = Absent then 0
         else
           (case gstType of
              Valid IGST \<Rightarrow> (Fin taxable * Fin rate) / Fin 100
            | Valid CGST_SGST \<Rightarrow>
                (let halfRate = Fin rate / Fin 2
                 in (Fin taxable * halfRate) / Fin 100 + (Fin taxable * halfRate) / Fin 100)
            | _ \<Rightarrow> 0))"

definition getFineByMetal :: "item list \<Rightarrow> adjustment" where
  "getFineByMetal items =
     foldl (\<lambda>acc it.
              (case i_metalType it of
                 Gold \<Rightarrow> acc\<lparr>adj_gold := adj_gold acc + Fin (i_fineWeight it)\<rparr>
               | Silver \<Rightarrow> acc\<lparr>adj_silver := adj_silver acc + Fin (i_fineWeight it)\<rparr>))
           \<lparr>adj_gold = 0, adj_silver = 0\<rparr> items"

definition hasNonZeroStockAdjustment :: "adjustment \<Rightarrow> bool" where
  "hasNonZeroStockAdjustment a =
     (toNumber (Val (adj_gold a)) 0 \<noteq> 0 \<or> toNumber (Val (adj_silver a)) 0 \<noteq> 0)"

text \<open>One of the two stock calls of \<open>applyStockAdjustmentForVoucher\<close>.\<close>

definition stockCall ::
  "stock option \<Rightarrow> bool \<Rightarrow> rat \<Rightarrow> rat \<Rightarrow> (error + stock) \<times> stock option" where
  "stockCall s shouldDeduct g sv =
     (if shouldDeduct then deductFromStock s (Num g) (Num sv)
      else addBackToStock s (Num g) (Num sv))"

text \<open>The outcome of an awaited call whose returned document is not used.\<close>

definition discardValue :: "(error + 'a) \<times> 's \<Rightarrow> (error + unit) \<times> 's" where
  "discardValue p = (case fst p of Inl err \<Rightarrow> (Inl err, snd p) | Inr _ \<Rightarrow> (Inr (), snd p))"

definition applyStockAdjustmentForVoucher ::
  "stock option \<Rightarrow> adjustment \<Rightarrow> voucher_type \<Rightarrow> bool \<Rightarrow> (error + unit) \<times> stock option" where
  "applyStockAdjustmentForVoucher s a voucherType reverse =
     (let g = toNumber (Val (adj_gold a)) 0;
          sv = toNumber (Val (adj_silver a)) 0;
          positiveGold = max 0 g;
          positiveSilver = max 0 sv;
          negativeGold = max 0 (- g);
          negativeSilver = max 0 (- sv);
          isPurchaseVoucher = (voucherType = Purchase);
          shouldDeductPositive = (if reverse then isPurchaseVoucher else \<not> isPurchaseVoucher);
          shouldDeductNegative = (if reverse then \<not> isPurchaseVoucher else isPurchaseVoucher);
          r1 = (if positiveGold > 0 \<or> positiveSilver > 0
                then discardValue (stockCall s shouldDeductPositive positiveGold positiveSilver)
                else (Inr (), s))
      in case fst r1 of
           Inl err \<Rightarrow> (Inl err, snd r1)
         | Inr _ \<Rightarrow>
             if negativeGold > 0 \<or> negativeSilver > 0
             then discardValue
                    (stockCall (snd r1) shouldDeductNegative negativeGold negativeSilver)
             else (Inr (), snd r1))"

definition BILLING_TYPES :: "payment_type list" where
  "BILLING_TYPES = [Cash, Credit]"

definition SETTLEMENT_TYPES :: "payment_type list" where
  "SETTLEMENT_TYPES = [AddCash, AddGold, AddSilver, MoneyToGold, MoneyToSilver]"

definition usesStockAdjustment :: "payment_type \<Rightarrow> bool" where
  "usesStockAdjustment paymentType = (paymentType \<in> set BILLING_TYPES)"

text \<open>\<open>toNumber(x, null)\<close> of a stored adjustment component.\<close>

definition explicitNumber :: "jsval \<Rightarrow> rat option" where
  "explicitNumber x = (case x of Val (Fin y) \<Rightarrow> Some y | _ \<Rightarrow> None)"

definition getVoucherStockAdjustment :: "voucher \<Rightarrow> adjustment" where
  "getVoucherStockAdjustment v =
     (let explicitGold = explicitNumber (v_stockAdjustment_gold v);
          explicitSilver = explicitNumber (v_stockAdjustment_silver v)
      in if explicitGold \<noteq> None \<or> explicitSilver \<noteq> None
         then \<lparr>adj_gold = Fin (case explicitGold of Some g \<Rightarrow> g | None \<Rightarrow> 0),
               adj_silver = Fin (case explicitSilver of Some sv \<Rightarrow> sv | None \<Rightarrow> 0)\<rparr>
         else if \<not> usesStockAdjustment (v_paymentType v)
         then \<lparr>adj_gold = 0, adj_silver = 0\<rparr>
         else getFineByMetal (v_items v))"

subsection \<open>Reversal\<close>

text \<open>
  The balance part of \<open>reverseVoucherEffects\<close>: the snapshot restore, each field through
  \<open>toNumber\<close>, and the arithmetic fallback for a voucher without a snapshot.
\<close>

definition reverseBalances :: "voucher \<Rightarrow> ledger \<Rightarrow> balances" where
  "reverseBalances v l =
     (let b = ledger_balances l
      in case v_previousLedgerState v of
           Some p \<Rightarrow>
             b\<lparr>goldFineWeight := Fin (toNumber (Val (goldFineWeight p)) 0),
               silverFineWeight := Fin (toNumber (Val (silverFineWeight p)) 0),
               amount := Fin (toNumber (Val (amount p)) 0),
               cashBalance := Fin (toNumber (Val (cashBalance p)) 0),
               creditBalance := Fin (toNumber (Val (creditBalance p)) 0)\<rparr>
         | None \<Rightarrow>
             if v_invoiceType v = GstInvoice \<or> ledgerType l = Gst then b
             else if v_paymentType v \<in> set SETTLEMENT_TYPES
             then
               (let b1 =
                  (case v_paymentType v of
                     AddCash \<Rightarrow>
                       if toNumber (Val (cashBalance b)) 0 \<noteq> 0
                          \<or> toNumber (Val (creditBalance b)) 0 = 0
                       then b\<lparr>cashBalance := cashBalance b - Fin (v_cashReceived v)\<rparr>
                       else b\<lparr>creditBalance := creditBalance b - Fin (v_cashReceived v)\<rparr>
                   | AddGold \<Rightarrow>
                       b\<lparr>goldFineWeight := goldFineWeight b + Fin (v_cashReceived v)\<rparr>
                   | AddSilver \<Rightarrow>
                       b\<lparr>silverFineWeight := silverFineWeight b + Fin (v_cashReceived v)\<rparr>
                   | MoneyToGold \<Rightarrow>
                       b\<lparr>goldFineWeight :=
                           goldFineWeight b
                             + Fin (v_cashReceived v) / Fin (rateOrOne (v_goldRate v))\<rparr>
                   | MoneyToSilver \<Rightarrow>
                       b\<lparr>silverFineWeight :=
                           silverFineWeight b
                             + Fin (v_cashReceived v) / Fin (rateOrOne (v_silverRate v))\<rparr>
                   | _ \<Rightarrow> b)
                in b1\<lparr>amount := calculateUnifiedAmount b1\<rparr>)
             else if v_paymentType v = Credit
             then
               (let b1 = foldl subItemFine b (v_items v);
                    b2 = b1\<lparr>cashBalance :=
                              cashBalance b1 - Fin (toNumber (Val (v_total v)) 0)\<rparr>
                in b2\<lparr>amount := calculateUnifiedAmount b2\<rparr>)
             else if v_paymentType v = Cash
             then
               (let balanceDelta = getCashBalanceDelta (v_total v) (v_cashReceived v);
                    b1 = b\<lparr>cashBalance := cashBalance b - balanceDelta\<rparr>
                in b1\<lparr>amount := calculateUnifiedAmount b1\<rparr>)
             else b)"

text \<open>
  \<open>reverseVoucherEffects\<close> mutates the voucher and the ledger it is given and calls the
  stock ledger; the callers save the two documents. The result is the mutated pair, or the
  error thrown by a stock call, with the stock document left behind.
\<close>

definition reverseVoucherEffects ::
  "voucher \<Rightarrow> ledger \<Rightarrow> stock option \<Rightarrow> bool \<Rightarrow> bool
     \<Rightarrow> (error + voucher \<times> ledger) \<times> stock option" where
  "reverseVoucherEffects v l s restoreStock markRestored =
     (let stockAdjustment = getVoucherStockAdjustment v;
          shouldRestoreStock = (restoreStock \<and> \<not> v_stockRestored v
                                \<and> hasNonZeroStockAdjustment stockAdjustment);
          sr = (if shouldRestoreStock
                then applyStockAdjustmentForVoucher s stockAdjustment (v_voucherType v) True
                else (Inr (), s))
      in case fst sr of
           Inl err \<Rightarrow> (Inl err, snd sr)
         | Inr _ \<Rightarrow>
             (let v' = (if shouldRestoreStock \<and> markRestored
                        then v\<lparr>v_stockRestored := True\<rparr> else v)
              in (Inr (v', l\<lparr>ledger_balances := reverseBalances v l\<rparr>), snd sr)))"

text \<open>
  The save of a ledger whose balances a handler has assigned: it is refused when one of
  them is \<open>NaN\<close>.
\<close>

definition ledgerSaveOk :: "ledger \<Rightarrow> bool" where
  "ledgerSaveOk l = balancesStorable (ledger_balances l)"

subsection \<open>Request processing shared by create and edit\<close>

record req_item =
  ri_itemName :: string
  ri_metalType :: "metal field"
  ri_fineWeight :: jsval
  ri_amount :: jsval

record voucher_req =
  vr_ledgerId :: "nat option"
  vr_date :: jsdate
  vr_paymentType :: "payment_type field"
  vr_invoiceType :: "invoice_type field"
  vr_invoiceNumber :: string
  vr_goldRate :: jsval
  vr_silverRate :: jsval
  vr_items :: "req_item list option"
  vr_stoneAmount :: jsval
  vr_fineAmount :: jsval
  vr_voucherNumber :: string
  vr_cashReceived :: jsval
  vr_gstType :: "gst_type field"
  vr_gstRate :: jsval
  vr_voucherType :: "voucher_type field"

definition cleanItem :: "req_item \<Rightarrow> error + item" where
  "cleanItem ri =
     (case ri_metalType ri of
        Valid m \<Rightarrow>
          if ri_itemName ri = [] then Inl (BadRequest ''Invalid item'')
          else Inr \<lparr>i_metalType = m,
                    i_fineWeight = toNumber (ri_fineWeight ri) 0,
                    i_amount = toNumber (ri_amount ri) 0\<rparr>
      | _ \<Rightarrow> Inl (BadRequest ''Invalid item''))"

fun cleanItems :: "req_item list \<Rightarrow> error + item list" where
  "cleanItems [] = Inr []"
| "cleanItems (x # xs) =
     (case cleanItem x of
        Inl err \<Rightarrow> Inl err
      | Inr it \<Rightarrow>
          (case cleanItems xs of
             Inl err \<Rightarrow> Inl err
           | Inr its \<Rightarrow> Inr (it # its)))"

definition itemsRequiredOk :: "payment_type \<Rightarrow> req_item list option \<Rightarrow> bool" where
  "itemsRequiredOk paymentType items =
     (paymentType \<in> set SETTLEMENT_TYPES
      \<or> (case items of Some (x # xs) \<Rightarrow> True | _ \<Rightarrow> False))"

definition cleanedItemsFor :: "payment_type \<Rightarrow> req_item list option \<Rightarrow> error + item list" where
  "cleanedItemsFor paymentType items =
     (if paymentType \<in> set BILLING_TYPES
      then cleanItems (case items of Some xs \<Rightarrow> xs | None \<Rightarrow> [])
      else Inr [])"

definition isGstRequest :: "voucher_req \<Rightarrow> bool" where
  "isGstRequest r = (vr_invoiceType r = Valid GstInvoice)"

text \<open>A GST invoice needs one of the two GST types.\<close>

definition gstTypeOk :: "voucher_req \<Rightarrow> bool" where
  "gstTypeOk r =
     (\<not> (isGstRequest r \<and> (case vr_gstType r of Valid g \<Rightarrow> False | _ \<Rightarrow> True)))"

text \<open>\<open>oldBalance.amount\<close>; \<open>x || y\<close> of two finite numbers is \<open>y\<close> when \<open>x\<close> is 0.\<close>

definition oldBalanceAmount :: "payment_type \<Rightarrow> balances \<Rightarrow> rat" where
  "oldBalanceAmount paymentType b =
     (let cash = toNumber (Val (cashBalance b)) 0;
          credit = toNumber (Val (creditBalance b)) 0
      in case paymentType of
           AddCash \<Rightarrow> (if cash \<noteq> 0 then cash else credit)
         | MoneyToGold \<Rightarrow> (if cash \<noteq> 0 then cash else credit)
         | MoneyToSilver \<Rightarrow> (if cash \<noteq> 0 then cash else credit)
         | _ \<Rightarrow> cash)"

definition totalsAmount :: "item list \<Rightarrow> num" where
  "totalsAmount items = foldl (\<lambda>acc it. acc + Fin (i_amount it)) 0 items"

definition reqTotalGST :: "voucher_req \<Rightarrow> item list \<Rightarrow> num" where
  "reqTotalGST r items =
     calculateGSTBreakdown_totalGST
       (totalsAmount items + Fin (toNumber (vr_stoneAmount r) 0))
       (toNumber (vr_gstRate r) 0) (vr_gstType r)"

definition reqTotal :: "voucher_req \<Rightarrow> payment_type \<Rightarrow> item list \<Rightarrow> num" where
  "reqTotal r paymentType items =
     (if paymentType \<in> set SETTLEMENT_TYPES then Fin (toNumber (vr_cashReceived r) 0)
      else totalsAmount items + Fin (toNumber (vr_stoneAmount r) 0)
             + Fin (toNumber (vr_fineAmount r) 0)
             + Fin (toNumber (Val (reqTotalGST r items)) 0))"

text \<open>\<open>currentBalance.amount\<close>, from \<open>oldBalance.amount\<close>, the total and the cash received.\<close>

definition currentBalanceAmount ::
  "payment_type \<Rightarrow> voucher_type \<Rightarrow> rat \<Rightarrow> num \<Rightarrow> rat \<Rightarrow> num" where
  "currentBalanceAmount paymentType voucherType oldAmount tot cashReceived =
     (case paymentType of
        Credit \<Rightarrow> (if voucherType = Purchase then Fin oldAmount - tot else Fin oldAmount + tot)
      | Cash \<Rightarrow>
          (if voucherType = Purchase
           then Fin oldAmount + - (Fin (toNumber (Val tot) 0) - Fin cashReceived)
           else Fin oldAmount + getCashBalanceDelta tot cashReceived)
      | AddCash \<Rightarrow> Fin oldAmount - tot
      | AddGold \<Rightarrow> Fin oldAmount
      | AddSilver \<Rightarrow> Fin oldAmount
      | MoneyToGold \<Rightarrow> Fin oldAmount - tot
      | MoneyToSilver \<Rightarrow> Fin oldAmount - tot)"

text \<open>
  The balance update of a voucher on a ledger that is not exempt (neither a GST invoice
  nor a GST ledger), ending with the recomputation of the unified amount.
\<close>

definition applyVoucherBalances ::
  "payment_type \<Rightarrow> voucher_type \<Rightarrow> item list \<Rightarrow> num \<Rightarrow> rat \<Rightarrow> rat \<Rightarrow> rat
     \<Rightarrow> balances \<Rightarrow> balances" where
  "applyVoucherBalances paymentType voucherType items currentAmount cashReceived
       goldRate silverRate b =
     (let b1 =
        (case paymentType of
           Credit \<Rightarrow>
             (let b0 = foldl (if voucherType = Purchase then subItemFine else addItemFine)
                         b items
              in b0\<lparr>cashBalance := currentAmount\<rparr>)
         | Cash \<Rightarrow> b\<lparr>cashBalance := currentAmount\<rparr>
         | AddCash \<Rightarrow>
             if toNumber (Val (cashBalance b)) 0 \<noteq> 0
                \<or> toNumber (Val (creditBalance b)) 0 = 0
             then b\<lparr>cashBalance := currentAmount\<rparr>
             else b\<lparr>creditBalance := currentAmount\<rparr>
         | AddGold \<Rightarrow> b\<lparr>goldFineWeight := goldFineWeight b - Fin cashReceived\<rparr>
         | AddSilver \<Rightarrow> b\<lparr>silverFineWeight := silverFineWeight b - Fin cashReceived\<rparr>
         | MoneyToGold \<Rightarrow>
             b\<lparr>goldFineWeight :=
                 goldFineWeight b - Fin cashReceived / Fin (rateOrOne goldRate)\<rparr>
         | MoneyToSilver \<Rightarrow>
             b\<lparr>silverFineWeight :=
                 silverFineWeight b - Fin cashReceived / Fin (rateOrOne silverRate)\<rparr>)
      in b1\<lparr>amount := calculateUnifiedAmount b1\<rparr>)"

definition applyToLedger ::
  "voucher_req \<Rightarrow> payment_type \<Rightarrow> voucher_type \<Rightarrow> item list \<Rightarrow> ledger \<Rightarrow> ledger" where
  "applyToLedger r paymentType voucherType items l =
     (let b = ledger_balances l;
          tot = reqTotal r paymentType items;
          cashReceived = toNumber (vr_cashReceived r) 0;
          currentAmount = currentBalanceAmount paymentType voucherType
                            (oldBalanceAmount paymentType b) tot cashReceived;
          l1 = (if \<not> isGstRequest r \<and> ledgerType l \<noteq> Gst
                then l\<lparr>ledger_balances :=
                         applyVoucherBalances paymentType voucherType items currentAmount
                           cashReceived (toNumber (vr_goldRate r) 0)
                           (toNumber (vr_silverRate r) 0) b\<rparr>
                else l)
      in l1\<lparr>hasVouchers := True\<rparr>)"

text \<open>
  The object \<open>previousLedgerState\<close> a voucher is given: the five balances of the ledger
  before the voucher is applied, each through \<open>toNumber\<close>.
\<close>

definition previousLedgerState :: "balances \<Rightarrow> balances" where
  "previousLedgerState b =
     \<lparr>goldFineWeight = Fin (toNumber (Val (goldFineWeight b)) 0),
      silverFineWeight = Fin (toNumber (Val (silverFineWeight b)) 0),
      amount = Fin (toNumber (Val (amount b)) 0),
      cashBalance = Fin (toNumber (Val (cashBalance b)) 0),
      creditBalance = Fin (toNumber (Val (creditBalance b)) 0)\<rparr>"

text \<open>The voucher document built from a request, with the snapshot of the ledger.\<close>

definition buildVoucher ::
  "voucher_req \<Rightarrow> nat \<Rightarrow> payment_type \<Rightarrow> voucher_type \<Rightarrow> item list \<Rightarrow> string
     \<Rightarrow> ledger \<Rightarrow> adjustment \<Rightarrow> int option \<Rightarrow> voucher" where
  "buildVoucher r ledgerId paymentType voucherType items finalVoucherNumber l
       stockAdjustment createdAt =
     (let b = ledger_balances l;
          tot = reqTotal r paymentType items;
          cashReceived = toNumber (vr_cashReceived r) 0
      in \<lparr>v_voucherNumber = finalVoucherNumber,
          v_invoiceNumber = vr_invoiceNumber r,
          v_ledgerId = ledgerId,
          v_invoiceType = (if isGstRequest r then GstInvoice else Normal),
          v_paymentType = paymentType,
          v_voucherType = voucherType,
          v_goldRate = toNumber (vr_goldRate r) 0,
          v_silverRate = toNumber (vr_silverRate r) 0,
          v_items = items,
          v_stoneAmount = toNumber (vr_stoneAmount r) 0,
          v_fineAmount = toNumber (vr_fineAmount r) 0,
          v_totalGST = (if isGstRequest r then reqTotalGST r items else 0),
          v_currentBalance_amount =
            currentBalanceAmount paymentType voucherType
              (oldBalanceAmount paymentType b) tot cashReceived,
          v_total = tot,
          v_cashReceived = cashReceived,
          v_previousLedgerState = Some (previousLedgerState b),
          v_stockAdjusted = hasNonZeroStockAdjustment stockAdjustment,
          v_stockAdjustment_gold = Val (adj_gold stockAdjustment),
          v_stockAdjustment_silver = Val (adj_silver stockAdjustment),
          v_stockRestored = False,
          v_status = Active,
          v_createdAt = createdAt\<rparr>)"

text \<open>
  The schema checks a voucher document meets when it is saved and that the handler
  itself does not make: the invoice type must be one of the two known ones, the date
  must cast to a date, and the numbers the handler has computed must pass the cast.
\<close>

definition voucherSaveOk :: "voucher_req \<Rightarrow> voucher \<Rightarrow> bool" where
  "voucherSaveOk r v =
     (vr_invoiceType r \<noteq> Invalid \<and> vr_date r \<noteq> DateBad
      \<and> castsToNumber (v_total v) \<and> castsToNumber (v_totalGST v)
      \<and> castsToNumber (v_currentBalance_amount v)
      \<and> v_stockAdjustment_gold v \<noteq> Val NaN \<and> v_stockAdjustment_silver v \<noteq> Val NaN)"

text \<open>The stock adjustment of a billing voucher of a tenant in bulk mode.\<close>

definition voucherStockAdjustment :: "user \<Rightarrow> payment_type \<Rightarrow> item list \<Rightarrow> adjustment" where
  "voucherStockAdjustment u paymentType items =
     (if stockMode u \<noteq> ItemMode \<and> usesStockAdjustment paymentType
      then getFineByMetal items
      else \<lparr>adj_gold = 0, adj_silver = 0\<rparr>)"

definition adjustStockForVoucher ::
  "stock option \<Rightarrow> adjustment \<Rightarrow> voucher_type \<Rightarrow> (error + unit) \<times> stock option" where
  "adjustStockForVoucher s a voucherType =
     (if hasNonZeroStockAdjustment a
      then applyStockAdjustmentForVoucher s a voucherType False
      else (Inr (), s))"

definition activeWith :: "(voucher \<Rightarrow> bool) \<Rightarrow> (nat \<times> voucher) list \<Rightarrow> bool" where
  "activeWith P vs = list_ex (\<lambda>(i, v). v_status v = Active \<and> P v) vs"

text \<open>\<open>String(n)\<close> for a natural number.\<close>

definition digitChar :: "nat \<Rightarrow> char" where
  "digitChar n = ''0123456789'' ! n"

fun showNat :: "nat \<Rightarrow> string" where
  "showNat n =
     (if n < 10 then [digitChar n]
      else showNat (n div 10) @ [digitChar (n mod 10)])"

declare showNat.simps [simp del]

subsection \<open>Route \<open>POST /vouchers\<close>\<close>

text \<open>
  The handler from the stock adjustment on: the stock call, then the save of the
  ledger, the save of the voucher and the save of the user's voucher counter.
\<close>

definition voucher_create_write ::
  "env \<Rightarrow> db \<Rightarrow> nat \<Rightarrow> voucher_req \<Rightarrow> nat \<Rightarrow> payment_type \<Rightarrow> voucher_type \<Rightarrow> item list
     \<Rightarrow> ledger \<Rightarrow> user \<Rightarrow> string \<Rightarrow> bool \<Rightarrow> (error + voucher) \<times> db" where
  "voucher_create_write e d newId r ledgerId paymentType voucherType items l u
       finalVoucherNumber shouldAutoIncrement =
     (let stockAdjustment = voucherStockAdjustment u paymentType items;
          sr = adjustStockForVoucher (stockDoc d) stockAdjustment voucherType;
          d1 = d\<lparr>stockDoc := snd sr\<rparr>
      in case fst sr of
           Inl err \<Rightarrow> (Inl err, d1)
         | Inr _ \<Rightarrow>
             (let v = buildVoucher r ledgerId paymentType voucherType items
                        finalVoucherNumber l stockAdjustment (Some (now e));
                  l' = applyToLedger r paymentType voucherType items l;
                  d2 = d1\<lparr>ledgers := AList.update ledgerId l' (ledgers d1)\<rparr>
              in if \<not> ledgerSaveOk l' then (Inl ServerError, d1)
                 else if \<not> voucherSaveOk r v then (Inl ServerError, d2)
                 else
                   (let d3 = d2\<lparr>vouchers := AList.update newId v (vouchers d2)\<rparr>;
                        d4 = (if shouldAutoIncrement
                              then d3\<lparr>userDoc :=
                                        Some (u\<lparr>currentVoucherNumber :=
                                                  currentVoucherNumber u + 1\<rparr>)\<rparr>
                              else d3)
                    in (Inr v, d4))))"

definition voucher_create_body ::
  "env \<Rightarrow> db \<Rightarrow> nat \<Rightarrow> voucher_req \<Rightarrow> (error + voucher) \<times> db" where
  "voucher_create_body e d newId r =
     (if vr_voucherType r = Invalid
      then (Inl (BadRequest ''Invalid voucherType. Must be sale or purchase''), d)
      else
        (let voucherType = (case vr_voucherType r of Valid t \<Rightarrow> t | _ \<Rightarrow> Sale)
         in case vr_ledgerId r of
              None \<Rightarrow> (Inl (BadRequest ''Ledger is required''), d)
            | Some ledgerId \<Rightarrow>
                (case vr_paymentType r of
                   Valid paymentType \<Rightarrow>
                     if \<not> itemsRequiredOk paymentType (vr_items r)
                     then (Inl (BadRequest
                                 ''At least one item is required for this payment type''), d)
                     else
                       (case cleanedItemsFor paymentType (vr_items r) of
                          Inl err \<Rightarrow> (Inl err, d)
                        | Inr items \<Rightarrow>
                            (case map_of (ledgers d) ledgerId of
                               None \<Rightarrow> (Inl (NotFound ''Ledger not found''), d)
                             | Some l \<Rightarrow>
                                 (case userDoc d of
                                    None \<Rightarrow> (Inl (NotFound ''User not found''), d)
                                  | Some u \<Rightarrow>
                                      if vr_invoiceNumber r \<noteq> []
                                         \<and> activeWith (\<lambda>v. v_invoiceNumber v = vr_invoiceNumber r)
                                              (vouchers d)
                                      then (Inl (BadRequest ''Invoice number already exists''), d)
                                      else
                                        (let shouldAutoIncrement =
                                               (autoIncrement u \<or> vr_voucherNumber r = []);
                                             finalVoucherNumber =
                                               (if shouldAutoIncrement
                                                then showNat (if currentVoucherNumber u = 0 then 1
                                                              else currentVoucherNumber u)
                                                else vr_voucherNumber r)
                                         in if activeWith
                                                 (\<lambda>v. v_voucherNumber v = finalVoucherNumber)
                                                 (vouchers d)
                                            then (Inl (BadRequest
                                                        ''Voucher number already exists''), d)
                                            else if \<not> gstTypeOk r
                                            then (Inl (BadRequest
                                                        ''Invalid GST type for GST invoice''), d)
                                            else voucher_create_write e d newId r ledgerId
                                                   paymentType voucherType items l u
                                                   finalVoucherNumber shouldAutoIncrement))))
                 | _ \<Rightarrow> (Inl (BadRequest ''Invalid paymentType''), d))))"

definition voucher_create :: "env \<Rightarrow> db \<Rightarrow> nat \<Rightarrow> voucher_req \<Rightarrow> (error + voucher) \<times> db" where
  "voucher_create e d newId r = finishSession e d (voucher_create_body e d newId r)"

subsection \<open>Route \<open>PATCH /vouchers/:id\<close> (cancel)\<close>

text \<open>The number of active vouchers of a ledger other than the given one.\<close>

definition remainingVouchers :: "db \<Rightarrow> nat \<Rightarrow> nat \<Rightarrow> nat" where
  "remainingVouchers d lid vid =
     length (filter (\<lambda>(i, v). v_ledgerId v = lid \<and> i \<noteq> vid \<and> v_status v = Active)
               (vouchers d))"

definition voucher_cancel_body :: "env \<Rightarrow> db \<Rightarrow> nat \<Rightarrow> bool \<Rightarrow> (error + voucher) \<times> db" where
  "voucher_cancel_body e d vid statusIsCancelled =
     (if \<not> statusIsCancelled
      then (Inl (BadRequest ''Only cancellation is supported via PATCH''), d)
      else
        (case map_of (vouchers d) vid of
           None \<Rightarrow> (Inl (NotFound ''Voucher not found''), d)
         | Some v \<Rightarrow>
             if v_status v = Cancelled then (Inl (BadRequest ''Voucher already cancelled''), d)
             else
               (let canReverse = canReverseForVoucher e v
                in case map_of (ledgers d) (v_ledgerId v) of
                     None \<Rightarrow>
                       (let v2 = v\<lparr>v_status := Cancelled\<rparr>
                        in (Inr v2, d\<lparr>vouchers := AList.update vid v2 (vouchers d)\<rparr>))
                   | Some l \<Rightarrow>
                       if \<not> canReverse
                       then
                         (let v2 = v\<lparr>v_status := Cancelled\<rparr>
                          in (Inr v2, d\<lparr>vouchers := AList.update vid v2 (vouchers d)\<rparr>))
                       else
                         (case reverseVoucherEffects v l (stockDoc d) True True of
                            (Inl err, s1) \<Rightarrow> (Inl err, d\<lparr>stockDoc := s1\<rparr>)
                          | (Inr (v1, l1), s1) \<Rightarrow>
                              (let l2 = (if remainingVouchers d (v_ledgerId v) vid = 0
                                         then l1\<lparr>hasVouchers := False\<rparr> else l1);
                                   d1 = d\<lparr>stockDoc := s1,
                                          ledgers := AList.update (v_ledgerId v) l2 (ledgers d)\<rparr>;
                                   v2 = v1\<lparr>v_status := Cancelled\<rparr>
                               in if \<not> ledgerSaveOk l2
                                  then (Inl ServerError, d\<lparr>stockDoc := s1\<rparr>)
                                  else (Inr v2,
                                        d1\<lparr>vouchers := AList.update vid v2 (vouchers d1)\<rparr>))))))"

definition voucher_cancel :: "env \<Rightarrow> db \<Rightarrow> nat \<Rightarrow> bool \<Rightarrow> (error + voucher) \<times> db" where
  "voucher_cancel e d vid statusIsCancelled =
     finishSession e d (voucher_cancel_body e d vid statusIsCancelled)"

subsection \<open>Route \<open>DELETE /vouchers/:id\<close>\<close>

text \<open>
  The first component of \<open>rr\<close> is the ledger to save, with a flag that says whether
  its balances have been assigned.
\<close>

definition voucher_delete_body :: "env \<Rightarrow> db \<Rightarrow> nat \<Rightarrow> (error + unit) \<times> db" where
  "voucher_delete_body e d vid =
     (case map_of (vouchers d) vid of
        None \<Rightarrow> (Inl (NotFound ''Voucher not found''), d)
      | Some v \<Rightarrow>
          (let canReverse = canReverseForVoucher e v
           in case map_of (ledgers d) (v_ledgerId v) of
                None \<Rightarrow> (Inr (), d\<lparr>vouchers := AList.delete vid (vouchers d)\<rparr>)
              | Some l \<Rightarrow>
                  (let rr = (if canReverse \<and> v_status v \<noteq> Cancelled
                             then (case reverseVoucherEffects v l (stockDoc d) True False of
                                     (Inl err, s1) \<Rightarrow> (Inl err, s1)
                                   | (Inr (v1, l1), s1) \<Rightarrow> (Inr (l1, True), s1))
                             else if canReverse \<and> \<not> v_stockRestored v
                             then
                               (let adjustment = getVoucherStockAdjustment v
                                in if hasNonZeroStockAdjustment adjustment
                                   then (case applyStockAdjustmentForVoucher (stockDoc d)
                                                adjustment (v_voucherType v) True of
                                           (Inl err, s1) \<Rightarrow> (Inl err, s1)
                                         | (Inr _, s1) \<Rightarrow> (Inr (l, False), s1))
                                   else (Inr (l, False), stockDoc d))
                             else (Inr (l, False), stockDoc d))
                   in case fst rr of
                        Inl err \<Rightarrow> (Inl err, d\<lparr>stockDoc := snd rr\<rparr>)
                      | Inr (l1, assigned) \<Rightarrow>
                          (let l2 = (if remainingVouchers d (v_ledgerId v) vid = 0
                                     then l1\<lparr>hasVouchers := False\<rparr> else l1);
                               d1 = d\<lparr>stockDoc := snd rr,
                                      ledgers := AList.update (v_ledgerId v) l2 (ledgers d)\<rparr>
                           in if assigned \<and> \<not> ledgerSaveOk l2
                              then (Inl ServerError, d\<lparr>stockDoc := snd rr\<rparr>)
                              else (Inr (), d1\<lparr>vouchers := AList.delete vid (vouchers d1)\<rparr>)))))"

definition voucher_delete :: "env \<Rightarrow> db \<Rightarrow> nat \<Rightarrow> (error + unit) \<times> db" where
  "voucher_delete e d vid = finishSession e d (voucher_delete_body e d vid)"

subsection \<open>Route \<open>PUT /vouchers/:id\<close> (edit)\<close>

text \<open>
  The second half of the edit: the new state is applied to the target ledger. \<open>d1\<close> is
  the store after the reversal of the old state has been saved.
\<close>

definition voucher_update_write ::
  "env \<Rightarrow> db \<Rightarrow> nat \<Rightarrow> voucher \<Rightarrow> voucher_req \<Rightarrow> nat \<Rightarrow> payment_type \<Rightarrow> voucher_type
     \<Rightarrow> item list \<Rightarrow> ledger \<Rightarrow> user \<Rightarrow> string \<Rightarrow> (error + voucher) \<times> db" where
  "voucher_update_write e d1 vid existing r ledgerId paymentType voucherType items
       targetLedger u finalVoucherNumber =
     (let stockAdjustment = voucherStockAdjustment u paymentType items;
          sr = adjustStockForVoucher (stockDoc d1) stockAdjustment voucherType;
          d2 = d1\<lparr>stockDoc := snd sr\<rparr>
      in case fst sr of
           Inl err \<Rightarrow> (Inl err, d2)
         | Inr _ \<Rightarrow>
             (let v = buildVoucher r ledgerId paymentType voucherType items
                        finalVoucherNumber targetLedger stockAdjustment (v_createdAt existing);
                  l' = applyToLedger r paymentType voucherType items targetLedger;
                  d3 = (if v_ledgerId existing \<noteq> ledgerId
                        then (case map_of (ledgers d2) (v_ledgerId existing) of
                                None \<Rightarrow> d2
                              | Some previousLedger \<Rightarrow>
                                  d2\<lparr>ledgers :=
                                       AList.update (v_ledgerId existing)
                                         (previousLedger
                                            \<lparr>hasVouchers :=
                                               (remainingVouchers d2 (v_ledgerId existing) vid
                                                > 0)\<rparr>)
                                         (ledgers d2)\<rparr>)
                        else d2);
                  d4 = d3\<lparr>ledgers := AList.update ledgerId l' (ledgers d3)\<rparr>
              in if \<not> ledgerSaveOk l' then (Inl ServerError, d3)
                 else if \<not> voucherSaveOk r v then (Inl ServerError, d4)
                 else (Inr v, d4\<lparr>vouchers := AList.update vid v (vouchers d4)\<rparr>)))"

definition voucher_update_validate ::
  "env \<Rightarrow> db \<Rightarrow> nat \<Rightarrow> voucher \<Rightarrow> ledger \<Rightarrow> voucher_req \<Rightarrow> (error + voucher) \<times> db" where
  "voucher_update_validate e d1 vid existing previousLedger r =
     (case vr_ledgerId r of
        None \<Rightarrow> (Inl (BadRequest ''Ledger is required''), d1)
      | Some ledgerId \<Rightarrow>
          (case vr_paymentType r of
             Valid paymentType \<Rightarrow>
               if vr_voucherType r = Invalid
               then (Inl (BadRequest ''Invalid voucherType. Must be sale or purchase''), d1)
               else if \<not> itemsRequiredOk paymentType (vr_items r)
               then (Inl (BadRequest
                           ''At least one item is required for this payment type''), d1)
               else
                 (let voucherType = (case vr_voucherType r of
                                       Valid t \<Rightarrow> t
                                     | _ \<Rightarrow> v_voucherType existing)
                  in case cleanedItemsFor paymentType (vr_items r) of
                       Inl err \<Rightarrow> (Inl err, d1)
                     | Inr items \<Rightarrow>
                         (case (if v_ledgerId existing = ledgerId then Some previousLedger
                                else map_of (ledgers d1) ledgerId) of
                            None \<Rightarrow> (Inl (NotFound ''Ledger not found''), d1)
                          | Some targetLedger \<Rightarrow>
                              if vr_invoiceNumber r \<noteq> []
                                 \<and> activeWith (\<lambda>v. v_invoiceNumber v = vr_invoiceNumber r)
                                      (AList.delete vid (vouchers d1))
                              then (Inl (BadRequest ''Invoice number already exists''), d1)
                              else
                                (let finalVoucherNumber =
                                       (if vr_voucherNumber r \<noteq> [] then vr_voucherNumber r
                                        else v_voucherNumber existing)
                                 in if finalVoucherNumber = []
                                    then (Inl (BadRequest ''Voucher number is required''), d1)
                                    else if activeWith
                                              (\<lambda>v. v_voucherNumber v = finalVoucherNumber)
                                              (AList.delete vid (vouchers d1))
                                    then (Inl (BadRequest ''Voucher number already exists''), d1)
                                    else if \<not> gstTypeOk r
                                    then (Inl (BadRequest
                                                ''Invalid GST type for GST invoice''), d1)
                                    else
                                      (case userDoc d1 of
                                         None \<Rightarrow> (Inl (NotFound ''User not found''), d1)
                                       | Some u \<Rightarrow>
                                           voucher_update_write e d1 vid existing r ledgerId
                                             paymentType voucherType items targetLedger u
                                             finalVoucherNumber))))
           | _ \<Rightarrow> (Inl (BadRequest ''Invalid paymentType''), d1)))"

text \<open>
  The handler up to the save of the reversal: the old state of the voucher is taken
  back from its ledger, and that ledger is saved, before the request is looked at.
\<close>

definition voucher_update_body ::
  "env \<Rightarrow> db \<Rightarrow> nat \<Rightarrow> voucher_req \<Rightarrow> (error + voucher) \<times> db" where
  "voucher_update_body e d vid r =
     (case map_of (vouchers d) vid of
        None \<Rightarrow> (Inl (NotFound ''Voucher not found''), d)
      | Some existing \<Rightarrow>
          if v_status existing = Cancelled
          then (Inl (BadRequest ''Cancelled vouchers cannot be edited''), d)
          else if \<not> canReverseForVoucher e existing
          then (Inl (WindowExpired (getReversalWindowHours e)), d)
          else
            (case map_of (ledgers d) (v_ledgerId existing) of
               None \<Rightarrow> (Inl (NotFound ''Existing voucher ledger not found''), d)
             | Some previousLedger0 \<Rightarrow>
                 (case reverseVoucherEffects existing previousLedger0 (stockDoc d) True False of
                    (Inl err, s1) \<Rightarrow> (Inl err, d\<lparr>stockDoc := s1\<rparr>)
                  | (Inr (existing1, previousLedger), s1) \<Rightarrow>
                      if \<not> ledgerSaveOk previousLedger
                      then (Inl ServerError, d\<lparr>stockDoc := s1\<rparr>)
                      else
                        (let d1 = d\<lparr>stockDoc := s1,
                                   ledgers := AList.update (v_ledgerId existing) previousLedger
                                                (ledgers d)\<rparr>
                         in voucher_update_validate e d1 vid existing1 previousLedger r))))"

definition voucher_update :: "env \<Rightarrow> db \<Rightarrow> nat \<Rightarrow> voucher_req \<Rightarrow> (error + voucher) \<times> db" where
  "voucher_update e d vid r = finishSession e d (voucher_update_body e d vid r)"

section \<open>The store as a state machine\<close>

text \<open>
  Every request that can change a ledger balance or a stock counter, with the identifier
  of the document it creates or addresses.
\<close>

datatype op =
    OpStockAdd stock_add_req
  | OpStockUndo
  | OpKarigarCreate nat karigar_req
  | OpKarigarDelete nat
  | OpLedgerCreate nat ledger_req
  | OpLedgerUpdate nat ledger_req
  | OpLedgerPurge nat
  | OpLedgerRecalculate nat
  | OpSettlementCreate nat settlement_req
  | OpSettlementDelete nat
  | OpVoucherCreate nat voucher_req
  | OpVoucherUpdate nat voucher_req
  | OpVoucherCancel nat bool
  | OpVoucherDelete nat

fun step :: "env \<Rightarrow> db \<Rightarrow> op \<Rightarrow> db" where
  "step e d (OpStockAdd r) = snd (stock_add e d r)"
| "step e d OpStockUndo = snd (stock_undo e d)"
| "step e d (OpKarigarCreate i r) = snd (karigar_create e d i r)"
| "step e d (OpKarigarDelete i) = snd (karigar_delete e d i)"
| "step e d (OpLedgerCreate i r) = snd (ledger_create e d i r)"
| "step e d (OpLedgerUpdate i r) = snd (ledger_update e d i r)"
| "step e d (OpLedgerPurge i) = snd (ledger_purge e d i)"
| "step e d (OpLedgerRecalculate i) = snd (ledger_recalculate e d i)"
| "step e d (OpSettlementCreate i r) = snd (settlement_create e d i r)"
| "step e d (OpSettlementDelete i) = snd (settlement_delete e d i)"
| "step e d (OpVoucherCreate i r) = snd (voucher_create e d i r)"
| "step e d (OpVoucherUpdate i r) = snd (voucher_update e d i r)"
| "step e d (OpVoucherCancel i b) = snd (voucher_cancel e d i b)"
| "step e d (OpVoucherDelete i) = snd (voucher_delete e d i)"

text \<open>A run: requests served one after the other, each in its own environment.\<close>

fun run :: "db \<Rightarrow> (env \<times> op) list \<Rightarrow> db" where
  "run d [] = d"
| "run d ((e, x) # xs) = run (step e d x) xs"

section \<open>Invariants and observations\<close>

definition stockOk :: "stock option \<Rightarrow> bool" where
  "stockOk s = (case s of None \<Rightarrow> True | Some st \<Rightarrow> 0 \<le> gold st \<and> 0 \<le> silver st)"

text \<open>The balances of the ledger with a given identifier, if there is one.\<close>

definition balancesOf :: "db \<Rightarrow> nat \<Rightarrow> balances option" where
  "balancesOf d lid = map_option ledger_balances (map_of (ledgers d) lid)"

text \<open>All five balances are finite numbers.\<close>

definition finiteBalances :: "balances \<Rightarrow> bool" where
  "finiteBalances b =
     (isFinite (goldFineWeight b) \<and> isFinite (silverFineWeight b) \<and> isFinite (amount b)
      \<and> isFinite (cashBalance b) \<and> isFinite (creditBalance b))"

section \<open>Example data\<close>

definition emptyDb :: db where
  "emptyDb = \<lparr>ledgers = [], vouchers = [], settlements = [], karigars = [],
              stockDoc = None, stockInputs = [], userDoc = None\<rparr>"

text \<open>A standalone storage node (no transactions) and the default window of 48 hours.\<close>

definition exEnv :: env where
  "exEnv = \<lparr>now = 1000, windowHoursCfg = Num 48, txn = False\<rparr>"

definition exStock5 :: stock where
  "exStock5 = \<lparr>gold = 5, silver = 0, cashInHand = 0\<rparr>"

definition exStock0 :: stock where
  "exStock0 = \<lparr>gold = 0, silver = 0, cashInHand = 0\<rparr>"

definition exKarigarReq :: karigar_req where
  "exKarigarReq = \<lparr>kr_type = Valid Given, kr_karigarName = ''Ravi'', kr_itemName = ''Chain'',
                    kr_metalType = Valid Gold, kr_fineWeight = Num 5, kr_chargeAmount = Num 0,
                    kr_date = DateAbsent\<rparr>"

definition exUser :: user where
  "exUser = \<lparr>autoIncrement = True, currentVoucherNumber = 1, stockMode = Bulk\<rparr>"

definition exLedgerReq :: ledger_req where
  "exLedgerReq = \<lparr>lr_name = ''Asha'', lr_phoneNumber = [], lr_ledgerType = Absent,
                   lr_gstDetailsOk = True, lr_openingBalance = None,
                   lr_oldBalAmount = Undefined, lr_oldBalGold = Undefined,
                   lr_oldBalSilver = Undefined\<rparr>"

definition exGoldItem :: req_item where
  "exGoldItem = \<lparr>ri_itemName = ''Ring'', ri_metalType = Valid Gold, ri_fineWeight = Num 10,
                  ri_amount = Num 50000\<rparr>"

text \<open>A credit sale of 10 g of fine gold for 50000 on ledger 1.\<close>

definition exCreditSale :: voucher_req where
  "exCreditSale = \<lparr>vr_ledgerId = Some 1, vr_date = DateAbsent, vr_paymentType = Valid Credit,
      vr_invoiceType = Absent, vr_invoiceNumber = [], vr_goldRate = Num 5000,
      vr_silverRate = Num 60, vr_items = Some [exGoldItem], vr_stoneAmount = Num 0,
      vr_fineAmount = Num 0, vr_voucherNumber = [], vr_cashReceived = Num 0,
      vr_gstType = Absent, vr_gstRate = Undefined, vr_voucherType = Absent\<rparr>"

text \<open>A tenant in bulk stock mode with 25 g of gold and 40 g of silver and no ledger yet.\<close>

definition exShop :: db where
  "exShop = emptyDb\<lparr>userDoc := Some exUser,
                     stockDoc := Some \<lparr>gold = 25, silver = 40, cashInHand = 0\<rparr>\<rparr>"

definition exRun :: "(env \<times> op) list" where
  "exRun = [(exEnv, OpLedgerCreate 1 exLedgerReq), (exEnv, OpVoucherCreate 7 exCreditSale)]"

text \<open>The store before the sale, after it, and after an unrelated cash settlement of 20000.\<close>

definition exBefore :: db where
  "exBefore = run exShop [(exEnv, OpLedgerCreate 1 exLedgerReq)]"

definition exSaleVoucher :: voucher where
  "exSaleVoucher =
     \<lparr>v_voucherNumber = ''1'', v_invoiceNumber = [], v_ledgerId = 1,
      v_invoiceType = Normal, v_paymentType = Credit, v_voucherType = Sale,
      v_goldRate = 5000, v_silverRate = 60,
      v_items = [\<lparr>i_metalType = Gold, i_fineWeight = 10, i_amount = 50000\<rparr>],
      v_stoneAmount = 0, v_fineAmount = 0, v_totalGST = 0,
      v_currentBalance_amount = Fin 50000, v_total = Fin 50000, v_cashReceived = 0,
      v_previousLedgerState =
        Some \<lparr>goldFineWeight = 0, silverFineWeight = 0, amount = 0,
              cashBalance = 0, creditBalance = 0\<rparr>,
      v_stockAdjusted = True, v_stockAdjustment_gold = Num 10,
      v_stockAdjustment_silver = Num 0, v_stockRestored = False,
      v_status = Active, v_createdAt = Some 1000\<rparr>"

definition exAfterSale :: db where
  "exAfterSale = snd (voucher_create exEnv exBefore 7 exCreditSale)"

definition exAddCash :: voucher_req where
  "exAddCash = \<lparr>vr_ledgerId = Some 1, vr_date = DateAbsent, vr_paymentType = Valid AddCash,
      vr_invoiceType = Absent, vr_invoiceNumber = [], vr_goldRate = Undefined,
      vr_silverRate = Undefined, vr_items = None, vr_stoneAmount = Undefined,
      vr_fineAmount = Undefined, vr_voucherNumber = [], vr_cashReceived = Num 20000,
      vr_gstType = Absent, vr_gstRate = Undefined, vr_voucherType = Absent\<rparr>"

definition exLater :: db where
  "exLater = step exEnv exAfterSale (OpVoucherCreate 8 exAddCash)"

definition exLaterLedger :: ledger where
  "exLaterLedger =
     \<lparr>ledgerType = Regular,
      openingBalance = \<lparr>ob_amount = 0, ob_goldFineWeight = 0, ob_silverFineWeight = 0\<rparr>,
      ledger_balances = \<lparr>goldFineWeight = Fin 10, silverFineWeight = 0, amount = Fin 30000,
                          cashBalance = Fin 30000, creditBalance = 0\<rparr>,
      hasVouchers = True\<rparr>"

text \<open>A ledger that owes 3 g of fine gold and has 90000 of pending credit.\<close>

definition exDebtor :: ledger where
  "exDebtor =
     \<lparr>ledgerType = Regular,
      openingBalance = \<lparr>ob_amount = 0, ob_goldFineWeight = 0, ob_silverFineWeight = 0\<rparr>,
      ledger_balances = \<lparr>goldFineWeight = Fin 3, silverFineWeight = 0, amount = Fin 90000,
                          cashBalance = 0, creditBalance = Fin 90000\<rparr>,
      hasVouchers = True\<rparr>"

definition exDebtorDb :: db where
  "exDebtorDb = exShop\<lparr>ledgers := [(1, exDebtor)]\<rparr>"

definition exPayment :: settlement_req where
  "exPayment = \<lparr>sr_ledgerId = Some 1, sr_metalType = Valid Gold, sr_metalRate = Num 5000,
                 sr_date = DateAbsent, sr_direction = Valid Payment,
                 sr_isMoneyConversion = False, sr_fineGiven = Num 5, sr_amount = Undefined\<rparr>"

text \<open>A store that still holds the sale voucher while its ledger is gone.\<close>

definition exOrphanDb :: db where
  "exOrphanDb = exShop\<lparr>vouchers := [(7, exSaleVoucher)],
                        stockDoc := Some \<lparr>gold = 15, silver = 40, cashInHand = 0\<rparr>\<rparr>"

text \<open>A store with one karigar transaction, and the store after the cancellation of the sale.\<close>

definition exKarigarDb :: db where
  "exKarigarDb = step exEnv (emptyDb\<lparr>stockDoc := Some exStock5\<rparr>) (OpKarigarCreate 1 exKarigarReq)"

definition exCancelledDb :: db where
  "exCancelledDb = snd (voucher_cancel exEnv exLater 7 True)"

text \<open>Fifty hours after the records were created, with a window of 48 hours.\<close>

definition exEnvLate :: env where
  "exEnvLate = \<lparr>now = 180001000, windowHoursCfg = Num 48, txn = False\<rparr>"

definition exSettlement :: settlement where
  "exSettlement =
     \<lparr>s_ledgerId = 1, s_metalType = Gold, s_balanceBefore = 12, s_metalRate = 5000,
      s_fineGiven = 2, s_amount = Fin 10000, s_direction = Receipt,
      s_balanceAfter_amount = Fin 10000, s_balanceAfter_fineWeight = Fin 14,
      s_createdAt = Some 1000\<rparr>"

definition exKarigar :: karigar where
  "exKarigar = \<lparr>k_type = Given, k_metalType = Gold, k_fineWeight = 5, k_chargeAmount = 0,
                 k_isDeleted = False, k_createdAt = Some 1000\<rparr>"

definition exStaleDb :: db where
  "exStaleDb = exLater\<lparr>settlements := [(3, exSettlement)], karigars := [(1, exKarigar)]\<rparr>"

text \<open>A regular ledger that owes 1000 in cash and 10 g of fine gold, and a conversion of 500 at rate 100.\<close>

definition exCashLedger :: ledger where
  "exCashLedger =
     \<lparr>ledgerType = Regular,
      openingBalance = \<lparr>ob_amount = 0, ob_goldFineWeight = 0, ob_silverFineWeight = 0\<rparr>,
      ledger_balances = \<lparr>goldFineWeight = Fin 10, silverFineWeight = 0, amount = Fin 1000,
                          cashBalance = Fin 1000, creditBalance = 0\<rparr>,
      hasVouchers = True\<rparr>"

definition exCashDb :: db where
  "exCashDb = exShop\<lparr>ledgers := [(1, exCashLedger)]\<rparr>"

definition exMoneyToGold :: voucher_req where
  "exMoneyToGold = \<lparr>vr_ledgerId = Some 1, vr_date = DateAbsent,
      vr_paymentType = Valid MoneyToGold,
      vr_invoiceType = Absent, vr_invoiceNumber = [], vr_goldRate = Num 100,
      vr_silverRate = Undefined, vr_items = None, vr_stoneAmount = Undefined,
      vr_fineAmount = Undefined, vr_voucherNumber = [], vr_cashReceived = Num 500,
      vr_gstType = Absent, vr_gstRate = Undefined, vr_voucherType = Absent\<rparr>"

text \<open>A cash purchase of a 5 g gold bar with a silver adjustment row of \<open>-3\<close> g, against an empty stock.\<close>

definition exSilverReturn :: req_item where
  "exSilverReturn = \<lparr>ri_itemName = ''Old anklet'', ri_metalType = Valid Silver,
                      ri_fineWeight = Num (- 3), ri_amount = Num (- 200)\<rparr>"

definition exGoldBar :: req_item where
  "exGoldBar = \<lparr>ri_itemName = ''Bar'', ri_metalType = Valid Gold, ri_fineWeight = Num 5,
                 ri_amount = Num 25000\<rparr>"

definition exPurchase :: voucher_req where
  "exPurchase = \<lparr>vr_ledgerId = Some 1, vr_date = DateAbsent, vr_paymentType = Valid Cash,
      vr_invoiceType = Absent, vr_invoiceNumber = [], vr_goldRate = Num 5000,
      vr_silverRate = Num 60, vr_items = Some [exGoldBar, exSilverReturn],
      vr_stoneAmount = Num 0, vr_fineAmount = Num 0, vr_voucherNumber = [],
      vr_cashReceived = Num 24800, vr_gstType = Absent, vr_gstRate = Undefined,
      vr_voucherType = Valid Purchase\<rparr>"

definition exEmptyStockDb :: db where
  "exEmptyStockDb = exCashDb\<lparr>stockDoc := Some exStock0\<rparr>"

text \<open>A GST ledger requested with an opening balance of 100 and 2 g of gold.\<close>

definition exGstLedgerReq :: ledger_req where
  "exGstLedgerReq = \<lparr>lr_name = ''GST Traders'', lr_phoneNumber = [],
      lr_ledgerType = Valid Gst, lr_gstDetailsOk = True,
      lr_openingBalance = Some \<lparr>obr_amount = Num 100, obr_goldFineWeight = Num 2,
                                 obr_silverFineWeight = Num 0\<rparr>,
      lr_oldBalAmount = Undefined, lr_oldBalGold = Undefined, lr_oldBalSilver = Undefined\<rparr>"

definition exGstDb :: db where
  "exGstDb = snd (ledger_create exEnv exShop 2 exGstLedgerReq)"

text \<open>
  A receipt of 2 g of gold at a rate of \<open>1e308\<close>: two finite numbers whose product is
  not finite.
\<close>

definition exHugeRate :: rat where
  "exHugeRate = 10 ^ 308"

definition exHugeReceipt :: settlement_req where
  "exHugeReceipt = \<lparr>sr_ledgerId = Some 1, sr_metalType = Valid Gold,
                     sr_metalRate = Num exHugeRate, sr_date = DateAbsent,
                     sr_direction = Valid Receipt, sr_isMoneyConversion = False,
                     sr_fineGiven = Num 2, sr_amount = Undefined\<rparr>"

definition exOverflowDb :: db where
  "exOverflowDb = snd (settlement_create exEnv exBefore 3 exHugeReceipt)"

text \<open>
  An edit of the sale voucher to 4 g of gold for 20000, the same edit moved to a second
  ledger, and a store that holds that second ledger.
\<close>

definition exEdit :: voucher_req where
  "exEdit = exCreditSale\<lparr>vr_items :=
              Some [exGoldItem\<lparr>ri_fineWeight := Num 4, ri_amount := Num 20000\<rparr>]\<rparr>"

definition exEditMove :: voucher_req where
  "exEditMove = exEdit\<lparr>vr_ledgerId := Some 2\<rparr>"

definition exSecondLedger :: ledger where
  "exSecondLedger =
     \<lparr>ledgerType = Regular,
      openingBalance = \<lparr>ob_amount = 0, ob_goldFineWeight = 0, ob_silverFineWeight = 0\<rparr>,
      ledger_balances = resetBalances, hasVouchers = False\<rparr>"

definition exTwoLedgers :: db where
  "exTwoLedgers = exLater\<lparr>ledgers := ledgers exLater @ [(2, exSecondLedger)]\<rparr>"

text \<open>An edit request without a ledger: it is refused after the reversal has been saved.\<close>

definition exEditNoLedger :: voucher_req where
  "exEditNoLedger = exCreditSale\<lparr>vr_ledgerId := None\<rparr>"

text \<open>
  A credit purchase of two gold bars of \<open>1e308\<close> g each, which drives the gold balance of
  the ledger to minus infinity, and a payment settlement of 0 g.
\<close>

definition exHugeBar :: req_item where
  "exHugeBar = \<lparr>ri_itemName = ''Bar'', ri_metalType = Valid Gold,
                 ri_fineWeight = Num exHugeRate, ri_amount = Num 0\<rparr>"

definition exHugePurchase :: voucher_req where
  "exHugePurchase = exCreditSale\<lparr>vr_items := Some [exHugeBar, exHugeBar],
                                 vr_voucherType := Valid Purchase\<rparr>"

definition exNegInfDb :: db where
  "exNegInfDb = snd (voucher_create exEnv exBefore 7 exHugePurchase)"

definition exZeroPayment :: settlement_req where
  "exZeroPayment = exPayment\<lparr>sr_fineGiven := Num 0\<rparr>"

text \<open>The store after that edit request has been refused, on the standalone node.\<close>

definition exFailedEdit :: db where
  "exFailedEdit = snd (voucher_update exEnv exAfterSale 7 exEditNoLedger)"

text \<open>A payment of 2 g of gold at rate 5000, which the debtor ledger covers.\<close>

definition exSmallPayment :: settlement_req where
  "exSmallPayment = exPayment\<lparr>sr_fineGiven := Num 2\<rparr>"

section \<open>JavaScript numbers: lemmas\<close>

declare zero_num_def [simp]

lemma threshold_large: "(1000000000000000 :: rat) < OVERFLOW_THRESHOLD"
  by (simp add: OVERFLOW_THRESHOLD_def)

text \<open>Results of everyday magnitude do not overflow.\<close>

lemma num_of_small: "\<bar>r\<bar> \<le> 1000000000000000 \<Longrightarrow> num_of r = Fin r"
  using threshold_large unfolding num_of_def by auto

lemma num_of_not_NaN [simp]: "num_of r \<noteq> NaN"
  by (simp add: num_of_def)

lemma toNumber_Fin [simp]: "toNumber (Val (Fin x)) fb = x"
  by simp

section \<open>Stock counters stay non-negative: lemmas\<close>

lemma ensure_ok: "stockOk s \<Longrightarrow> 0 \<le> gold (ensureUserStock s) \<and> 0 \<le> silver (ensureUserStock s)"
  by (auto simp: stockOk_def ensureUserStock_def split: option.splits)

lemma deduct_ok: "stockOk s \<Longrightarrow> stockOk (snd (deductFromStock s g sv))"
  using ensure_ok[of s]
  by (auto simp: deductFromStock_def Let_def stockOk_def split: sum.splits)

lemma addBack_ok: "stockOk s \<Longrightarrow> stockOk (snd (addBackToStock s g sv))"
  using ensure_ok[of s]
  by (auto simp: addBackToStock_def Let_def stockOk_def split: sum.splits)

lemma stockCall_ok: "stockOk s \<Longrightarrow> stockOk (snd (stockCall s b g sv))"
  by (simp add: stockCall_def deduct_ok addBack_ok)

lemma inverseStockCall_ok: "stockOk s \<Longrightarrow> stockOk (snd (inverseStockCall s a m f))"
  by (simp add: inverseStockCall_def deduct_ok addBack_ok split: stock_action.splits)

lemma snd_discardValue [simp]: "snd (discardValue p) = snd p"
  by (simp add: discardValue_def split: sum.splits)

lemma applyAdj_ok: "stockOk s \<Longrightarrow> stockOk (snd (applyStockAdjustmentForVoucher s a vt rv))"
  unfolding applyStockAdjustmentForVoucher_def Let_def
  by (simp add: stockCall_ok split: sum.splits)

lemma finish_ok:
  "stockOk (stockDoc d0) \<Longrightarrow> stockOk (stockDoc (snd r)) \<Longrightarrow> stockOk (stockDoc (snd (finishSession e d0 r)))"
  by (simp add: finishSession_def split: sum.splits)

lemma stock_add_ok: "stockOk (stockDoc d) \<Longrightarrow> stockOk (stockDoc (snd (stock_add e d r)))"
  unfolding stock_add_def
  apply (rule finish_ok, assumption)
  apply (auto simp: stock_add_body_def Let_def stockOk_def split: sum.splits option.splits)
  done

lemma stock_undo_ok: "stockOk (stockDoc d) \<Longrightarrow> stockOk (stockDoc (snd (stock_undo e d)))"
  unfolding stock_undo_def
  apply (rule finish_ok, assumption)
  using ensure_ok[of "stockDoc d"]
  apply (auto simp: stock_undo_body_def Let_def stockOk_def STOCK_MIN_ALLOWED_def
           split: sum.splits option.splits prod.splits)
  done

lemma karigar_create_ok: "stockOk (stockDoc d) \<Longrightarrow> stockOk (stockDoc (snd (karigar_create e d i r)))"
  unfolding karigar_create_def Let_def
  by (simp add: deduct_ok addBack_ok split: field.splits sum.splits)

lemma karigar_delete_ok: "stockOk (stockDoc d) \<Longrightarrow> stockOk (stockDoc (snd (karigar_delete e d i)))"
  unfolding karigar_delete_def Let_def
  by (simp add: deduct_ok addBack_ok split: option.splits sum.splits)

lemma ledger_create_ok: "stockOk (stockDoc d) \<Longrightarrow> stockOk (stockDoc (snd (ledger_create e d i r)))"
  unfolding ledger_create_def Let_def
  by (simp split: option.splits)

lemma ledger_update_ok: "stockOk (stockDoc d) \<Longrightarrow> stockOk (stockDoc (snd (ledger_update e d i r)))"
  unfolding ledger_update_def ledger_update_apply_def Let_def
  by (simp split: option.splits)

lemma ledger_purge_ok: "stockOk (stockDoc d) \<Longrightarrow> stockOk (stockDoc (snd (ledger_purge e d i)))"
  unfolding ledger_purge_def Let_def
  by (simp split: option.splits)

lemma ledger_recalc_ok: "stockOk (stockDoc d) \<Longrightarrow> stockOk (stockDoc (snd (ledger_recalculate e d i)))"
  unfolding ledger_recalculate_def Let_def
  by (simp split: option.splits)

lemma settlement_catch_ok: "stockOk (stockDoc d) \<Longrightarrow> stockOk (stockDoc (snd (settlement_catch d a m f err)))"
  unfolding settlement_catch_def
  by (simp add: inverseStockCall_ok split: option.splits)

lemma settlementStockCall_ok: "stockOk s \<Longrightarrow> stockOk (snd (settlementStockCall s a m f))"
  by (simp add: settlementStockCall_def deduct_ok addBack_ok split: stock_action.splits)

lemma settlement_commit_ok:
  "stockOk (stockDoc d) \<Longrightarrow> stockOk (stockDoc (snd (settlement_commit e d i r lid m dir l a)))"
  unfolding settlement_commit_def Let_def
  by (simp add: settlement_catch_ok inverseStockCall_ok split: sum.splits)

lemma settlement_process_ok:
  "stockOk (stockDoc d) \<Longrightarrow> stockOk (stockDoc (snd (settlement_process e d i r lid m dir)))"
  unfolding settlement_process_def Let_def
  by (simp add: settlement_catch_ok settlement_commit_ok settlementStockCall_ok split: option.splits sum.splits)

lemma settlement_create_ok: "stockOk (stockDoc d) \<Longrightarrow> stockOk (stockDoc (snd (settlement_create e d i r)))"
  unfolding settlement_create_def
  by (simp add: settlement_process_ok split: option.splits field.splits)

lemma settlement_delete_ok: "stockOk (stockDoc d) \<Longrightarrow> stockOk (stockDoc (snd (settlement_delete e d i)))"
  unfolding settlement_delete_def Let_def
  by (simp add: deduct_ok addBack_ok split: option.splits sum.splits)

lemma reverse_ok: "stockOk s \<Longrightarrow> stockOk (snd (reverseVoucherEffects v l s rs mr))"
  unfolding reverseVoucherEffects_def Let_def
  by (simp add: applyAdj_ok split: sum.splits)

lemma adjustStock_ok: "stockOk s \<Longrightarrow> stockOk (snd (adjustStockForVoucher s a vt))"
  unfolding adjustStockForVoucher_def
  by (simp add: applyAdj_ok)

lemma create_write_ok:
  "stockOk (stockDoc d) \<Longrightarrow> stockOk (stockDoc (snd (voucher_create_write e d i r lid pt vt its l u n b)))"
  unfolding voucher_create_write_def Let_def
  by (simp add: adjustStock_ok split: sum.splits)

lemma create_body_ok:
  "stockOk (stockDoc d) \<Longrightarrow> stockOk (stockDoc (snd (voucher_create_body e d i r)))"
  unfolding voucher_create_body_def Let_def
  by (simp add: create_write_ok split: option.splits field.splits sum.splits)

lemma voucher_create_ok:
  "stockOk (stockDoc d) \<Longrightarrow> stockOk (stockDoc (snd (voucher_create e d i r)))"
  unfolding voucher_create_def by (simp add: finish_ok create_body_ok)

lemma cancel_body_ok:
  "stockOk (stockDoc d) \<Longrightarrow> stockOk (stockDoc (snd (voucher_cancel_body e d i b)))"
proof -
  assume ok: "stockOk (stockDoc d)"
  have r: "\<And>v l. stockOk (snd (reverseVoucherEffects v l (stockDoc d) True True))"
    using ok by (rule reverse_ok)
  show ?thesis
    unfolding voucher_cancel_body_def Let_def
    using ok r
    by (auto split: option.splits sum.splits prod.splits simp: prod_eq_iff dest!: arg_cong[where f=snd])
qed

lemma voucher_cancel_ok:
  "stockOk (stockDoc d) \<Longrightarrow> stockOk (stockDoc (snd (voucher_cancel e d i b)))"
  unfolding voucher_cancel_def by (simp add: finish_ok cancel_body_ok)

lemma delete_body_ok:
  "stockOk (stockDoc d) \<Longrightarrow> stockOk (stockDoc (snd (voucher_delete_body e d i)))"
proof -
  assume ok: "stockOk (stockDoc d)"
  have r: "\<And>v l. stockOk (snd (reverseVoucherEffects v l (stockDoc d) True False))"
    using ok by (rule reverse_ok)
  have a: "\<And>a vt. stockOk (snd (applyStockAdjustmentForVoucher (stockDoc d) a vt True))"
    using ok by (rule applyAdj_ok)
  show ?thesis
    unfolding voucher_delete_body_def Let_def
    using ok r a
    by (auto split: option.splits sum.splits prod.splits if_splits simp: prod_eq_iff dest!: arg_cong[where f=snd])
qed

lemma voucher_delete_ok:
  "stockOk (stockDoc d) \<Longrightarrow> stockOk (stockDoc (snd (voucher_delete e d i)))"
  unfolding voucher_delete_def by (simp add: finish_ok delete_body_ok)

lemma update_write_ok:
  "stockOk (stockDoc d) \<Longrightarrow> stockOk (stockDoc (snd (voucher_update_write e d i ex r lid pt vt its l u n)))"
  unfolding voucher_update_write_def Let_def
  by (simp add: adjustStock_ok split: sum.splits option.splits)

lemma update_validate_ok:
  "stockOk (stockDoc d) \<Longrightarrow> stockOk (stockDoc (snd (voucher_update_validate e d i ex pl r)))"
  unfolding voucher_update_validate_def Let_def
  by (simp add: update_write_ok split: option.splits field.splits sum.splits)

lemma update_body_ok:
  "stockOk (stockDoc d) \<Longrightarrow> stockOk (stockDoc (snd (voucher_update_body e d i r)))"
proof -
  assume ok: "stockOk (stockDoc d)"
  have r: "\<And>v l. stockOk (snd (reverseVoucherEffects v l (stockDoc d) True False))"
    using ok by (rule reverse_ok)
  have u: "\<And>d1 ex pl. stockOk (stockDoc d1) \<Longrightarrow> stockOk (stockDoc (snd (voucher_update_validate e d1 i ex pl r)))"
    by (rule update_validate_ok)
  show ?thesis
    unfolding voucher_update_body_def Let_def
    using ok r
    by (auto split: option.splits sum.splits prod.splits simp: prod_eq_iff intro!: u dest!: arg_cong[where f=snd])
qed

lemma voucher_update_ok:
  "stockOk (stockDoc d) \<Longrightarrow> stockOk (stockDoc (snd (voucher_update e d i r)))"
  unfolding voucher_update_def by (simp add: finish_ok update_body_ok)

lemma step_ok: "stockOk (stockDoc d) \<Longrightarrow> stockOk (stockDoc (step e d x))"
  by (cases x) (simp_all add: stock_add_ok stock_undo_ok karigar_create_ok karigar_delete_ok
      ledger_create_ok ledger_update_ok ledger_purge_ok ledger_recalc_ok settlement_create_ok
      settlement_delete_ok voucher_create_ok voucher_update_ok voucher_cancel_ok voucher_delete_ok)

section \<open>Claims\<close>

subsection \<open>C2: the stock counters never go negative\<close>

lemma deduct_success:
  "0 \<le> g \<Longrightarrow> 0 \<le> s \<Longrightarrow>
   deductFromStock so (Num g) (Num s) =
     (let st = ensureUserStock so
      in if 0 \<le> gold st - g \<and> 0 \<le> silver st - s
         then (Inr (st\<lparr>gold := gold st - g, silver := silver st - s\<rparr>),
               Some (st\<lparr>gold := gold st - g, silver := silver st - s\<rparr>))
         else (Inl InsufficientStock, Some st))"
  by (simp add: deductFromStock_def Let_def)

lemma deduct_failure:
  "fst (deductFromStock so gv sv) = Inl err \<Longrightarrow>
   ensureUserStock (snd (deductFromStock so gv sv)) = ensureUserStock so"
  by (auto simp: deductFromStock_def Let_def ensureUserStock_def
        split: sum.splits if_splits option.splits)

text \<open>
  Claim C2. Starting from a stock record with \<open>gold \<ge> 0\<close> and \<open>silver \<ge> 0\<close>, every
  request (\<open>step\<close> ranges over stock add, stock-input undo and the voucher, settlement,
  karigar and ledger handlers) and every direct call of \<open>deductFromStock\<close> or
  \<open>addBackToStock\<close> leaves both counters non-negative. For non-negative magnitudes,
  \<open>deductFromStock\<close> decrements both counters exactly when both stay \<open>\<ge> 0\<close>, and
  otherwise fails with \<open>InsufficientStock\<close>; whenever it fails, the counters are
  unchanged.
\<close>

theorem stock_counters_never_negative:
  assumes "stockOk (stockDoc d)"
  shows "stockOk (stockDoc (step e d x))
       \<and> stockOk (snd (deductFromStock (stockDoc d) gv sv))
       \<and> stockOk (snd (addBackToStock (stockDoc d) gv sv))
       \<and> (\<forall>g s. 0 \<le> g \<longrightarrow> 0 \<le> s \<longrightarrow>
             deductFromStock (stockDoc d) (Num g) (Num s) =
               (let st = ensureUserStock (stockDoc d)
                in if 0 \<le> gold st - g \<and> 0 \<le> silver st - s
                   then (Inr (st\<lparr>gold := gold st - g, silver := silver st - s\<rparr>),
                         Some (st\<lparr>gold := gold st - g, silver := silver st - s\<rparr>))
                   else (Inl InsufficientStock, Some st)))
       \<and> (\<forall>err. fst (deductFromStock (stockDoc d) gv sv) = Inl err \<longrightarrow>
             ensureUserStock (snd (deductFromStock (stockDoc d) gv sv))
               = ensureUserStock (stockDoc d))"
  using assms step_ok[of d e x] deduct_ok[of "stockDoc d" gv sv]
    addBack_ok[of "stockDoc d" gv sv]
    deduct_success[of _ _ "stockDoc d"] deduct_failure[of "stockDoc d" gv sv]
  by blast

text \<open>
  Stock \<open>{gold: 5}\<close>: handing 5 g of gold to a karigar succeeds and leaves \<open>gold = 0\<close>;
  deducting 1 g more is rejected with \<open>InsufficientStock\<close> and \<open>gold\<close> stays 0.
\<close>

theorem stock_counters_never_negative_witness:
  "stockOk (stockDoc (emptyDb\<lparr>stockDoc := Some exStock5\<rparr>))
   \<and> stockDoc (step exEnv (emptyDb\<lparr>stockDoc := Some exStock5\<rparr>)
                 (OpKarigarCreate 1 exKarigarReq))
       = Some exStock0
   \<and> stockOk (stockDoc (step exEnv (emptyDb\<lparr>stockDoc := Some exStock5\<rparr>)
                 (OpKarigarCreate 1 exKarigarReq)))
   \<and> deductFromStock (Some exStock5) (Num 5) (Num 0) = (Inr exStock0, Some exStock0)
   \<and> deductFromStock (Some exStock0) (Num 1) (Num 0) = (Inl InsufficientStock, Some exStock0)"
proof -
  have h: "stockOk (stockDoc (emptyDb\<lparr>stockDoc := Some exStock5\<rparr>))"
    by (simp add: stockOk_def emptyDb_def exStock5_def)
  have k: "stockDoc (step exEnv (emptyDb\<lparr>stockDoc := Some exStock5\<rparr>)
                      (OpKarigarCreate 1 exKarigarReq))
       = Some exStock0"
    by (simp add: karigar_create_def exKarigarReq_def emptyDb_def exStock5_def exStock0_def
          deductFromStock_def goldPart_def silverPart_def ensureUserStock_def Let_def)
  show ?thesis
    using h k stock_counters_never_negative
                [OF h, of exEnv "OpKarigarCreate 1 exKarigarReq" "Num 1" "Num 0"]
    by (simp add: emptyDb_def exStock5_def exStock0_def ensureUserStock_def Let_def
          deductFromStock_def)
qed

subsection \<open>C1: the unified amount is cash plus credit\<close>

text \<open>The definitions of the handlers, for evaluating them on concrete requests.\<close>

lemmas model_defs =
  getReversalWindowHours_def canReverseAt_def ensureUserStock_def deductFromStock_def
  addBackToStock_def finishSession_def stock_add_body_def stock_add_def removeAt_def
  STOCK_MIN_ALLOWED_def stock_undo_body_def stock_undo_def canReverseForKarigar_def
  goldPart_def silverPart_def karigar_create_def karigar_delete_def
  castsToNumber_def minus_num_def num_of_small
  ledger_calculateUnifiedAmount_def calculateUnifiedAmount_def resetBalances_def
  balancesStorable_def openingStorable_def sanitizePhone_def
  incomingOpeningBalance_def parseOpening_def ledger_create_def voucherCount_def
  settlementCount_def alignWithOpening_def ledger_update_apply_def ledger_update_def
  ledger_purge_def needsTotalFix_def fixVoucherTotal_def rateOrOne_def addItemFine_def
  subItemFine_def replayVoucher_def replaySettlement_def ledger_recalculate_def
  canReverseForSettlement_def inverseStockCall_def settlement_catch_def
  settlementAmount_def fineOf_def balanceBeforeFine_def updatedFine_def updatedCredit_def
  settlementBalances_def settlement_commit_def settlementPrecheck_def
  settlementStockAction_def settlementStockCall_def settlement_process_def
  settlement_create_def unsettleBalances_def settlement_delete_def
  canReverseForVoucher_def getCashBalanceDelta_def calculateGSTBreakdown_totalGST_def
  getFineByMetal_def hasNonZeroStockAdjustment_def stockCall_def discardValue_def
  applyStockAdjustmentForVoucher_def BILLING_TYPES_def SETTLEMENT_TYPES_def
  usesStockAdjustment_def explicitNumber_def getVoucherStockAdjustment_def
  reverseBalances_def reverseVoucherEffects_def ledgerSaveOk_def cleanItem_def
  itemsRequiredOk_def cleanedItemsFor_def
  isGstRequest_def gstTypeOk_def oldBalanceAmount_def totalsAmount_def reqTotalGST_def
  reqTotal_def currentBalanceAmount_def applyVoucherBalances_def applyToLedger_def
  previousLedgerState_def buildVoucher_def voucherSaveOk_def voucherStockAdjustment_def
  adjustStockForVoucher_def activeWith_def digitChar_def voucher_create_write_def
  voucher_create_body_def voucher_create_def remainingVouchers_def
  voucher_cancel_body_def voucher_cancel_def voucher_delete_body_def voucher_delete_def
  voucher_update_write_def voucher_update_validate_def voucher_update_body_def
  voucher_update_def Let_def

text \<open>The store before the settlement: one ledger, with zero balances.\<close>

lemma exBefore_eq:
  "exBefore =
     exShop\<lparr>ledgers :=
       [(1, \<lparr>ledgerType = Regular,
              openingBalance = \<lparr>ob_amount = 0, ob_goldFineWeight = 0,
                                 ob_silverFineWeight = 0\<rparr>,
              ledger_balances = resetBalances, hasVouchers = False\<rparr>)]\<rparr>"
  by (simp add: model_defs exBefore_def exShop_def emptyDb_def exEnv_def exLedgerReq_def)

text \<open>The product \<open>2 * 1e308\<close> overflows.\<close>

lemma huge_product: "num_of (2 * exHugeRate) = PInf"
  by (simp add: num_of_def OVERFLOW_THRESHOLD_def exHugeRate_def)

text \<open>
  Claim C1 says that \<open>amount\<close> equals \<open>cashBalance + creditBalance\<close> after every
  operation. On a fresh ledger, the receipt of 2 g of gold at a rate of \<open>1e308\<close> is
  accepted: both numbers pass the finiteness check of the handler, their product, which
  is not checked, is an infinity, and it is stored as \<open>creditBalance\<close>. The amount is
  then recomputed by the settlement route's \<open>calculateUnifiedAmount\<close>, which reads the
  infinite \<open>creditBalance\<close> as 0: the ledger is saved with \<open>amount = 0\<close>, while
  \<open>cashBalance + creditBalance\<close> is an infinity. The ledger route's own
  \<open>calculateUnifiedAmount\<close> keeps the equation on the same ledger: after a balance
  recalculation the amount is the infinite sum.
\<close>

theorem settlement_overflow_breaks_amount:
  "toNumber (sr_fineGiven exHugeReceipt) 0 = 2
   \<and> toNumber (sr_metalRate exHugeReceipt) 0 = exHugeRate
   \<and> exHugeRate = 10 ^ 308
   \<and> balancesOf exBefore 1 = Some resetBalances
   \<and> \<not> isl (fst (settlement_create exEnv exBefore 3 exHugeReceipt))
   \<and> balancesOf exOverflowDb 1
       = Some \<lparr>goldFineWeight = Fin 2, silverFineWeight = 0, amount = 0,
               cashBalance = 0, creditBalance = PInf\<rparr>
   \<and> cashBalance (the (balancesOf exOverflowDb 1))
       + creditBalance (the (balancesOf exOverflowDb 1)) = PInf
   \<and> amount (the (balancesOf exOverflowDb 1))
       \<noteq> cashBalance (the (balancesOf exOverflowDb 1))
           + creditBalance (the (balancesOf exOverflowDb 1))
   \<and> balancesOf (snd (ledger_recalculate exEnv exOverflowDb 1)) 1
       = Some \<lparr>goldFineWeight = Fin 2, silverFineWeight = 0, amount = PInf,
               cashBalance = 0, creditBalance = PInf\<rparr>"
proof -
  have r: "exHugeRate = 10 ^ 308" by (simp add: exHugeRate_def)
  have b: "balancesOf exOverflowDb 1
       = Some \<lparr>goldFineWeight = Fin 2, silverFineWeight = 0, amount = 0,
               cashBalance = 0, creditBalance = PInf\<rparr>"
    by (simp add: exOverflowDb_def exBefore_eq huge_product model_defs balancesOf_def
          exHugeReceipt_def exShop_def emptyDb_def exEnv_def exUser_def)
  show ?thesis
    unfolding b using r
    by (simp add: exOverflowDb_def exBefore_eq huge_product model_defs balancesOf_def
          exHugeReceipt_def exShop_def emptyDb_def exEnv_def exUser_def)
qed

subsection \<open>C3: reversal restores the snapshot\<close>

lemma finish_Inr: "finishSession e d0 r = (Inr v, d') \<Longrightarrow> r = (Inr v, d')"
  by (cases r) (auto simp: finishSession_def split: sum.splits)

lemma finish_Inr_eq: "fst r = Inr v \<Longrightarrow> finishSession e d0 r = r"
  by (cases r) (auto simp: finishSession_def)

text \<open>The snapshot of a snapshot is the snapshot; finite balances are their own snapshot.\<close>

lemma previousLedgerState_idem [simp]:
  "previousLedgerState (previousLedgerState b) = previousLedgerState b"
  by (simp add: previousLedgerState_def)

lemma previousLedgerState_finite:
  "finiteBalances b \<Longrightarrow> previousLedgerState b = b"
  by (cases b)
     (auto simp: finiteBalances_def previousLedgerState_def isFinite_def split: num.splits)

lemma previousLedgerState_storable [simp]: "balancesStorable (previousLedgerState b)"
  by (simp add: balancesStorable_def previousLedgerState_def castsToNumber_def)

lemma snapshot_of_build:
  "v_previousLedgerState (buildVoucher r lid pt vt its n l a c)
     = Some (previousLedgerState (ledger_balances l))"
  "v_ledgerId (buildVoucher r lid pt vt its n l a c) = lid"
  "v_status (buildVoucher r lid pt vt its n l a c) = Active"
  "v_stockRestored (buildVoucher r lid pt vt its n l a c) = False"
  "v_createdAt (buildVoucher r lid pt vt its n l a c) = c"
  by (simp_all add: buildVoucher_def Let_def)

lemma create_write_result:
  "voucher_create_write e d i r lid pt vt its l u n b = (Inr v, d') \<Longrightarrow>
   v = buildVoucher r lid pt vt its n l (voucherStockAdjustment u pt its) (Some (now e))"
  unfolding voucher_create_write_def Let_def
  by (auto split: sum.splits if_splits)

lemma create_body_result:
  "voucher_create_body e d i r = (Inr v, d') \<Longrightarrow>
   map_option (\<lambda>l. previousLedgerState (ledger_balances l)) (map_of (ledgers d) (v_ledgerId v))
     = v_previousLedgerState v
   \<and> v_previousLedgerState v \<noteq> None
   \<and> v_status v = Active \<and> \<not> v_stockRestored v \<and> v_createdAt v = Some (now e)"
  unfolding voucher_create_body_def Let_def
  by (auto split: option.splits field.splits sum.splits if_splits
        dest!: create_write_result simp: snapshot_of_build)

lemma create_snapshot:
  assumes "voucher_create e d i r = (Inr v, d')"
  shows "map_option previousLedgerState (balancesOf d (v_ledgerId v)) = v_previousLedgerState v"
    and "v_previousLedgerState v \<noteq> None"
    and "v_status v = Active" and "\<not> v_stockRestored v"
  using create_body_result[OF finish_Inr[OF assms[unfolded voucher_create_def]]]
  by (auto simp: balancesOf_def option.map_comp comp_def)

text \<open>What \<open>reverseVoucherEffects\<close> returns when it returns.\<close>

lemma reverse_result:
  assumes "reverseVoucherEffects v l s rs mr = (Inr (v', l'), s')"
  shows "l' = l\<lparr>ledger_balances := reverseBalances v l\<rparr>"
    and "v' = v \<or> v' = v\<lparr>v_stockRestored := True\<rparr>"
    and "v_ledgerId v' = v_ledgerId v"
  using assms unfolding reverseVoucherEffects_def Let_def
  by (auto split: sum.splits if_splits)

lemma reverseBalances_snapshot:
  "v_previousLedgerState v = Some p \<Longrightarrow> reverseBalances v l = previousLedgerState p"
  by (simp add: reverseBalances_def previousLedgerState_def Let_def)

lemma reverse_snapshot:
  "v_previousLedgerState v = Some p \<Longrightarrow>
   reverseVoucherEffects v l s rs mr = (Inr (v', l'), s') \<Longrightarrow>
   ledger_balances l' = previousLedgerState p"
  by (drule reverse_result(1)) (simp add: reverseBalances_snapshot)

text \<open>Without a stock call the reversal cannot fail.\<close>

lemma reverse_without_stock:
  "v_previousLedgerState v = Some p \<Longrightarrow>
   reverseVoucherEffects v l s False mr
     = (Inr (v, l\<lparr>ledger_balances := previousLedgerState p\<rparr>), s)"
  by (simp add: reverseVoucherEffects_def reverseBalances_snapshot Let_def)

text \<open>
  With a stock call, the reversal fails exactly when the stock ledger refuses the call.
\<close>

lemma reverse_total:
  assumes "\<not> v_stockRestored v"
  shows "(\<exists>err. fst (applyStockAdjustmentForVoucher s (getVoucherStockAdjustment v)
                       (v_voucherType v) True) = Inl err)
       \<or> (\<exists>v' s'. reverseVoucherEffects v l s True mr
                     = (Inr (v', l\<lparr>ledger_balances := reverseBalances v l\<rparr>), s'))"
proof (cases "hasNonZeroStockAdjustment (getVoucherStockAdjustment v)")
  case False
  then show ?thesis by (simp add: reverseVoucherEffects_def Let_def)
next
  case True
  show ?thesis
  proof (cases "fst (applyStockAdjustmentForVoucher s (getVoucherStockAdjustment v)
                       (v_voucherType v) True)")
    case (Inl err)
    then show ?thesis by blast
  next
    case (Inr u)
    then show ?thesis using True assms
      by (simp add: reverseVoucherEffects_def Let_def)
  qed
qed

lemma cancel_restores:
  assumes V: "map_of (vouchers dl) vid = Some v"
    and P: "v_previousLedgerState v = Some p"
    and L: "map_of (ledgers dl) (v_ledgerId v) = Some l1"
    and W: "canReverseForVoucher e2 v"
    and C: "voucher_cancel e2 dl vid True = (Inr v2, d2)"
  shows "balancesOf d2 (v_ledgerId v) = Some (previousLedgerState p)"
proof -
  have B: "voucher_cancel_body e2 dl vid True = (Inr v2, d2)"
    using C unfolding voucher_cancel_def by (rule finish_Inr)
  obtain res s1 where R: "reverseVoucherEffects v l1 (stockDoc dl) True True = (res, s1)"
    by (cases "reverseVoucherEffects v l1 (stockDoc dl) True True") auto
  show ?thesis
  proof (cases res)
    case (Inl err)
    then show ?thesis using B V L W R
      by (simp add: voucher_cancel_body_def Let_def split: if_splits)
  next
    case (Inr q)
    obtain v1 l1' where q: "q = (v1, l1')" by (cases q) auto
    have bl: "ledger_balances l1' = previousLedgerState p"
      using reverse_snapshot[OF P R[unfolded Inr q]] .
    show ?thesis using B V L W R Inr q bl
      by (auto simp add: voucher_cancel_body_def Let_def balancesOf_def update_conv'
            split: if_splits)
  qed
qed

lemma cancel_total:
  assumes V: "map_of (vouchers dl) vid = Some v"
    and A: "v_status v = Active" and NR: "\<not> v_stockRestored v"
    and P: "v_previousLedgerState v = Some p"
    and L: "map_of (ledgers dl) (v_ledgerId v) = Some l1"
    and W: "canReverseForVoucher e2 v"
  shows "(\<exists>err. fst (applyStockAdjustmentForVoucher (stockDoc dl) (getVoucherStockAdjustment v)
                       (v_voucherType v) True) = Inl err)
       \<or> (\<exists>v2 d2. voucher_cancel e2 dl vid True = (Inr v2, d2)
                   \<and> balancesOf d2 (v_ledgerId v) = Some (previousLedgerState p))"
proof -
  from reverse_total[OF NR, of "stockDoc dl" l1 True]
  consider err where "fst (applyStockAdjustmentForVoucher (stockDoc dl)
                             (getVoucherStockAdjustment v) (v_voucherType v) True) = Inl err"
    | v' s' where "reverseVoucherEffects v l1 (stockDoc dl) True True
                     = (Inr (v', l1\<lparr>ledger_balances := reverseBalances v l1\<rparr>), s')"
    by blast
  then show ?thesis
  proof cases
    case 1
    then show ?thesis by blast
  next
    case 2
    have "fst (voucher_cancel_body e2 dl vid True) = Inr (v'\<lparr>v_status := Cancelled\<rparr>)"
      using V A L W 2 P
      by (simp add: voucher_cancel_body_def Let_def ledgerSaveOk_def reverseBalances_snapshot)
    then have "voucher_cancel e2 dl vid True
         = (Inr (v'\<lparr>v_status := Cancelled\<rparr>), snd (voucher_cancel_body e2 dl vid True))"
      unfolding voucher_cancel_def
      by (simp add: finish_Inr_eq prod_eq_iff)
    then show ?thesis using cancel_restores[OF V P L W] by blast
  qed
qed

lemma delete_restores:
  assumes V: "map_of (vouchers dl) vid = Some v"
    and P: "v_previousLedgerState v = Some p"
    and A: "v_status v = Active"
    and L: "map_of (ledgers dl) (v_ledgerId v) = Some l1"
    and W: "canReverseForVoucher e2 v"
    and C: "voucher_delete e2 dl vid = (Inr u, d2)"
  shows "balancesOf d2 (v_ledgerId v) = Some (previousLedgerState p)"
proof -
  have B: "voucher_delete_body e2 dl vid = (Inr u, d2)"
    using C unfolding voucher_delete_def by (rule finish_Inr)
  obtain res s1 where R: "reverseVoucherEffects v l1 (stockDoc dl) True False = (res, s1)"
    by (cases "reverseVoucherEffects v l1 (stockDoc dl) True False") auto
  show ?thesis
  proof (cases res)
    case (Inl err)
    then show ?thesis using B V L W R A
      by (simp add: voucher_delete_body_def Let_def split: if_splits)
  next
    case (Inr q)
    obtain v1 l1' where q: "q = (v1, l1')" by (cases q) auto
    have bl: "ledger_balances l1' = previousLedgerState p"
      using reverse_snapshot[OF P R[unfolded Inr q]] .
    show ?thesis using B V L W R A Inr q bl
      by (auto simp add: voucher_delete_body_def Let_def balancesOf_def update_conv'
            split: if_splits)
  qed
qed

lemma delete_total:
  assumes V: "map_of (vouchers dl) vid = Some v"
    and A: "v_status v = Active" and NR: "\<not> v_stockRestored v"
    and P: "v_previousLedgerState v = Some p"
    and L: "map_of (ledgers dl) (v_ledgerId v) = Some l1"
    and W: "canReverseForVoucher e2 v"
  shows "(\<exists>err. fst (applyStockAdjustmentForVoucher (stockDoc dl) (getVoucherStockAdjustment v)
                       (v_voucherType v) True) = Inl err)
       \<or> (\<exists>d2. voucher_delete e2 dl vid = (Inr (), d2)
                \<and> map_of (vouchers d2) vid = None
                \<and> balancesOf d2 (v_ledgerId v) = Some (previousLedgerState p))"
proof -
  from reverse_total[OF NR, of "stockDoc dl" l1 False]
  consider err where "fst (applyStockAdjustmentForVoucher (stockDoc dl)
                             (getVoucherStockAdjustment v) (v_voucherType v) True) = Inl err"
    | v' s' where "reverseVoucherEffects v l1 (stockDoc dl) True False
                     = (Inr (v', l1\<lparr>ledger_balances := reverseBalances v l1\<rparr>), s')"
    by blast
  then show ?thesis
  proof cases
    case 1
    then show ?thesis by blast
  next
    case 2
    have F: "fst (voucher_delete_body e2 dl vid) = Inr ()"
      using V A L W 2 P
      by (simp add: voucher_delete_body_def Let_def ledgerSaveOk_def reverseBalances_snapshot)
    have G: "map_of (vouchers (snd (voucher_delete_body e2 dl vid))) vid = None"
      using V A L W 2 P
      by (simp add: voucher_delete_body_def Let_def ledgerSaveOk_def reverseBalances_snapshot
            delete_conv')
    have "voucher_delete e2 dl vid = (Inr (), snd (voucher_delete_body e2 dl vid))"
      unfolding voucher_delete_def using F
      by (simp add: finish_Inr_eq prod_eq_iff)
    then show ?thesis using delete_restores[OF V P A L W] G by auto
  qed
qed

lemma update_write_result:
  "voucher_update_write e d1 vid ex r lid pt vt its tgt u n = (Inr v2, d2) \<Longrightarrow>
   v_previousLedgerState v2 = Some (previousLedgerState (ledger_balances tgt))
   \<and> (v_ledgerId ex \<noteq> lid \<longrightarrow> balancesOf d2 (v_ledgerId ex) = balancesOf d1 (v_ledgerId ex))"
  unfolding voucher_update_write_def Let_def
  by (auto split: sum.splits if_splits option.splits
        simp: snapshot_of_build balancesOf_def update_conv')

lemma update_validate_result:
  "voucher_update_validate e d1 vid ex pl r = (Inr v2, d2) \<Longrightarrow>
   (vr_ledgerId r = Some (v_ledgerId ex)
      \<longrightarrow> v_previousLedgerState v2 = Some (previousLedgerState (ledger_balances pl)))
   \<and> (vr_ledgerId r \<noteq> Some (v_ledgerId ex)
        \<longrightarrow> balancesOf d2 (v_ledgerId ex) = balancesOf d1 (v_ledgerId ex))"
  unfolding voucher_update_validate_def Let_def
  by (auto split: option.splits field.splits sum.splits if_splits dest!: update_write_result)

lemma update_restores:
  assumes V: "map_of (vouchers dl) vid = Some v"
    and P: "v_previousLedgerState v = Some p"
    and L: "map_of (ledgers dl) (v_ledgerId v) = Some l1"
    and C: "voucher_update e2 dl vid r2 = (Inr v2, d2)"
  shows "(vr_ledgerId r2 = Some (v_ledgerId v)
            \<longrightarrow> v_previousLedgerState v2 = Some (previousLedgerState p))
       \<and> (vr_ledgerId r2 \<noteq> Some (v_ledgerId v)
            \<longrightarrow> balancesOf d2 (v_ledgerId v) = Some (previousLedgerState p))"
proof -
  have B: "voucher_update_body e2 dl vid r2 = (Inr v2, d2)"
    using C unfolding voucher_update_def by (rule finish_Inr)
  obtain res s1 where R: "reverseVoucherEffects v l1 (stockDoc dl) True False = (res, s1)"
    by (cases "reverseVoucherEffects v l1 (stockDoc dl) True False") auto
  show ?thesis
  proof (cases res)
    case (Inl err)
    then show ?thesis using B V L R
      by (simp add: voucher_update_body_def Let_def split: if_splits)
  next
    case (Inr q)
    obtain v1 l1' where q: "q = (v1, l1')" by (cases q) auto
    have bl: "ledger_balances l1' = previousLedgerState p"
      using reverse_snapshot[OF P R[unfolded Inr q]] .
    have lid: "v_ledgerId v1 = v_ledgerId v"
      using reverse_result(3)[OF R[unfolded Inr q]] by auto
    define d1 where "d1 = dl\<lparr>stockDoc := s1,
        ledgers := AList.update (v_ledgerId v) l1' (ledgers dl)\<rparr>"
    have U: "voucher_update_validate e2 d1 vid v1 l1' r2 = (Inr v2, d2)"
      using B V L R Inr q unfolding d1_def
      by (simp add: voucher_update_body_def Let_def split: if_splits)
    have b1: "balancesOf d1 (v_ledgerId v) = Some (previousLedgerState p)"
      unfolding d1_def using bl by (simp add: balancesOf_def update_conv')
    show ?thesis using update_validate_result[OF U] lid bl b1 by simp
  qed
qed

text \<open>The second half of an edit starts from the store in which the snapshot is back.\<close>

lemma update_reverse_step:
  assumes V: "map_of (vouchers dl) vid = Some v"
    and A: "v_status v = Active" and NR: "\<not> v_stockRestored v"
    and P: "v_previousLedgerState v = Some p"
    and L: "map_of (ledgers dl) (v_ledgerId v) = Some l1"
    and W: "canReverseForVoucher e2 v"
  shows "(\<exists>err. fst (applyStockAdjustmentForVoucher (stockDoc dl) (getVoucherStockAdjustment v)
                       (v_voucherType v) True) = Inl err)
       \<or> (\<exists>s1. voucher_update_body e2 dl vid r2
                 = voucher_update_validate e2
                     (dl\<lparr>stockDoc := s1,
                         ledgers := AList.update (v_ledgerId v)
                                      (l1\<lparr>ledger_balances := previousLedgerState p\<rparr>)
                                      (ledgers dl)\<rparr>)
                     vid v (l1\<lparr>ledger_balances := previousLedgerState p\<rparr>) r2)"
proof -
  from reverse_total[OF NR, of "stockDoc dl" l1 False]
  consider err where "fst (applyStockAdjustmentForVoucher (stockDoc dl)
                             (getVoucherStockAdjustment v) (v_voucherType v) True) = Inl err"
    | v' s' where "reverseVoucherEffects v l1 (stockDoc dl) True False
                     = (Inr (v', l1\<lparr>ledger_balances := reverseBalances v l1\<rparr>), s')"
    by blast
  then show ?thesis
  proof cases
    case 1
    then show ?thesis by blast
  next
    case 2
    have "v' = v"
      using 2 unfolding reverseVoucherEffects_def Let_def
      by (auto split: sum.splits if_splits)
    then show ?thesis using V A L W 2 P
      by (auto simp add: voucher_update_body_def Let_def ledgerSaveOk_def
            reverseBalances_snapshot)
  qed
qed

text \<open>
  Claim C3, amended. Let \<open>v\<close> be the voucher a successful create request stored, and
  take any later store \<open>dl\<close> that still holds \<open>v\<close> and its ledger, whatever has happened
  to that ledger in between. The voucher carries as \<open>previousLedgerState\<close> the balances
  the ledger had before the create, each read through \<open>toNumber\<close>: exactly those
  balances when they were finite numbers, and 0 in place of one that was not. Reversing
  the voucher writes exactly this snapshot into the ledger, with no arithmetic:
  \<^item> a cancel request within the window succeeds and leaves the ledger with the
    snapshot, unless the stock ledger refuses the restoring stock call;
  \<^item> a delete request does the same and removes the voucher;
  \<^item> an edit first saves the ledger with the snapshot and then processes the request
    on that store; when the edit succeeds, the snapshot is what the old ledger holds
    (edit to another ledger) or the base the new state was applied to (same ledger);
  \<^item> for any voucher with a snapshot \<open>p\<close>, \<open>reverseVoucherEffects\<close> sets the five
    balances to \<open>p\<close> read through \<open>toNumber\<close>, and without a stock call it cannot fail.
\<close>

theorem reversal_restores_snapshot:
  assumes create: "voucher_create e d vid r = (Inr v, d')"
    and stored: "map_of (vouchers dl) vid = Some v"
    and later: "map_of (ledgers dl) (v_ledgerId v) = Some l1"
    and window: "canReverseForVoucher e2 v"
  shows "balancesOf d (v_ledgerId v) \<noteq> None
       \<and> v_previousLedgerState v
           = map_option previousLedgerState (balancesOf d (v_ledgerId v))
       \<and> (\<forall>b0. balancesOf d (v_ledgerId v) = Some b0 \<longrightarrow> finiteBalances b0
             \<longrightarrow> v_previousLedgerState v = Some b0)
       \<and> ((\<exists>err. fst (applyStockAdjustmentForVoucher (stockDoc dl)
                         (getVoucherStockAdjustment v) (v_voucherType v) True) = Inl err)
          \<or> (\<exists>v2 d2. voucher_cancel e2 dl vid True = (Inr v2, d2)
                      \<and> balancesOf d2 (v_ledgerId v) = v_previousLedgerState v))
       \<and> (\<forall>v2 d2. voucher_cancel e2 dl vid True = (Inr v2, d2)
             \<longrightarrow> balancesOf d2 (v_ledgerId v) = v_previousLedgerState v)
       \<and> ((\<exists>err. fst (applyStockAdjustmentForVoucher (stockDoc dl)
                         (getVoucherStockAdjustment v) (v_voucherType v) True) = Inl err)
          \<or> (\<exists>d2. voucher_delete e2 dl vid = (Inr (), d2)
                   \<and> map_of (vouchers d2) vid = None
                   \<and> balancesOf d2 (v_ledgerId v) = v_previousLedgerState v))
       \<and> (\<forall>u d2. voucher_delete e2 dl vid = (Inr u, d2)
             \<longrightarrow> balancesOf d2 (v_ledgerId v) = v_previousLedgerState v)
       \<and> (\<forall>r2. (\<exists>err. fst (applyStockAdjustmentForVoucher (stockDoc dl)
                              (getVoucherStockAdjustment v) (v_voucherType v) True) = Inl err)
               \<or> (\<exists>s1. voucher_update_body e2 dl vid r2
                         = voucher_update_validate e2
                             (dl\<lparr>stockDoc := s1,
                                 ledgers := AList.update (v_ledgerId v)
                                   (l1\<lparr>ledger_balances := the (v_previousLedgerState v)\<rparr>)
                                   (ledgers dl)\<rparr>)
                             vid v (l1\<lparr>ledger_balances := the (v_previousLedgerState v)\<rparr>)
                             r2))
       \<and> (\<forall>r2 v2 d2. voucher_update e2 dl vid r2 = (Inr v2, d2)
             \<longrightarrow> (vr_ledgerId r2 = Some (v_ledgerId v)
                    \<longrightarrow> v_previousLedgerState v2 = v_previousLedgerState v)
                 \<and> (vr_ledgerId r2 \<noteq> Some (v_ledgerId v)
                    \<longrightarrow> balancesOf d2 (v_ledgerId v) = v_previousLedgerState v))
       \<and> (\<forall>w l p s rs mr w' l' s'.
             v_previousLedgerState w = Some p
             \<longrightarrow> reverseVoucherEffects w l s rs mr = (Inr (w', l'), s')
             \<longrightarrow> ledger_balances l' = previousLedgerState p)
       \<and> (\<forall>w l p s mr.
             v_previousLedgerState w = Some p
             \<longrightarrow> reverseVoucherEffects w l s False mr
                   = (Inr (w, l\<lparr>ledger_balances := previousLedgerState p\<rparr>), s))"
proof -
  note cs = create_snapshot[OF create]
  from cs(2) obtain p where P: "v_previousLedgerState v = Some p" by auto
  from cs(1) P obtain b0 where B: "balancesOf d (v_ledgerId v) = Some b0"
    and pb: "p = previousLedgerState b0"
    by (cases "balancesOf d (v_ledgerId v)") auto
  have pp: "previousLedgerState p = p" unfolding pb by simp
  have 1: "balancesOf d (v_ledgerId v) \<noteq> None" using B by simp
  have 2: "v_previousLedgerState v
           = map_option previousLedgerState (balancesOf d (v_ledgerId v))"
    using cs(1) by simp
  have 3: "\<forall>b0. balancesOf d (v_ledgerId v) = Some b0 \<longrightarrow> finiteBalances b0
             \<longrightarrow> v_previousLedgerState v = Some b0"
    using P pb B previousLedgerState_finite by auto
  have 4: "(\<exists>err. fst (applyStockAdjustmentForVoucher (stockDoc dl)
                         (getVoucherStockAdjustment v) (v_voucherType v) True) = Inl err)
          \<or> (\<exists>v2 d2. voucher_cancel e2 dl vid True = (Inr v2, d2)
                      \<and> balancesOf d2 (v_ledgerId v) = v_previousLedgerState v)"
    using cancel_total[OF stored cs(3) cs(4) P later window] unfolding pp P .
  have 5: "\<forall>v2 d2. voucher_cancel e2 dl vid True = (Inr v2, d2)
             \<longrightarrow> balancesOf d2 (v_ledgerId v) = v_previousLedgerState v"
    using cancel_restores[OF stored P later window] unfolding pp P by blast
  have 6: "(\<exists>err. fst (applyStockAdjustmentForVoucher (stockDoc dl)
                         (getVoucherStockAdjustment v) (v_voucherType v) True) = Inl err)
          \<or> (\<exists>d2. voucher_delete e2 dl vid = (Inr (), d2)
                   \<and> map_of (vouchers d2) vid = None
                   \<and> balancesOf d2 (v_ledgerId v) = v_previousLedgerState v)"
    using delete_total[OF stored cs(3) cs(4) P later window] unfolding pp P .
  have 7: "\<forall>u d2. voucher_delete e2 dl vid = (Inr u, d2)
             \<longrightarrow> balancesOf d2 (v_ledgerId v) = v_previousLedgerState v"
    using delete_restores[OF stored P cs(3) later window] unfolding pp P by blast
  have 8: "\<forall>r2. (\<exists>err. fst (applyStockAdjustmentForVoucher (stockDoc dl)
                              (getVoucherStockAdjustment v) (v_voucherType v) True) = Inl err)
               \<or> (\<exists>s1. voucher_update_body e2 dl vid r2
                         = voucher_update_validate e2
                             (dl\<lparr>stockDoc := s1,
                                 ledgers := AList.update (v_ledgerId v)
                                   (l1\<lparr>ledger_balances := the (v_previousLedgerState v)\<rparr>)
                                   (ledgers dl)\<rparr>)
                             vid v (l1\<lparr>ledger_balances := the (v_previousLedgerState v)\<rparr>)
                             r2)"
    using update_reverse_step[OF stored cs(3) cs(4) P later window] unfolding pp P by simp
  have 9: "\<forall>r2 v2 d2. voucher_update e2 dl vid r2 = (Inr v2, d2)
             \<longrightarrow> (vr_ledgerId r2 = Some (v_ledgerId v)
                    \<longrightarrow> v_previousLedgerState v2 = v_previousLedgerState v)
                 \<and> (vr_ledgerId r2 \<noteq> Some (v_ledgerId v)
                    \<longrightarrow> balancesOf d2 (v_ledgerId v) = v_previousLedgerState v)"
    using update_restores[OF stored P later] unfolding pp P by blast
  have 10: "\<forall>w l p s rs mr w' l' s'.
             v_previousLedgerState w = Some p
             \<longrightarrow> reverseVoucherEffects w l s rs mr = (Inr (w', l'), s')
             \<longrightarrow> ledger_balances l' = previousLedgerState p"
    using reverse_snapshot by blast
  have 11: "\<forall>w l p s mr.
             v_previousLedgerState w = Some p
             \<longrightarrow> reverseVoucherEffects w l s False mr
                   = (Inr (w, l\<lparr>ledger_balances := previousLedgerState p\<rparr>), s)"
    using reverse_without_stock by blast
  show ?thesis
    using 1 2 3 4 5 6 7 8 9 10 11 by blast
qed

text \<open>The store after the receipt at rate \<open>1e308\<close>, written out.\<close>

lemma exOverflowDb_eq:
  "exOverflowDb =
     exShop\<lparr>ledgers :=
       [(1, \<lparr>ledgerType = Regular,
              openingBalance = \<lparr>ob_amount = 0, ob_goldFineWeight = 0,
                                 ob_silverFineWeight = 0\<rparr>,
              ledger_balances = \<lparr>goldFineWeight = Fin 2, silverFineWeight = 0, amount = 0,
                                  cashBalance = 0, creditBalance = PInf\<rparr>,
              hasVouchers = False\<rparr>)],
       settlements :=
         [(3, \<lparr>s_ledgerId = 1, s_metalType = Gold, s_balanceBefore = 0,
                s_metalRate = exHugeRate, s_fineGiven = 2, s_amount = PInf,
                s_direction = Receipt, s_balanceAfter_amount = PInf,
                s_balanceAfter_fineWeight = Fin 2, s_createdAt = Some 1000\<rparr>)],
       stockDoc := Some \<lparr>gold = 27, silver = 40, cashInHand = 0\<rparr>\<rparr>"
  by (simp add: exOverflowDb_def exBefore_eq huge_product model_defs
        exHugeReceipt_def exShop_def emptyDb_def exEnv_def exUser_def)

text \<open>
  Claim C3 says that the ledger is back at bit-identical balances. On the ledger that
  holds an infinite \<open>creditBalance\<close> after the receipt at rate \<open>1e308\<close>, the credit sale
  of 10 g of gold is booked and then cancelled: the snapshot, taken through \<open>toNumber\<close>,
  holds \<open>creditBalance = 0\<close>, and that is what the cancellation writes back.
\<close>

theorem reversal_after_overflow_counterexample:
  "balancesOf exOverflowDb 1
     = Some \<lparr>goldFineWeight = Fin 2, silverFineWeight = 0, amount = 0,
             cashBalance = 0, creditBalance = PInf\<rparr>
   \<and> \<not> isl (fst (voucher_create exEnv exOverflowDb 7 exCreditSale))
   \<and> balancesOf (snd (voucher_create exEnv exOverflowDb 7 exCreditSale)) 1
       = Some \<lparr>goldFineWeight = Fin 12, silverFineWeight = 0, amount = Fin 50000,
               cashBalance = Fin 50000, creditBalance = PInf\<rparr>
   \<and> map_option v_previousLedgerState
         (map_of (vouchers (snd (voucher_create exEnv exOverflowDb 7 exCreditSale))) 7)
       = Some (Some \<lparr>goldFineWeight = Fin 2, silverFineWeight = 0, amount = 0,
                     cashBalance = 0, creditBalance = 0\<rparr>)
   \<and> \<not> isl (fst (voucher_cancel exEnv
                     (snd (voucher_create exEnv exOverflowDb 7 exCreditSale)) 7 True))
   \<and> balancesOf (snd (voucher_cancel exEnv
                        (snd (voucher_create exEnv exOverflowDb 7 exCreditSale)) 7 True)) 1
       = Some \<lparr>goldFineWeight = Fin 2, silverFineWeight = 0, amount = 0,
               cashBalance = 0, creditBalance = 0\<rparr>
   \<and> balancesOf (snd (voucher_cancel exEnv
                        (snd (voucher_create exEnv exOverflowDb 7 exCreditSale)) 7 True)) 1
       \<noteq> balancesOf exOverflowDb 1"
  by (simp add: exOverflowDb_eq model_defs balancesOf_def exCreditSale_def exGoldItem_def
        exShop_def emptyDb_def exEnv_def exUser_def showNat.simps)

text \<open>The store after the sale and the cash settlement, written out.\<close>

lemma exLater_eq:
  "exLater =
     \<lparr>ledgers = [(1, exLaterLedger)],
      vouchers = [(7, exSaleVoucher),
                  (8, buildVoucher exAddCash 1 AddCash Sale [] ''2''
                        (exLaterLedger\<lparr>ledger_balances :=
                            (ledger_balances exLaterLedger)
                              \<lparr>amount := Fin 50000, cashBalance := Fin 50000\<rparr>\<rparr>)
                        \<lparr>adj_gold = 0, adj_silver = 0\<rparr> (Some 1000))],
      settlements = [], karigars = [],
      stockDoc = Some \<lparr>gold = 15, silver = 40, cashInHand = 0\<rparr>,
      stockInputs = [],
      userDoc = Some \<lparr>autoIncrement = True, currentVoucherNumber = 3, stockMode = Bulk\<rparr>\<rparr>"
    by (simp add: model_defs exLater_def exAfterSale_def exBefore_def exSaleVoucher_def
          exShop_def emptyDb_def exEnv_def exLedgerReq_def exCreditSale_def exGoldItem_def
          exUser_def exAddCash_def exLaterLedger_def showNat.simps)

text \<open>
  The credit sale of 10 g of gold for 50000 on a ledger with zero balances, then a cash
  settlement of 20000 on the same ledger. From there the cancellation of the sale, its
  deletion, its edit to 4 g for 20000 and its edit onto a second ledger each go through,
  and each puts the zero balances back: the ledger holds them after the cancellation,
  after the deletion and after the move, and the edit on the same ledger is applied on
  top of them.
\<close>

theorem reversal_restores_snapshot_witness:
  "voucher_create exEnv exBefore 7 exCreditSale = (Inr exSaleVoucher, exAfterSale)
   \<and> map_of (vouchers exLater) 7 = Some exSaleVoucher
   \<and> map_of (ledgers exLater) (v_ledgerId exSaleVoucher) = Some exLaterLedger
   \<and> map_of (vouchers exTwoLedgers) 7 = Some exSaleVoucher
   \<and> map_of (ledgers exTwoLedgers) (v_ledgerId exSaleVoucher) = Some exLaterLedger
   \<and> canReverseForVoucher exEnv exSaleVoucher
   \<and> balancesOf exBefore 1 = Some resetBalances
   \<and> finiteBalances resetBalances
   \<and> v_previousLedgerState exSaleVoucher = Some resetBalances
   \<and> balancesOf exLater 1
       = Some \<lparr>goldFineWeight = Fin 10, silverFineWeight = 0, amount = Fin 30000,
               cashBalance = Fin 30000, creditBalance = 0\<rparr>
   \<and> (\<exists>v2 d2. voucher_cancel exEnv exLater 7 True = (Inr v2, d2)
          \<and> balancesOf d2 1 = Some resetBalances)
   \<and> (\<exists>d2. voucher_delete exEnv exLater 7 = (Inr (), d2)
          \<and> map_of (vouchers d2) 7 = None
          \<and> balancesOf d2 1 = Some resetBalances)
   \<and> (\<exists>v2 d2. voucher_update exEnv exLater 7 exEdit = (Inr v2, d2)
          \<and> v_previousLedgerState v2 = Some resetBalances
          \<and> balancesOf d2 1
              = Some \<lparr>goldFineWeight = Fin 4, silverFineWeight = 0, amount = Fin 20000,
                      cashBalance = Fin 20000, creditBalance = 0\<rparr>)
   \<and> (\<exists>v2 d2. voucher_update exEnv exTwoLedgers 7 exEditMove = (Inr v2, d2)
          \<and> balancesOf d2 1 = Some resetBalances
          \<and> balancesOf d2 2
              = Some \<lparr>goldFineWeight = Fin 4, silverFineWeight = 0, amount = Fin 20000,
                      cashBalance = Fin 20000, creditBalance = 0\<rparr>)"
proof -
  note lat = exLater_eq
  have c1: "fst (voucher_create exEnv exBefore 7 exCreditSale) = Inr exSaleVoucher"
    by (simp add: model_defs exBefore_def exSaleVoucher_def exShop_def emptyDb_def exEnv_def
          exLedgerReq_def exCreditSale_def exGoldItem_def exUser_def showNat.simps)
  have c: "voucher_create exEnv exBefore 7 exCreditSale = (Inr exSaleVoucher, exAfterSale)"
    using c1 by (simp add: exAfterSale_def prod_eq_iff)
  have s: "map_of (vouchers exLater) 7 = Some exSaleVoucher"
    by (simp add: lat)
  have l: "map_of (ledgers exLater) (v_ledgerId exSaleVoucher) = Some exLaterLedger"
    by (simp add: lat exSaleVoucher_def)
  have s2: "map_of (vouchers exTwoLedgers) 7 = Some exSaleVoucher"
    by (simp add: exTwoLedgers_def lat)
  have l2: "map_of (ledgers exTwoLedgers) (v_ledgerId exSaleVoucher) = Some exLaterLedger"
    by (simp add: exTwoLedgers_def lat exSaleVoucher_def)
  have w: "canReverseForVoucher exEnv exSaleVoucher"
    by (simp add: canReverseForVoucher_def canReverseAt_def getReversalWindowHours_def
          exEnv_def exSaleVoucher_def Let_def)
  have b0: "balancesOf exBefore 1 = Some resetBalances"
    by (simp add: model_defs balancesOf_def exBefore_def exShop_def emptyDb_def exEnv_def
          exLedgerReq_def)
  have f0: "finiteBalances resetBalances"
    by (simp add: finiteBalances_def resetBalances_def isFinite_def)
  have p0: "v_previousLedgerState exSaleVoucher = Some resetBalances"
    by (simp add: exSaleVoucher_def resetBalances_def)
  have i1: "v_ledgerId exSaleVoucher = 1" by (simp add: exSaleVoucher_def)
  have bl: "balancesOf exLater 1
       = Some \<lparr>goldFineWeight = Fin 10, silverFineWeight = 0, amount = Fin 30000,
               cashBalance = Fin 30000, creditBalance = 0\<rparr>"
    by (simp add: lat balancesOf_def exLaterLedger_def)
  note T = reversal_restores_snapshot[OF c s l w, unfolded p0 i1]
  note T2 = reversal_restores_snapshot[OF c s2 l2 w, unfolded p0 i1]
  note Tcancel = T[THEN conjunct2, THEN conjunct2, THEN conjunct2, THEN conjunct2,
                   THEN conjunct1, rule_format]
  note Tdelete = T[THEN conjunct2, THEN conjunct2, THEN conjunct2, THEN conjunct2,
                   THEN conjunct2, THEN conjunct2, THEN conjunct1, rule_format]
  note Tedit = T[THEN conjunct2, THEN conjunct2, THEN conjunct2, THEN conjunct2,
                 THEN conjunct2, THEN conjunct2, THEN conjunct2, THEN conjunct2,
                 THEN conjunct1, rule_format]
  note Tmove = T2[THEN conjunct2, THEN conjunct2, THEN conjunct2, THEN conjunct2,
                  THEN conjunct2, THEN conjunct2, THEN conjunct2, THEN conjunct2,
                  THEN conjunct1, rule_format]
  have k1: "\<exists>v2. fst (voucher_cancel exEnv exLater 7 True) = Inr v2"
    by (simp add: lat model_defs exSaleVoucher_def exLaterLedger_def exEnv_def exAddCash_def)
  then obtain v2 where q1: "voucher_cancel exEnv exLater 7 True
        = (Inr v2, snd (voucher_cancel exEnv exLater 7 True))"
    by (auto simp: prod_eq_iff)
  have r1: "\<exists>v2 d2. voucher_cancel exEnv exLater 7 True = (Inr v2, d2)
          \<and> balancesOf d2 1 = Some resetBalances"
    using q1 Tcancel[OF q1] by blast
  have k2: "fst (voucher_delete exEnv exLater 7) = Inr ()"
    by (simp add: lat model_defs exSaleVoucher_def exLaterLedger_def exEnv_def exAddCash_def)
  have k2': "map_of (vouchers (snd (voucher_delete exEnv exLater 7))) 7 = None"
    by (simp add: lat model_defs exSaleVoucher_def exLaterLedger_def exEnv_def exAddCash_def)
  from k2 have q2: "voucher_delete exEnv exLater 7
        = (Inr (), snd (voucher_delete exEnv exLater 7))"
    by (simp add: prod_eq_iff)
  have r2: "\<exists>d2. voucher_delete exEnv exLater 7 = (Inr (), d2)
          \<and> map_of (vouchers d2) 7 = None
          \<and> balancesOf d2 1 = Some resetBalances"
    using q2 k2' Tdelete[OF q2] by blast
  have k3: "\<exists>v2. fst (voucher_update exEnv exLater 7 exEdit) = Inr v2"
    by (simp add: lat model_defs exSaleVoucher_def exLaterLedger_def exEnv_def exAddCash_def
          exEdit_def exCreditSale_def exGoldItem_def exUser_def)
  have k3': "balancesOf (snd (voucher_update exEnv exLater 7 exEdit)) 1
              = Some \<lparr>goldFineWeight = Fin 4, silverFineWeight = 0, amount = Fin 20000,
                      cashBalance = Fin 20000, creditBalance = 0\<rparr>"
    by (simp add: lat model_defs balancesOf_def exSaleVoucher_def exLaterLedger_def exEnv_def
          exAddCash_def exEdit_def exCreditSale_def exGoldItem_def exUser_def)
  have e1: "vr_ledgerId exEdit = Some 1" by (simp add: exEdit_def exCreditSale_def)
  from k3 obtain v3 where q3: "voucher_update exEnv exLater 7 exEdit
        = (Inr v3, snd (voucher_update exEnv exLater 7 exEdit))"
    by (auto simp: prod_eq_iff)
  have r3: "\<exists>v2 d2. voucher_update exEnv exLater 7 exEdit = (Inr v2, d2)
          \<and> v_previousLedgerState v2 = Some resetBalances
          \<and> balancesOf d2 1
              = Some \<lparr>goldFineWeight = Fin 4, silverFineWeight = 0, amount = Fin 20000,
                      cashBalance = Fin 20000, creditBalance = 0\<rparr>"
    using q3 k3' e1 Tedit[OF q3] by blast
  have k4: "\<exists>v2. fst (voucher_update exEnv exTwoLedgers 7 exEditMove) = Inr v2"
    by (simp add: exTwoLedgers_def exSecondLedger_def exEditMove_def lat model_defs
          exSaleVoucher_def exLaterLedger_def exEnv_def exAddCash_def
          exEdit_def exCreditSale_def exGoldItem_def exUser_def)
  have k4': "balancesOf (snd (voucher_update exEnv exTwoLedgers 7 exEditMove)) 2
              = Some \<lparr>goldFineWeight = Fin 4, silverFineWeight = 0, amount = Fin 20000,
                      cashBalance = Fin 20000, creditBalance = 0\<rparr>"
    by (simp add: exTwoLedgers_def exSecondLedger_def exEditMove_def lat model_defs
          balancesOf_def exSaleVoucher_def exLaterLedger_def exEnv_def exAddCash_def
          exEdit_def exCreditSale_def exGoldItem_def exUser_def)
  have e2: "vr_ledgerId exEditMove \<noteq> Some 1" by (simp add: exEditMove_def)
  from k4 obtain v4 where q4: "voucher_update exEnv exTwoLedgers 7 exEditMove
        = (Inr v4, snd (voucher_update exEnv exTwoLedgers 7 exEditMove))"
    by (auto simp: prod_eq_iff)
  have r4: "\<exists>v2 d2. voucher_update exEnv exTwoLedgers 7 exEditMove = (Inr v2, d2)
          \<and> balancesOf d2 1 = Some resetBalances
          \<and> balancesOf d2 2
              = Some \<lparr>goldFineWeight = Fin 4, silverFineWeight = 0, amount = Fin 20000,
                      cashBalance = Fin 20000, creditBalance = 0\<rparr>"
    using q4 k4' e2 Tmove[OF q4] by blast
  show ?thesis
    using c s l s2 l2 w b0 f0 p0 bl r1 r2 r3 r4 by blast
qed

subsection \<open>C9: pre-checks of a payment settlement\<close>

lemma not_less_num_of: "(\<not> Fin c < num_of x) = (num_of x \<le> Fin c)"
  by (auto simp: num_of_def)

lemma precheck_payment:
  "\<not> sr_isMoneyConversion r \<Longrightarrow>
   settlementPrecheck r m Payment b = None
     \<longleftrightarrow> toNumber (sr_fineGiven r) 0 \<le> balanceBeforeFine m b
         \<and> settlementAmount r \<le> Fin (toNumber (Val (creditBalance b)) 0)"
  by (auto simp: settlementPrecheck_def settlementAmount_def Let_def not_less_num_of
        simp flip: not_less_num_of)

lemma balanceBeforeFine_finite: "fineOf m b = Fin fw \<Longrightarrow> balanceBeforeFine m b = fw"
  by (simp add: balanceBeforeFine_def)

text \<open>Sums and products of the example weights.\<close>

lemma huge_sum: "num_of (- (2 * exHugeRate)) = NInf"
  by (simp add: num_of_def OVERFLOW_THRESHOLD_def exHugeRate_def)

lemma huge_single: "num_of exHugeRate = Fin exHugeRate" "num_of (- exHugeRate) = Fin (- exHugeRate)"
  by (simp_all add: num_of_def OVERFLOW_THRESHOLD_def exHugeRate_def)

lemma exNegInfDb_balances:
  "balancesOf exNegInfDb 1
     = Some \<lparr>goldFineWeight = NInf, silverFineWeight = 0, amount = 0,
             cashBalance = 0, creditBalance = 0\<rparr>"
  "stockDoc exNegInfDb = Some \<lparr>gold = 25, silver = 40, cashInHand = 0\<rparr>"
  "settlements exNegInfDb = []"
  "map ledgerType (map snd (ledgers exNegInfDb)) = [Regular]"
  "map fst (ledgers exNegInfDb) = [1]"
  by (simp_all add: exNegInfDb_def exBefore_eq huge_sum huge_product huge_single model_defs
        balancesOf_def exHugePurchase_def exHugeBar_def exCreditSale_def
        exShop_def emptyDb_def exEnv_def exUser_def showNat.simps)

text \<open>The ledger after the credit purchase of the two bars.\<close>

lemma exNegInfDb_ledger:
  "map_of (ledgers exNegInfDb) 1
     = Some \<lparr>ledgerType = Regular,
             openingBalance = \<lparr>ob_amount = 0, ob_goldFineWeight = 0,
                                ob_silverFineWeight = 0\<rparr>,
             ledger_balances = \<lparr>goldFineWeight = NInf, silverFineWeight = 0, amount = 0,
                                 cashBalance = 0, creditBalance = 0\<rparr>,
             hasVouchers = True\<rparr>"
  by (simp add: exNegInfDb_def exBefore_eq huge_sum huge_product huge_single model_defs
        exHugePurchase_def exHugeBar_def exCreditSale_def
        exShop_def emptyDb_def exEnv_def exUser_def showNat.simps)

text \<open>
  Claim C9 says that a payment settlement requires the fine-weight balance to be at
  least \<open>fineGiven\<close>. The handler compares \<open>fineGiven\<close> with \<open>toNumber\<close> of the balance:
  on a ledger whose gold balance is minus infinity (after a credit purchase of two bars
  of \<open>1e308\<close> g), a payment settlement of 0 g is accepted, although the balance is below
  0, and the gold balance of the ledger becomes 0.
\<close>

theorem payment_on_infinite_debt_counterexample:
  "balancesOf exBefore 1 = Some resetBalances
   \<and> \<not> isl (fst (voucher_create exEnv exBefore 7 exHugePurchase))
   \<and> balancesOf exNegInfDb 1
       = Some \<lparr>goldFineWeight = NInf, silverFineWeight = 0, amount = 0,
               cashBalance = 0, creditBalance = 0\<rparr>
   \<and> sr_direction exZeroPayment = Valid Payment
   \<and> \<not> sr_isMoneyConversion exZeroPayment
   \<and> sr_metalType exZeroPayment = Valid Gold
   \<and> toNumber (sr_fineGiven exZeroPayment) 0 = 0
   \<and> goldFineWeight (the (balancesOf exNegInfDb 1))
       < Fin (toNumber (sr_fineGiven exZeroPayment) 0)
   \<and> \<not> isl (fst (settlement_create exEnv exNegInfDb 9 exZeroPayment))
   \<and> balancesOf (snd (settlement_create exEnv exNegInfDb 9 exZeroPayment)) 1
       = Some \<lparr>goldFineWeight = 0, silverFineWeight = 0, amount = 0,
               cashBalance = 0, creditBalance = 0\<rparr>"
proof -
  have b0: "balancesOf exBefore 1 = Some resetBalances"
    by (simp add: exBefore_eq balancesOf_def)
  have c: "\<not> isl (fst (voucher_create exEnv exBefore 7 exHugePurchase))"
    by (simp add: exBefore_eq huge_sum huge_product huge_single model_defs
          exHugePurchase_def exHugeBar_def exCreditSale_def
          exShop_def emptyDb_def exEnv_def exUser_def showNat.simps)
  have r: "sr_direction exZeroPayment = Valid Payment"
      "\<not> sr_isMoneyConversion exZeroPayment" "sr_metalType exZeroPayment = Valid Gold"
      "toNumber (sr_fineGiven exZeroPayment) 0 = 0"
    by (simp_all add: exZeroPayment_def exPayment_def)
  have s: "\<not> isl (fst (settlement_create exEnv exNegInfDb 9 exZeroPayment))"
    by (simp add: exNegInfDb_ledger[unfolded One_nat_def] exNegInfDb_balances(2)
          model_defs exZeroPayment_def exPayment_def exEnv_def)
  have b: "balancesOf (snd (settlement_create exEnv exNegInfDb 9 exZeroPayment)) 1
       = Some \<lparr>goldFineWeight = 0, silverFineWeight = 0, amount = 0,
               cashBalance = 0, creditBalance = 0\<rparr>"
    by (simp add: exNegInfDb_ledger[unfolded One_nat_def] exNegInfDb_balances(2)
          model_defs balancesOf_def update_conv' exZeroPayment_def exPayment_def exEnv_def)
  have n: "goldFineWeight (the (balancesOf exNegInfDb 1))
       < Fin (toNumber (sr_fineGiven exZeroPayment) 0)"
    unfolding exNegInfDb_balances(1) r(4) by simp
  show ?thesis
    using b0 c r s b n exNegInfDb_balances(1) by blast
qed

text \<open>
  Claim C9, amended. For a settlement request with direction \<open>payment\<close> (given or
  defaulted) that is not a money conversion, on an existing ledger, the two balances are
  read through \<open>toNumber\<close>, so that a balance that is not finite counts as 0. If the
  fine-weight balance on the requested metal, so read, is below \<open>fineGiven\<close>, or the
  \<open>creditBalance\<close>, so read, is below the settlement amount \<open>fineGiven * metalRate\<close>, the
  request is answered with status 400 and the store is returned unchanged (no ledger
  balance, no stock counter); and a request that succeeds has met both conditions. On a
  ledger whose two balances are finite numbers this is the claim as it stands.
\<close>

theorem payment_settlement_needs_fine_and_credit:
  assumes dir: "sr_direction r = Valid Payment \<or> sr_direction r = Absent"
    and conv: "\<not> sr_isMoneyConversion r"
    and lid: "sr_ledgerId r = Some lid"
    and metal: "sr_metalType r = Valid m"
    and ledger: "map_of (ledgers d) lid = Some l"
  shows "settlementAmount r
           = Fin (toNumber (sr_fineGiven r) 0) * Fin (toNumber (sr_metalRate r) 0)
       \<and> (balanceBeforeFine m (ledger_balances l) < toNumber (sr_fineGiven r) 0
          \<or> Fin (toNumber (Val (creditBalance (ledger_balances l))) 0) < settlementAmount r
          \<longrightarrow> (\<exists>msg. settlement_create e d newId r = (Inl (BadRequest msg), d)))
       \<and> (\<forall>s d'. settlement_create e d newId r = (Inr s, d')
            \<longrightarrow> toNumber (sr_fineGiven r) 0 \<le> balanceBeforeFine m (ledger_balances l)
                \<and> settlementAmount r
                     \<le> Fin (toNumber (Val (creditBalance (ledger_balances l))) 0))
       \<and> (\<forall>fw cr. fineOf m (ledger_balances l) = Fin fw
            \<longrightarrow> creditBalance (ledger_balances l) = Fin cr
            \<longrightarrow> (fineOf m (ledger_balances l) < Fin (toNumber (sr_fineGiven r) 0)
                  \<or> creditBalance (ledger_balances l) < settlementAmount r
                  \<longrightarrow> (\<exists>msg. settlement_create e d newId r = (Inl (BadRequest msg), d)))
                \<and> (\<forall>s d'. settlement_create e d newId r = (Inr s, d')
                     \<longrightarrow> Fin (toNumber (sr_fineGiven r) 0) \<le> fineOf m (ledger_balances l)
                         \<and> settlementAmount r \<le> creditBalance (ledger_balances l)))"
proof -
  have D: "(case sr_direction r of Valid x \<Rightarrow> x | _ \<Rightarrow> Payment) = Payment"
      and NI: "sr_direction r \<noteq> Invalid"
    using dir by auto
  have C: "settlement_create e d newId r = settlement_process e d newId r lid m Payment"
    using lid metal D NI by (simp add: settlement_create_def)
  have 0: "settlementAmount r
           = Fin (toNumber (sr_fineGiven r) 0) * Fin (toNumber (sr_metalRate r) 0)"
    using conv by (simp add: settlementAmount_def)
  have 1: "balanceBeforeFine m (ledger_balances l) < toNumber (sr_fineGiven r) 0
          \<or> Fin (toNumber (Val (creditBalance (ledger_balances l))) 0) < settlementAmount r
          \<Longrightarrow> \<exists>msg. settlement_create e d newId r = (Inl (BadRequest msg), d)"
    unfolding C settlement_process_def using ledger conv
    by (auto simp: settlementPrecheck_def Let_def)
  have 2: "\<And>s d'. settlement_create e d newId r = (Inr s, d')
            \<Longrightarrow> settlementPrecheck r m Payment (ledger_balances l) = None"
    unfolding C settlement_process_def using ledger
    by (auto split: option.splits)
  have 3: "\<And>s d'. settlement_create e d newId r = (Inr s, d')
            \<Longrightarrow> toNumber (sr_fineGiven r) 0 \<le> balanceBeforeFine m (ledger_balances l)
                \<and> settlementAmount r
                     \<le> Fin (toNumber (Val (creditBalance (ledger_balances l))) 0)"
    using 2 precheck_payment[OF conv, of m "ledger_balances l"] by simp
  have 4: "\<forall>fw cr. fineOf m (ledger_balances l) = Fin fw
            \<longrightarrow> creditBalance (ledger_balances l) = Fin cr
            \<longrightarrow> (fineOf m (ledger_balances l) < Fin (toNumber (sr_fineGiven r) 0)
                  \<or> creditBalance (ledger_balances l) < settlementAmount r
                  \<longrightarrow> (\<exists>msg. settlement_create e d newId r = (Inl (BadRequest msg), d)))
                \<and> (\<forall>s d'. settlement_create e d newId r = (Inr s, d')
                     \<longrightarrow> Fin (toNumber (sr_fineGiven r) 0) \<le> fineOf m (ledger_balances l)
                         \<and> settlementAmount r \<le> creditBalance (ledger_balances l))"
  proof (intro allI impI)
    fix fw cr
    assume f: "fineOf m (ledger_balances l) = Fin fw"
      and k: "creditBalance (ledger_balances l) = Fin cr"
    have bf: "balanceBeforeFine m (ledger_balances l) = fw"
      using f by (rule balanceBeforeFine_finite)
    show "(fineOf m (ledger_balances l) < Fin (toNumber (sr_fineGiven r) 0)
                  \<or> creditBalance (ledger_balances l) < settlementAmount r
                  \<longrightarrow> (\<exists>msg. settlement_create e d newId r = (Inl (BadRequest msg), d)))
                \<and> (\<forall>s d'. settlement_create e d newId r = (Inr s, d')
                     \<longrightarrow> Fin (toNumber (sr_fineGiven r) 0) \<le> fineOf m (ledger_balances l)
                         \<and> settlementAmount r \<le> creditBalance (ledger_balances l))"
      using 1 3 unfolding bf f k by auto
  qed
  show ?thesis
    using 0 1 3 4 by blast
qed

text \<open>
  Payment of 5 g of gold against a ledger that owes only 3 g: rejected, store unchanged.
  Payment of 2 g at rate 5000 against the same ledger, which owes 90000: accepted, and
  both conditions are met.
\<close>

theorem payment_settlement_needs_fine_and_credit_witness:
  "(sr_direction exPayment = Valid Payment \<or> sr_direction exPayment = Absent)
   \<and> \<not> sr_isMoneyConversion exPayment
   \<and> sr_ledgerId exPayment = Some 1
   \<and> sr_metalType exPayment = Valid Gold
   \<and> map_of (ledgers exDebtorDb) 1 = Some exDebtor
   \<and> fineOf Gold (ledger_balances exDebtor) = Fin 3
   \<and> creditBalance (ledger_balances exDebtor) = Fin 90000
   \<and> fineOf Gold (ledger_balances exDebtor) < Fin (toNumber (sr_fineGiven exPayment) 0)
   \<and> settlement_create exEnv exDebtorDb 9 exPayment
       = (Inl (BadRequest ''Insufficient balance for settlement''), exDebtorDb)
   \<and> (sr_direction exSmallPayment = Valid Payment \<or> sr_direction exSmallPayment = Absent)
   \<and> \<not> sr_isMoneyConversion exSmallPayment
   \<and> sr_ledgerId exSmallPayment = Some 1
   \<and> sr_metalType exSmallPayment = Valid Gold
   \<and> \<not> isl (fst (settlement_create exEnv exDebtorDb 9 exSmallPayment))
   \<and> toNumber (sr_fineGiven exSmallPayment) 0 = 2
   \<and> settlementAmount exSmallPayment = Fin 10000
   \<and> Fin (toNumber (sr_fineGiven exSmallPayment) 0) \<le> fineOf Gold (ledger_balances exDebtor)
   \<and> settlementAmount exSmallPayment \<le> creditBalance (ledger_balances exDebtor)"
proof -
  have a: "sr_direction exPayment = Valid Payment \<or> sr_direction exPayment = Absent"
    and b: "\<not> sr_isMoneyConversion exPayment"
    and c: "sr_ledgerId exPayment = Some 1"
    and m: "sr_metalType exPayment = Valid Gold"
    by (simp_all add: exPayment_def)
  have a2: "sr_direction exSmallPayment = Valid Payment
            \<or> sr_direction exSmallPayment = Absent"
    and b2: "\<not> sr_isMoneyConversion exSmallPayment"
    and c2: "sr_ledgerId exSmallPayment = Some 1"
    and m2: "sr_metalType exSmallPayment = Valid Gold"
    and f2: "toNumber (sr_fineGiven exSmallPayment) 0 = 2"
    by (simp_all add: exSmallPayment_def exPayment_def)
  have l: "map_of (ledgers exDebtorDb) 1 = Some exDebtor"
    by (simp add: exDebtorDb_def)
  have g: "fineOf Gold (ledger_balances exDebtor) = Fin 3"
    and k: "creditBalance (ledger_balances exDebtor) = Fin 90000"
    by (simp_all add: fineOf_def exDebtor_def)
  have f: "fineOf Gold (ledger_balances exDebtor) < Fin (toNumber (sr_fineGiven exPayment) 0)"
    by (simp add: fineOf_def exDebtor_def exPayment_def)
  note T = payment_settlement_needs_fine_and_credit[OF a b c m l, of exEnv 9,
             THEN conjunct2, THEN conjunct2, THEN conjunct2, rule_format, OF g k,
             THEN conjunct1, rule_format]
  from T f obtain msg where r: "settlement_create exEnv exDebtorDb 9 exPayment
      = (Inl (BadRequest msg), exDebtorDb)"
    by blast
  have "fst (settlement_create exEnv exDebtorDb 9 exPayment)
      = Inl (BadRequest ''Insufficient balance for settlement'')"
    by (simp add: settlement_create_def settlement_process_def settlementPrecheck_def
          settlementAmount_def fineOf_def balanceBeforeFine_def Let_def exPayment_def
          exDebtorDb_def exDebtor_def)
  with r have "msg = ''Insufficient balance for settlement''" by simp
  with r have r1: "settlement_create exEnv exDebtorDb 9 exPayment
       = (Inl (BadRequest ''Insufficient balance for settlement''), exDebtorDb)" by simp
  have ok: "\<not> isl (fst (settlement_create exEnv exDebtorDb 9 exSmallPayment))"
    by (simp add: model_defs exSmallPayment_def exPayment_def exDebtorDb_def exDebtor_def
          exShop_def emptyDb_def exEnv_def)
  then obtain s where "fst (settlement_create exEnv exDebtorDb 9 exSmallPayment) = Inr s"
    by (cases "fst (settlement_create exEnv exDebtorDb 9 exSmallPayment)") auto
  then have e: "settlement_create exEnv exDebtorDb 9 exSmallPayment
       = (Inr s, snd (settlement_create exEnv exDebtorDb 9 exSmallPayment))"
    by (simp add: prod_eq_iff)
  note T0 = payment_settlement_needs_fine_and_credit[OF a2 b2 c2 m2 l, of exEnv 9,
              THEN conjunct1]
  have am: "settlementAmount exSmallPayment = Fin 10000"
    unfolding T0 by (simp add: exSmallPayment_def exPayment_def num_of_small)
  note T2 = payment_settlement_needs_fine_and_credit[OF a2 b2 c2 m2 l, of exEnv 9,
             THEN conjunct2, THEN conjunct2, THEN conjunct2, rule_format, OF g k,
             THEN conjunct2, rule_format, OF e]
  show ?thesis
    using a b c m l g k f r1 a2 b2 c2 m2 ok f2 am T2 by blast
qed

subsection \<open>C10: cancelling a voucher whose ledger is gone\<close>

text \<open>
  Claim C10. When the ledger a voucher refers to no longer exists, cancelling the (active)
  voucher succeeds: the voucher is stored with status \<open>cancelled\<close> and nothing else in
  the store changes, so no ledger balance and no stock counter is touched, and the
  voucher's \<open>stockRestored\<close> flag keeps its value, \<open>false\<close> for a voucher whose stock
  was never restored.
\<close>

theorem cancel_without_ledger:
  assumes "map_of (vouchers d) vid = Some v"
    and "v_status v = Active"
    and "map_of (ledgers d) (v_ledgerId v) = None"
  shows "voucher_cancel e d vid True
           = (Inr (v\<lparr>v_status := Cancelled\<rparr>),
              d\<lparr>vouchers := AList.update vid (v\<lparr>v_status := Cancelled\<rparr>) (vouchers d)\<rparr>)
       \<and> stockDoc (snd (voucher_cancel e d vid True)) = stockDoc d
       \<and> ledgers (snd (voucher_cancel e d vid True)) = ledgers d
       \<and> map_of (vouchers (snd (voucher_cancel e d vid True))) vid
            = Some (v\<lparr>v_status := Cancelled\<rparr>)
       \<and> v_stockRestored (v\<lparr>v_status := Cancelled\<rparr>) = v_stockRestored v
       \<and> (\<not> v_stockRestored v \<longrightarrow>
             (\<forall>v2. fst (voucher_cancel e d vid True) = Inr v2 \<longrightarrow> \<not> v_stockRestored v2))"
  using assms
  by (simp add: voucher_cancel_def voucher_cancel_body_def finishSession_def Let_def update_conv')

text \<open>The sale voucher of the earlier example, in a store without its ledger.\<close>

theorem cancel_without_ledger_witness:
  "map_of (vouchers exOrphanDb) 7 = Some exSaleVoucher
   \<and> v_status exSaleVoucher = Active
   \<and> map_of (ledgers exOrphanDb) (v_ledgerId exSaleVoucher) = None
   \<and> voucher_cancel exEnv exOrphanDb 7 True
       = (Inr (exSaleVoucher\<lparr>v_status := Cancelled\<rparr>),
          exOrphanDb\<lparr>vouchers := [(7, exSaleVoucher\<lparr>v_status := Cancelled\<rparr>)]\<rparr>)
   \<and> \<not> v_stockRestored (exSaleVoucher\<lparr>v_status := Cancelled\<rparr>)"
proof -
  have a: "map_of (vouchers exOrphanDb) 7 = Some exSaleVoucher"
    by (simp add: exOrphanDb_def)
  have b: "v_status exSaleVoucher = Active" by (simp add: exSaleVoucher_def)
  have c: "map_of (ledgers exOrphanDb) (v_ledgerId exSaleVoucher) = None"
    by (simp add: exOrphanDb_def exShop_def emptyDb_def)
  show ?thesis
    using a b c cancel_without_ledger[OF a b c, of exEnv]
    by (simp add: exOrphanDb_def exSaleVoucher_def)
qed

subsection \<open>C8: reversing twice\<close>

text \<open>
  The guards against a second reversal. A cancelled voucher is not cancelled again, a
  deleted karigar transaction is not deleted again, and a voucher whose \<open>stockRestored\<close>
  flag is set causes no stock call in \<open>reverseVoucherEffects\<close>.
\<close>

lemma cancel_body_stored:
  "voucher_cancel_body e d vid b = (Inr v1, d1) \<Longrightarrow>
   map_of (vouchers d1) vid = Some v1 \<and> v_status v1 = Cancelled"
  unfolding voucher_cancel_body_def Let_def
  by (auto split: option.splits sum.splits prod.splits if_splits simp: update_conv')

lemma cancel_cancelled:
  "map_of (vouchers d) vid = Some v \<Longrightarrow> v_status v = Cancelled \<Longrightarrow>
   \<exists>msg. voucher_cancel e d vid b = (Inl (BadRequest msg), d)"
  by (simp add: voucher_cancel_def voucher_cancel_body_def finishSession_def)

lemma cancel_twice:
  assumes "voucher_cancel e1 d vid True = (Inr v1, d1)"
  shows "\<exists>msg. voucher_cancel e2 d1 vid b = (Inl (BadRequest msg), d1)"
proof -
  have "voucher_cancel_body e1 d vid True = (Inr v1, d1)"
    using assms unfolding voucher_cancel_def by (rule finish_Inr)
  then have "map_of (vouchers d1) vid = Some v1 \<and> v_status v1 = Cancelled"
    by (rule cancel_body_stored)
  then show ?thesis using cancel_cancelled by blast
qed

lemma karigar_delete_stored:
  "karigar_delete e d kid = (Inr u, d1) \<Longrightarrow>
   \<exists>t. map_of (karigars d1) kid = Some t \<and> k_isDeleted t"
  unfolding karigar_delete_def Let_def
  by (auto split: option.splits sum.splits if_splits simp: update_conv')

lemma karigar_delete_deleted:
  "map_of (karigars d) kid = Some t \<Longrightarrow> k_isDeleted t \<Longrightarrow>
   karigar_delete e d kid = (Inl (BadRequest ''Transaction already deleted''), d)"
  by (simp add: karigar_delete_def)

lemma karigar_delete_twice:
  assumes "karigar_delete e1 d kid = (Inr u, d1)"
  shows "karigar_delete e2 d1 kid = (Inl (BadRequest ''Transaction already deleted''), d1)"
proof -
  obtain t where "map_of (karigars d1) kid = Some t" "k_isDeleted t"
    using assms karigar_delete_stored by blast
  then show ?thesis by (rule karigar_delete_deleted)
qed

lemma reverse_restored:
  "v_stockRestored v \<Longrightarrow>
   reverseVoucherEffects v l s rs mr = (Inr (v, l\<lparr>ledger_balances := reverseBalances v l\<rparr>), s)"
  by (simp add: reverseVoucherEffects_def Let_def)

text \<open>
  The deletion of a voucher that has been cancelled with its stock restored makes no
  stock call and assigns no balance.
\<close>

lemma balancesOf_hasVouchers:
  "map_of (ledgers d) lid = Some l \<Longrightarrow>
   balancesOf (d\<lparr>ledgers := AList.update lid (l\<lparr>hasVouchers := h\<rparr>) (ledgers d)\<rparr>) k
     = balancesOf d k"
  by (simp add: balancesOf_def update_conv')

lemma delete_after_cancel:
  assumes v: "map_of (vouchers d) vid = Some v"
    and c: "v_status v = Cancelled" and r: "v_stockRestored v"
  shows "\<exists>d'. voucher_delete e d vid = (Inr (), d')
       \<and> stockDoc d' = stockDoc d \<and> (\<forall>k. balancesOf d' k = balancesOf d k)
       \<and> map_of (vouchers d') vid = None"
proof (cases "map_of (ledgers d) (v_ledgerId v)")
  case None
  then show ?thesis using v
    by (simp add: voucher_delete_def voucher_delete_body_def finishSession_def Let_def
          balancesOf_def delete_conv')
next
  case (Some l)
  show ?thesis
  proof (cases "remainingVouchers d (v_ledgerId v) vid = 0")
    case True
    then have "voucher_delete e d vid =
        (Inr (), d\<lparr>stockDoc := stockDoc d,
                   ledgers := AList.update (v_ledgerId v) (l\<lparr>hasVouchers := False\<rparr>) (ledgers d),
                   vouchers := AList.delete vid (vouchers d)\<rparr>)"
      using v c r Some
      by (simp add: voucher_delete_def voucher_delete_body_def finishSession_def Let_def)
    then show ?thesis using Some
      by (simp add: balancesOf_def update_conv' delete_conv')
  next
    case False
    then have "voucher_delete e d vid =
        (Inr (), d\<lparr>stockDoc := stockDoc d,
                   ledgers := AList.update (v_ledgerId v) l (ledgers d),
                   vouchers := AList.delete vid (vouchers d)\<rparr>)"
      using v c r Some
      by (simp add: voucher_delete_def voucher_delete_body_def finishSession_def Let_def)
    then show ?thesis using Some
      by (simp add: balancesOf_def update_conv' delete_conv' map_upd_triv)
  qed
qed

text \<open>The store after the credit sale, written out.\<close>

lemma exAfterSale_eq:
  "exAfterSale =
     \<lparr>ledgers = [(1, exLaterLedger\<lparr>ledger_balances :=
                       (ledger_balances exLaterLedger)
                         \<lparr>amount := Fin 50000, cashBalance := Fin 50000\<rparr>\<rparr>)],
      vouchers = [(7, exSaleVoucher)],
      settlements = [], karigars = [],
      stockDoc = Some \<lparr>gold = 15, silver = 40, cashInHand = 0\<rparr>,
      stockInputs = [],
      userDoc = Some \<lparr>autoIncrement = True, currentVoucherNumber = 2, stockMode = Bulk\<rparr>\<rparr>"
  by (simp add: model_defs exAfterSale_def exBefore_def exSaleVoucher_def
        exShop_def emptyDb_def exEnv_def exLedgerReq_def exCreditSale_def exGoldItem_def
        exUser_def exLaterLedger_def showNat.simps)

text \<open>
  Claim C8 says that a second reversal of a record changes neither ledger balances nor
  stock. The guards above hold, and yet a voucher can be reversed twice. The shop holds
  25 g of gold; a credit sale of 10 g on ledger 1 brings the stock to 15 g. On a
  standalone storage node an edit request for that voucher with no \<open>ledgerId\<close> is
  answered with ``Ledger is required'', but only after the old state has been reversed
  and saved: the stock is back at 25 g and the ledger is back at its snapshot, while the
  voucher is still stored as it was, active and with \<open>stockRestored\<close> false. The
  cancellation of the voucher then goes through and restores the stock a second time,
  to 35 g: 10 g more than the shop held before the sale. With transactions the refused
  edit leaves the store as it was.
\<close>

theorem failed_edit_then_cancel_restores_stock_twice:
  "stockDoc exBefore = Some \<lparr>gold = 25, silver = 40, cashInHand = 0\<rparr>
   \<and> voucher_create exEnv exBefore 7 exCreditSale = (Inr exSaleVoucher, exAfterSale)
   \<and> stockDoc exAfterSale = Some \<lparr>gold = 15, silver = 40, cashInHand = 0\<rparr>
   \<and> voucher_update exEnv exAfterSale 7 exEditNoLedger
       = (Inl (BadRequest ''Ledger is required''), exFailedEdit)
   \<and> stockDoc exFailedEdit = Some \<lparr>gold = 25, silver = 40, cashInHand = 0\<rparr>
   \<and> balancesOf exFailedEdit 1 = Some resetBalances
   \<and> map_of (vouchers exFailedEdit) 7 = Some exSaleVoucher
   \<and> v_status exSaleVoucher = Active
   \<and> v_stockRestored exSaleVoucher = False
   \<and> fst (voucher_cancel exEnv exFailedEdit 7 True)
       = Inr (exSaleVoucher\<lparr>v_stockRestored := True, v_status := Cancelled\<rparr>)
   \<and> stockDoc (snd (voucher_cancel exEnv exFailedEdit 7 True))
       = Some \<lparr>gold = 35, silver = 40, cashInHand = 0\<rparr>
   \<and> balancesOf (snd (voucher_cancel exEnv exFailedEdit 7 True)) 1 = Some resetBalances
   \<and> stockDoc (snd (voucher_delete exEnv exFailedEdit 7))
       = Some \<lparr>gold = 35, silver = 40, cashInHand = 0\<rparr>
   \<and> voucher_update (exEnv\<lparr>txn := True\<rparr>) exAfterSale 7 exEditNoLedger
       = (Inl (BadRequest ''Ledger is required''), exAfterSale)"
proof -
  have s0: "stockDoc exBefore = Some \<lparr>gold = 25, silver = 40, cashInHand = 0\<rparr>"
    by (simp add: exBefore_eq exShop_def emptyDb_def)
  have c0: "fst (voucher_create exEnv exBefore 7 exCreditSale) = Inr exSaleVoucher"
    by (simp add: model_defs exBefore_eq exSaleVoucher_def exShop_def emptyDb_def exEnv_def
          exCreditSale_def exGoldItem_def exUser_def showNat.simps)
  have c: "voucher_create exEnv exBefore 7 exCreditSale = (Inr exSaleVoucher, exAfterSale)"
    using c0 by (simp add: exAfterSale_def prod_eq_iff)
  have s1: "stockDoc exAfterSale = Some \<lparr>gold = 15, silver = 40, cashInHand = 0\<rparr>"
    by (simp add: exAfterSale_eq)
  have f: "exFailedEdit =
     \<lparr>ledgers = [(1, exLaterLedger\<lparr>ledger_balances := resetBalances\<rparr>)],
      vouchers = [(7, exSaleVoucher)],
      settlements = [], karigars = [],
      stockDoc = Some \<lparr>gold = 25, silver = 40, cashInHand = 0\<rparr>,
      stockInputs = [],
      userDoc = Some \<lparr>autoIncrement = True, currentVoucherNumber = 2, stockMode = Bulk\<rparr>\<rparr>"
    by (simp add: exFailedEdit_def exAfterSale_eq model_defs exSaleVoucher_def
          exLaterLedger_def exEnv_def exEditNoLedger_def exCreditSale_def)
  have u0: "fst (voucher_update exEnv exAfterSale 7 exEditNoLedger)
       = Inl (BadRequest ''Ledger is required'')"
    by (simp add: exAfterSale_eq model_defs exSaleVoucher_def
          exLaterLedger_def exEnv_def exEditNoLedger_def exCreditSale_def)
  have u: "voucher_update exEnv exAfterSale 7 exEditNoLedger
       = (Inl (BadRequest ''Ledger is required''), exFailedEdit)"
    using u0 by (simp add: exFailedEdit_def prod_eq_iff)
  have s2: "stockDoc exFailedEdit = Some \<lparr>gold = 25, silver = 40, cashInHand = 0\<rparr>"
    and b2: "balancesOf exFailedEdit 1 = Some resetBalances"
    and v2: "map_of (vouchers exFailedEdit) 7 = Some exSaleVoucher"
    by (simp_all add: f balancesOf_def)
  have a: "v_status exSaleVoucher = Active" "v_stockRestored exSaleVoucher = False"
    by (simp_all add: exSaleVoucher_def)
  have k: "voucher_cancel exEnv exFailedEdit 7 True =
     (Inr (exSaleVoucher\<lparr>v_stockRestored := True, v_status := Cancelled\<rparr>),
      \<lparr>ledgers = [(1, exLaterLedger\<lparr>ledger_balances := resetBalances,
                                     hasVouchers := False\<rparr>)],
       vouchers = [(7, exSaleVoucher\<lparr>v_stockRestored := True, v_status := Cancelled\<rparr>)],
       settlements = [], karigars = [],
       stockDoc = Some \<lparr>gold = 35, silver = 40, cashInHand = 0\<rparr>,
       stockInputs = [],
       userDoc = Some \<lparr>autoIncrement = True, currentVoucherNumber = 2, stockMode = Bulk\<rparr>\<rparr>)"
    by (simp add: f model_defs exSaleVoucher_def exLaterLedger_def exEnv_def)
  have dl: "stockDoc (snd (voucher_delete exEnv exFailedEdit 7))
       = Some \<lparr>gold = 35, silver = 40, cashInHand = 0\<rparr>"
    by (simp add: f model_defs exSaleVoucher_def exLaterLedger_def exEnv_def)
  have t: "voucher_update (exEnv\<lparr>txn := True\<rparr>) exAfterSale 7 exEditNoLedger
       = (Inl (BadRequest ''Ledger is required''), exAfterSale)"
    by (simp add: exAfterSale_eq model_defs exSaleVoucher_def
          exLaterLedger_def exEnv_def exEditNoLedger_def exCreditSale_def)
  show ?thesis
    using s0 c s1 u s2 b2 v2 a dl t by (simp add: k balancesOf_def)
qed

subsection \<open>C4: requests after the reversal window\<close>

lemma cancel_expired:
  "map_of (vouchers d) vid = Some v \<Longrightarrow> v_status v = Active \<Longrightarrow>
   \<not> canReverseForVoucher e v \<Longrightarrow>
   voucher_cancel e d vid True
     = (Inr (v\<lparr>v_status := Cancelled\<rparr>),
        d\<lparr>vouchers := AList.update vid (v\<lparr>v_status := Cancelled\<rparr>) (vouchers d)\<rparr>)"
  by (simp add: voucher_cancel_def voucher_cancel_body_def finishSession_def Let_def
        split: option.splits)

lemma balancesOf_same:
  "map_of ls k = Some l \<Longrightarrow> ledger_balances l' = ledger_balances l \<Longrightarrow>
   balancesOf (d\<lparr>ledgers := AList.update k l' ls\<rparr>) = map_option ledger_balances \<circ> map_of ls"
  by (auto simp: balancesOf_def update_conv' fun_eq_iff)

lemma balancesOf_alt: "balancesOf d = map_option ledger_balances \<circ> map_of (ledgers d)"
  by (auto simp: balancesOf_def fun_eq_iff)

lemma delete_expired:
  assumes V: "map_of (vouchers d) vid = Some v" and W: "\<not> canReverseForVoucher e v"
  shows "\<exists>d2. voucher_delete e d vid = (Inr (), d2) \<and> map_of (vouchers d2) vid = None
            \<and> stockDoc d2 = stockDoc d \<and> balancesOf d2 = balancesOf d"
proof (cases "map_of (ledgers d) (v_ledgerId v)")
  case None
  then show ?thesis using V W
    by (simp add: voucher_delete_def voucher_delete_body_def finishSession_def Let_def
          delete_conv' balancesOf_alt)
next
  case (Some l)
  have "balancesOf (d\<lparr>ledgers := AList.update (v_ledgerId v) (l\<lparr>hasVouchers := False\<rparr>) (ledgers d)\<rparr>)
          = balancesOf d"
    using balancesOf_same[OF Some, of "l\<lparr>hasVouchers := False\<rparr>" d] by (simp add: balancesOf_alt)
  moreover have "balancesOf (d\<lparr>ledgers := AList.update (v_ledgerId v) l (ledgers d)\<rparr>)
          = balancesOf d"
    using balancesOf_same[OF Some, of l d] by (simp add: balancesOf_alt)
  ultimately show ?thesis using V W Some
    by (simp add: voucher_delete_def voucher_delete_body_def finishSession_def Let_def
          delete_conv' balancesOf_alt)
qed

lemma settlement_delete_expired:
  "map_of (settlements d) sid = Some s \<Longrightarrow> \<not> canReverseForSettlement e s \<Longrightarrow>
   settlement_delete e d sid
     = (Inl (WindowExpired (getReversalWindowHours e)), d)"
  by (simp add: settlement_delete_def)

lemma karigar_delete_expired:
  "map_of (karigars d) kid = Some t \<Longrightarrow> \<not> k_isDeleted t \<Longrightarrow> \<not> canReverseForKarigar e t \<Longrightarrow>
   karigar_delete e d kid
     = (Inl (WindowExpired (getReversalWindowHours e)), d)"
  by (simp add: karigar_delete_def)

text \<open>
  Claim C4 says that after the window a deletion still proceeds for every record kind.
  For settlements and karigar transactions it does not: a settlement and a karigar
  transaction created fifty hours ago, with a window of 48 hours, are both still stored
  after the delete request, which is answered with status 400.
\<close>

theorem expired_window_counterexample:
  "\<not> canReverseForSettlement exEnvLate exSettlement
   \<and> map_of (settlements exStaleDb) 3 = Some exSettlement
   \<and> settlement_delete exEnvLate exStaleDb 3
       = (Inl (WindowExpired 48), exStaleDb)
   \<and> \<not> canReverseForKarigar exEnvLate exKarigar
   \<and> map_of (karigars exStaleDb) 1 = Some exKarigar
   \<and> karigar_delete exEnvLate exStaleDb 1
       = (Inl (WindowExpired 48), exStaleDb)"
  by (simp add: settlement_delete_def karigar_delete_def canReverseForSettlement_def
        canReverseForKarigar_def canReverseAt_def getReversalWindowHours_def Let_def
        exEnvLate_def exSettlement_def exKarigar_def exStaleDb_def)

text \<open>
  Claim C4, amended. When the reversal window of a record has expired: cancelling an
  active voucher succeeds and changes nothing but the voucher's status; deleting a voucher
  succeeds, the voucher is gone, and no ledger balance and no stock counter changes;
  deleting a settlement, or a karigar transaction that is not yet deleted, is refused with
  status 400 and the store stays as it is, the record included.
\<close>

theorem expired_window_requests:
  "(map_of (vouchers d) vid = Some v \<and> v_status v = Active \<and> \<not> canReverseForVoucher e v
      \<longrightarrow> voucher_cancel e d vid True
            = (Inr (v\<lparr>v_status := Cancelled\<rparr>),
               d\<lparr>vouchers := AList.update vid (v\<lparr>v_status := Cancelled\<rparr>) (vouchers d)\<rparr>))
   \<and> (map_of (vouchers d) vid = Some v \<and> \<not> canReverseForVoucher e v
      \<longrightarrow> (\<exists>d2. voucher_delete e d vid = (Inr (), d2) \<and> map_of (vouchers d2) vid = None
                \<and> stockDoc d2 = stockDoc d \<and> balancesOf d2 = balancesOf d))
   \<and> (map_of (settlements d) sid = Some s \<and> \<not> canReverseForSettlement e s
      \<longrightarrow> settlement_delete e d sid
            = (Inl (WindowExpired (getReversalWindowHours e)), d))
   \<and> (map_of (karigars d) kid = Some t \<and> \<not> k_isDeleted t \<and> \<not> canReverseForKarigar e t
      \<longrightarrow> karigar_delete e d kid
            = (Inl (WindowExpired (getReversalWindowHours e)), d))"
  using cancel_expired[of d vid v e] delete_expired[of d vid v e]
    settlement_delete_expired[of d sid s e] karigar_delete_expired[of d kid t e]
  by blast

text \<open>
  The sale voucher, a settlement and a karigar transaction, all fifty hours old.
\<close>

theorem expired_window_requests_witness:
  "map_of (vouchers exStaleDb) 7 = Some exSaleVoucher
   \<and> v_status exSaleVoucher = Active
   \<and> \<not> canReverseForVoucher exEnvLate exSaleVoucher
   \<and> map_of (settlements exStaleDb) 3 = Some exSettlement
   \<and> \<not> canReverseForSettlement exEnvLate exSettlement
   \<and> map_of (karigars exStaleDb) 1 = Some exKarigar
   \<and> \<not> k_isDeleted exKarigar \<and> \<not> canReverseForKarigar exEnvLate exKarigar
   \<and> fst (voucher_cancel exEnvLate exStaleDb 7 True)
        = Inr (exSaleVoucher\<lparr>v_status := Cancelled\<rparr>)
   \<and> stockDoc (snd (voucher_cancel exEnvLate exStaleDb 7 True)) = stockDoc exStaleDb
   \<and> ledgers (snd (voucher_cancel exEnvLate exStaleDb 7 True)) = ledgers exStaleDb
   \<and> (\<exists>d2. voucher_delete exEnvLate exStaleDb 7 = (Inr (), d2)
          \<and> map_of (vouchers d2) 7 = None
          \<and> stockDoc d2 = stockDoc exStaleDb \<and> balancesOf d2 = balancesOf exStaleDb)
   \<and> fst (settlement_delete exEnvLate exStaleDb 3)
        = Inl (WindowExpired 48)
   \<and> fst (karigar_delete exEnvLate exStaleDb 1)
        = Inl (WindowExpired 48)"
proof -
  have v: "map_of (vouchers exStaleDb) 7 = Some exSaleVoucher"
    by (simp add: exStaleDb_def exLater_eq)
  have a: "v_status exSaleVoucher = Active" by (simp add: exSaleVoucher_def)
  have w: "\<not> canReverseForVoucher exEnvLate exSaleVoucher"
    by (simp add: canReverseForVoucher_def canReverseAt_def getReversalWindowHours_def Let_def
          exEnvLate_def exSaleVoucher_def)
  have s: "map_of (settlements exStaleDb) 3 = Some exSettlement"
    by (simp add: exStaleDb_def)
  have ws: "\<not> canReverseForSettlement exEnvLate exSettlement"
    by (simp add: canReverseForSettlement_def canReverseAt_def getReversalWindowHours_def Let_def
          exEnvLate_def exSettlement_def)
  have k: "map_of (karigars exStaleDb) 1 = Some exKarigar"
    by (simp add: exStaleDb_def)
  have nk: "\<not> k_isDeleted exKarigar" by (simp add: exKarigar_def)
  have wk: "\<not> canReverseForKarigar exEnvLate exKarigar"
    by (simp add: canReverseForKarigar_def canReverseAt_def getReversalWindowHours_def Let_def
          exEnvLate_def exKarigar_def)
  note T = expired_window_requests[where d = exStaleDb and vid = 7 and v = exSaleVoucher
             and e = exEnvLate and sid = 3 and s = exSettlement and kid = 1 and t = exKarigar]
  have h: "getReversalWindowHours exEnvLate = 48"
    by (simp add: getReversalWindowHours_def exEnvLate_def)
  show ?thesis using v a w s ws k nk wk T by (simp add: h)
qed

subsection \<open>C6: money conversion vouchers\<close>

lemma adjust_settlement_type:
  "pt \<in> set SETTLEMENT_TYPES \<Longrightarrow>
   adjustStockForVoucher s (voucherStockAdjustment u pt its) vt = (Inr (), s)"
  by (auto simp: adjustStockForVoucher_def voucherStockAdjustment_def usesStockAdjustment_def
        hasNonZeroStockAdjustment_def BILLING_TYPES_def SETTLEMENT_TYPES_def)

lemma create_write_settlement_type:
  assumes "pt \<in> set SETTLEMENT_TYPES"
    and "voucher_create_write e d i r lid pt vt its l u n b = (Inr v, d')"
  shows "stockDoc d' = stockDoc d
       \<and> balancesOf d' lid = Some (ledger_balances (applyToLedger r pt vt its l))"
  using assms(2) adjust_settlement_type[OF assms(1)]
  unfolding voucher_create_write_def Let_def
  by (auto split: if_splits simp: balancesOf_def update_conv')

lemma cleaned_settlement_type:
  "pt \<in> set SETTLEMENT_TYPES \<Longrightarrow> cleanedItemsFor pt xs = Inr []"
  by (auto simp: cleanedItemsFor_def BILLING_TYPES_def SETTLEMENT_TYPES_def)

lemma create_body_settlement_type:
  assumes pt: "vr_paymentType r = Valid pt" and st: "pt \<in> set SETTLEMENT_TYPES"
    and lid: "vr_ledgerId r = Some lid" and l: "map_of (ledgers d) lid = Some l"
    and ok: "voucher_create_body e d i r = (Inr v, d')"
  shows "stockDoc d' = stockDoc d
       \<and> balancesOf d' lid
           = Some (ledger_balances
                    (applyToLedger r pt (case vr_voucherType r of Valid t \<Rightarrow> t | _ \<Rightarrow> Sale) [] l))"
proof (cases "userDoc d")
  case None
  then show ?thesis using ok pt lid l cleaned_settlement_type[OF st]
    by (simp add: voucher_create_body_def Let_def split: if_splits)
next
  case (Some u)
  from ok pt lid l Some cleaned_settlement_type[OF st]
  obtain n b where "voucher_create_write e d i r lid pt
        (case vr_voucherType r of Valid t \<Rightarrow> t | _ \<Rightarrow> Sale) [] l u n b = (Inr v, d')"
    by (simp add: voucher_create_body_def Let_def split: if_splits)
  then show ?thesis by (rule create_write_settlement_type[OF st])
qed

lemma applyToLedger_money:
  assumes "pt = MoneyToGold \<or> pt = MoneyToSilver" and "ledgerType l = Regular"
    and "vr_invoiceType r \<noteq> Valid GstInvoice"
  shows "ledger_balances (applyToLedger r pt vt its l) =
     (let b = ledger_balances l;
          paid = toNumber (vr_cashReceived r) 0
      in if pt = MoneyToGold
         then b\<lparr>goldFineWeight :=
                  goldFineWeight b - Fin paid / Fin (rateOrOne (toNumber (vr_goldRate r) 0)),
                amount := calculateUnifiedAmount b\<rparr>
         else b\<lparr>silverFineWeight :=
                  silverFineWeight b
                    - Fin paid / Fin (rateOrOne (toNumber (vr_silverRate r) 0)),
                amount := calculateUnifiedAmount b\<rparr>)"
  using assms
  by (auto simp: applyToLedger_def applyVoucherBalances_def isGstRequest_def
        calculateUnifiedAmount_def Let_def)

lemma unified_finite:
  "cashBalance b = Fin c \<Longrightarrow> creditBalance b = Fin k \<Longrightarrow>
   calculateUnifiedAmount b = creditBalance b + cashBalance b"
  by (simp add: calculateUnifiedAmount_def)

text \<open>
  Claim C6 says that a \<open>money_to_gold\<close> voucher decreases \<open>cashBalance\<close> by the amount
  paid. On a regular ledger with \<open>cashBalance = 1000\<close> and 10 g of gold, a conversion of
  500 at rate 100 is accepted and leaves \<open>cashBalance\<close> at 1000; only the gold balance
  moves, from 10 to 5.
\<close>

theorem money_conversion_counterexample:
  "\<not> isl (fst (voucher_create exEnv exCashDb 5 exMoneyToGold))
   \<and> toNumber (vr_cashReceived exMoneyToGold) 0 = 500
   \<and> balancesOf exCashDb 1
       = Some \<lparr>goldFineWeight = Fin 10, silverFineWeight = 0, amount = Fin 1000,
               cashBalance = Fin 1000, creditBalance = 0\<rparr>
   \<and> balancesOf (snd (voucher_create exEnv exCashDb 5 exMoneyToGold)) 1
       = Some \<lparr>goldFineWeight = Fin 5, silverFineWeight = 0, amount = Fin 1000,
               cashBalance = Fin 1000, creditBalance = 0\<rparr>"
  by (simp add: model_defs balancesOf_def exCashDb_def exCashLedger_def exMoneyToGold_def
        exShop_def emptyDb_def exEnv_def exUser_def showNat.simps)

text \<open>
  Claim C6, amended. A successful \<open>money_to_gold\<close> or \<open>money_to_silver\<close> voucher on a
  regular ledger, with an invoice that is not a GST invoice, decreases the matching
  metal's fine-weight balance by \<open>cashReceived\<close> divided by the metal rate (a rate of 0
  counts as 1), leaves \<open>cashBalance\<close> and \<open>creditBalance\<close> as they are, recomputes
  \<open>amount\<close> from the two by \<open>calculateUnifiedAmount\<close> (their sum when both are finite
  numbers), and changes no stock counter. The replay of such a voucher in the balance
  recalculation has the same fine-weight effect and no other.
\<close>

theorem money_conversion_voucher_effect:
  assumes pt: "vr_paymentType r = Valid pt"
    and conv: "pt = MoneyToGold \<or> pt = MoneyToSilver"
    and lid: "vr_ledgerId r = Some lid"
    and l: "map_of (ledgers d) lid = Some l"
    and reg: "ledgerType l = Regular"
    and nogst: "vr_invoiceType r \<noteq> Valid GstInvoice"
    and ok: "voucher_create e d vid r = (Inr v, d')"
  shows "stockDoc d' = stockDoc d
       \<and> balancesOf d' lid =
           Some (let b = ledger_balances l;
                     paid = toNumber (vr_cashReceived r) 0
                 in if pt = MoneyToGold
                    then b\<lparr>goldFineWeight :=
                             goldFineWeight b
                               - Fin paid / Fin (rateOrOne (toNumber (vr_goldRate r) 0)),
                           amount := calculateUnifiedAmount b\<rparr>
                    else b\<lparr>silverFineWeight :=
                             silverFineWeight b
                               - Fin paid / Fin (rateOrOne (toNumber (vr_silverRate r) 0)),
                           amount := calculateUnifiedAmount b\<rparr>)
       \<and> (\<forall>b'. balancesOf d' lid = Some b'
             \<longrightarrow> cashBalance b' = cashBalance (ledger_balances l)
                 \<and> creditBalance b' = creditBalance (ledger_balances l))
       \<and> (\<forall>b' c k. balancesOf d' lid = Some b'
             \<longrightarrow> cashBalance (ledger_balances l) = Fin c
             \<longrightarrow> creditBalance (ledger_balances l) = Fin k
             \<longrightarrow> amount b' = creditBalance b' + cashBalance b')
       \<and> (\<forall>b w. v_invoiceType w = Normal \<longrightarrow> v_paymentType w = pt
             \<longrightarrow> replayVoucher b w =
                   (if pt = MoneyToGold
                    then b\<lparr>goldFineWeight :=
                             goldFineWeight b
                               - Fin (v_cashReceived w) / Fin (rateOrOne (v_goldRate w))\<rparr>
                    else b\<lparr>silverFineWeight :=
                             silverFineWeight b
                               - Fin (v_cashReceived w) / Fin (rateOrOne (v_silverRate w))\<rparr>))"
proof -
  have st: "pt \<in> set SETTLEMENT_TYPES" using conv by (auto simp: SETTLEMENT_TYPES_def)
  have body: "voucher_create_body e d vid r = (Inr v, d')"
    using ok unfolding voucher_create_def by (rule finish_Inr)
  note R = create_body_settlement_type[OF pt st lid l body]
  note A = applyToLedger_money[OF conv reg nogst]
  have 1: "stockDoc d' = stockDoc d" using R by simp
  have 2: "balancesOf d' lid =
           Some (let b = ledger_balances l;
                     paid = toNumber (vr_cashReceived r) 0
                 in if pt = MoneyToGold
                    then b\<lparr>goldFineWeight :=
                             goldFineWeight b
                               - Fin paid / Fin (rateOrOne (toNumber (vr_goldRate r) 0)),
                           amount := calculateUnifiedAmount b\<rparr>
                    else b\<lparr>silverFineWeight :=
                             silverFineWeight b
                               - Fin paid / Fin (rateOrOne (toNumber (vr_silverRate r) 0)),
                           amount := calculateUnifiedAmount b\<rparr>)"
    using R A by simp
  have 3: "\<forall>b'. balancesOf d' lid = Some b'
             \<longrightarrow> cashBalance b' = cashBalance (ledger_balances l)
                 \<and> creditBalance b' = creditBalance (ledger_balances l)"
    unfolding 2 by (auto simp: Let_def)
  have 4: "\<forall>b' c k. balancesOf d' lid = Some b'
             \<longrightarrow> cashBalance (ledger_balances l) = Fin c
             \<longrightarrow> creditBalance (ledger_balances l) = Fin k
             \<longrightarrow> amount b' = creditBalance b' + cashBalance b'"
    unfolding 2 using unified_finite[of "ledger_balances l"] by (auto simp: Let_def)
  have 5: "\<forall>b w. v_invoiceType w = Normal \<longrightarrow> v_paymentType w = pt
             \<longrightarrow> replayVoucher b w =
                   (if pt = MoneyToGold
                    then b\<lparr>goldFineWeight :=
                             goldFineWeight b
                               - Fin (v_cashReceived w) / Fin (rateOrOne (v_goldRate w))\<rparr>
                    else b\<lparr>silverFineWeight :=
                             silverFineWeight b
                               - Fin (v_cashReceived w) / Fin (rateOrOne (v_silverRate w))\<rparr>)"
    using conv by (auto simp: replayVoucher_def)
  show ?thesis using 1 2 3 4 5 by blast
qed

text \<open>The conversion of 500 at rate 100 on the ledger above.\<close>

theorem money_conversion_voucher_effect_witness:
  "vr_paymentType exMoneyToGold = Valid MoneyToGold
   \<and> vr_ledgerId exMoneyToGold = Some 1
   \<and> map_of (ledgers exCashDb) 1 = Some exCashLedger
   \<and> ledgerType exCashLedger = Regular
   \<and> vr_invoiceType exMoneyToGold \<noteq> Valid GstInvoice
   \<and> \<not> isl (fst (voucher_create exEnv exCashDb 5 exMoneyToGold))
   \<and> stockDoc (snd (voucher_create exEnv exCashDb 5 exMoneyToGold)) = stockDoc exCashDb
   \<and> balancesOf (snd (voucher_create exEnv exCashDb 5 exMoneyToGold)) 1
       = Some \<lparr>goldFineWeight = Fin 5, silverFineWeight = 0, amount = Fin 1000,
               cashBalance = Fin 1000, creditBalance = 0\<rparr>"
proof -
  have a: "vr_paymentType exMoneyToGold = Valid MoneyToGold"
    and b: "vr_ledgerId exMoneyToGold = Some 1"
    and i: "vr_invoiceType exMoneyToGold \<noteq> Valid GstInvoice"
    by (simp_all add: exMoneyToGold_def)
  have l: "map_of (ledgers exCashDb) 1 = Some exCashLedger" by (simp add: exCashDb_def)
  have g: "ledgerType exCashLedger = Regular" by (simp add: exCashLedger_def)
  have k: "\<not> isl (fst (voucher_create exEnv exCashDb 5 exMoneyToGold))"
    by (simp add: model_defs exCashDb_def exCashLedger_def exMoneyToGold_def
          exShop_def emptyDb_def exEnv_def exUser_def showNat.simps)
  then obtain v where "fst (voucher_create exEnv exCashDb 5 exMoneyToGold) = Inr v"
    by (cases "fst (voucher_create exEnv exCashDb 5 exMoneyToGold)") auto
  then have "voucher_create exEnv exCashDb 5 exMoneyToGold
       = (Inr v, snd (voucher_create exEnv exCashDb 5 exMoneyToGold))"
    by (simp add: prod_eq_iff)
  note T = money_conversion_voucher_effect[OF a _ b l g i this]
  have "stockDoc (snd (voucher_create exEnv exCashDb 5 exMoneyToGold)) = stockDoc exCashDb
      \<and> balancesOf (snd (voucher_create exEnv exCashDb 5 exMoneyToGold)) 1
       = Some \<lparr>goldFineWeight = Fin 5, silverFineWeight = 0, amount = Fin 1000,
               cashBalance = Fin 1000, creditBalance = 0\<rparr>"
    using T by (simp add: exCashLedger_def exMoneyToGold_def rateOrOne_def Let_def
                  calculateUnifiedAmount_def minus_num_def num_of_small)
  then show ?thesis using a b i l g k by simp
qed

subsection \<open>C5: compensation of the stock adjustment\<close>

text \<open>
  The settlement create handler does compensate: whenever it answers with an error, the
  stock counters are what they were before the request.
\<close>

lemma deduct_then_addBack:
  "fst (deductFromStock s (Num g) (Num sv)) = Inr st \<Longrightarrow>
   ensureUserStock (snd (addBackToStock (snd (deductFromStock s (Num g) (Num sv))) (Num g) (Num sv)))
     = ensureUserStock s
   \<and> (\<exists>st'. fst (addBackToStock (snd (deductFromStock s (Num g) (Num sv))) (Num g) (Num sv)) = Inr st')"
  by (auto simp: deductFromStock_def addBackToStock_def Let_def ensureUserStock_def
        split: if_splits option.splits)

lemma addBack_then_deduct:
  "stockOk s \<Longrightarrow> fst (addBackToStock s (Num g) (Num sv)) = Inr st \<Longrightarrow>
   ensureUserStock (snd (deductFromStock (snd (addBackToStock s (Num g) (Num sv))) (Num g) (Num sv)))
     = ensureUserStock s
   \<and> (\<exists>st'. fst (deductFromStock (snd (addBackToStock s (Num g) (Num sv))) (Num g) (Num sv)) = Inr st')"
  by (auto simp: deductFromStock_def addBackToStock_def Let_def ensureUserStock_def stockOk_def
        split: if_splits option.splits)

lemma stock_call_failure:
  "fst (settlementStockCall s act m f) = Inl err \<Longrightarrow>
   ensureUserStock (snd (settlementStockCall s act m f)) = ensureUserStock s"
  by (auto simp: settlementStockCall_def deductFromStock_def addBackToStock_def Let_def
        ensureUserStock_def goldPart_def silverPart_def
        split: stock_action.splits if_splits option.splits)

lemma inverse_restores:
  assumes "stockOk s" and "fst (settlementStockCall s act m f) = Inr st"
  shows "ensureUserStock (snd (inverseStockCall (snd (settlementStockCall s act m f)) act m f))
           = ensureUserStock s
       \<and> (\<exists>st'. fst (inverseStockCall (snd (settlementStockCall s act m f)) act m f) = Inr st')"
proof (cases act)
  case ActDeduct
  then show ?thesis using assms(2) deduct_then_addBack[of s _ _ st]
    by (simp add: settlementStockCall_def inverseStockCall_def goldPart_def silverPart_def)
next
  case ActAdd
  then show ?thesis using assms addBack_then_deduct[of s _ _ st]
    by (simp add: settlementStockCall_def inverseStockCall_def goldPart_def silverPart_def)
qed

lemma settlement_commit_failure:
  assumes "stockOk s" and "fst (settlementStockCall s act m (toNumber (sr_fineGiven r) 0)) = Inr st"
    and "stockDoc d1 = snd (settlementStockCall s act m (toNumber (sr_fineGiven r) 0))"
    and "fst (settlement_commit e d1 i r lid m dir l act) = Inl err"
  shows "ensureUserStock (stockDoc (snd (settlement_commit e d1 i r lid m dir l act)))
           = ensureUserStock s"
  using assms(4) inverse_restores[OF assms(1,2)] assms(3)
  unfolding settlement_commit_def Let_def settlement_catch_def
  by (auto split: if_splits sum.splits)

lemma settlement_process_failure:
  assumes "stockOk (stockDoc d)"
    and "fst (settlement_process e d i r lid m dir) = Inl err"
  shows "ensureUserStock (stockDoc (snd (settlement_process e d i r lid m dir)))
           = ensureUserStock (stockDoc d)"
proof (cases "map_of (ledgers d) lid")
  case None
  then show ?thesis by (simp add: settlement_process_def)
next
  case (Some l)
  show ?thesis
  proof (cases "settlementPrecheck r m dir (ledger_balances l)")
    case (Some a)
    then show ?thesis using \<open>map_of (ledgers d) lid = Some l\<close>
      by (simp add: settlement_process_def)
  next
    case None
    define act where "act = settlementStockAction r dir"
    define sr where "sr = settlementStockCall (stockDoc d) act m (toNumber (sr_fineGiven r) 0)"
    show ?thesis
    proof (cases "fst sr")
      case (Inl e1)
      then show ?thesis
        using None \<open>map_of (ledgers d) lid = Some l\<close> stock_call_failure[of "stockDoc d" act m _ e1]
        unfolding sr_def act_def
        by (simp add: settlement_process_def Let_def settlement_catch_def)
    next
      case (Inr st)
      have P: "settlement_process e d i r lid m dir
          = settlement_commit e (d\<lparr>stockDoc := snd sr\<rparr>) i r lid m dir l act"
        using None \<open>map_of (ledgers d) lid = Some l\<close> Inr
        unfolding sr_def act_def by (simp add: settlement_process_def Let_def)
      show ?thesis
        unfolding P
        using settlement_commit_failure[OF assms(1) Inr[unfolded sr_def], of "d\<lparr>stockDoc := snd sr\<rparr>" e i lid dir l err]
          assms(2)[unfolded P]
        by (simp add: sr_def)
    qed
  qed
qed

lemma settlement_create_compensates:
  assumes "stockOk (stockDoc d)" and "fst (settlement_create e d i r) = Inl err"
  shows "ensureUserStock (stockDoc (snd (settlement_create e d i r)))
           = ensureUserStock (stockDoc d)"
  using assms settlement_process_failure[OF assms(1)]
  unfolding settlement_create_def
  by (auto split: option.splits field.splits if_splits)

text \<open>
  Claim C5 asks the same of voucher create. That handler makes no inverse call; it relies
  on the session being aborted. On a storage node without transaction support the
  purchase below adds 5 g of gold to the stock, fails on the silver deduction with
  \<open>InsufficientStock\<close>, and the 5 g stay; with transaction support the same request
  leaves the store untouched. Likewise a sale whose invoice type the schema refuses fails
  at the save of the voucher, after 10 g of gold have been deducted, and no voucher is
  stored.
\<close>

theorem voucher_create_failure_keeps_stock_change:
  "stockDoc exEmptyStockDb = Some exStock0
   \<and> voucher_create exEnv exEmptyStockDb 5 exPurchase
       = (Inl InsufficientStock, exEmptyStockDb\<lparr>stockDoc := Some exStock5\<rparr>)
   \<and> voucher_create (exEnv\<lparr>txn := True\<rparr>) exEmptyStockDb 5 exPurchase
       = (Inl InsufficientStock, exEmptyStockDb)
   \<and> stockDoc exCashDb = Some \<lparr>gold = 25, silver = 40, cashInHand = 0\<rparr>
   \<and> fst (voucher_create exEnv exCashDb 5 (exCreditSale\<lparr>vr_invoiceType := Invalid\<rparr>))
       = Inl ServerError
   \<and> stockDoc (snd (voucher_create exEnv exCashDb 5 (exCreditSale\<lparr>vr_invoiceType := Invalid\<rparr>)))
       = Some \<lparr>gold = 15, silver = 40, cashInHand = 0\<rparr>
   \<and> vouchers (snd (voucher_create exEnv exCashDb 5 (exCreditSale\<lparr>vr_invoiceType := Invalid\<rparr>)))
       = []"
  by (simp add: model_defs exEmptyStockDb_def exCashDb_def exCashLedger_def exPurchase_def
        exGoldBar_def exSilverReturn_def exCreditSale_def exGoldItem_def exStock0_def
        exStock5_def exShop_def emptyDb_def exEnv_def exUser_def showNat.simps)

subsection \<open>C7: balances of GST ledgers\<close>

text \<open>
  Claim C7 says that the balances of a GST ledger are zero after every operation, ledger
  creation included. The create handler copies the opening balance into the balances
  whatever the ledger type: the GST ledger below starts with \<open>amount = 100\<close> and 2 g of
  gold. The update handler, given the same opening balance for the same ledger, and the
  recalculation both reset the balances of a GST ledger to zero.
\<close>

theorem gst_ledger_created_with_balances:
  "map_option ledgerType (map_of (ledgers exGstDb) 2) = Some Gst
   \<and> balancesOf exGstDb 2
       = Some \<lparr>goldFineWeight = Fin 2, silverFineWeight = 0, amount = Fin 100,
               cashBalance = Fin 100, creditBalance = 0\<rparr>
   \<and> balancesOf (snd (ledger_update exEnv exGstDb 2 exGstLedgerReq)) 2 = Some resetBalances
   \<and> balancesOf (snd (ledger_recalculate exEnv exGstDb 2)) 2 = Some resetBalances"
  by (simp add: model_defs balancesOf_def exGstDb_def exGstLedgerReq_def exShop_def
        emptyDb_def exEnv_def exUser_def)

end
